theory Spec2Isabelle
  imports Main "HOL-Library.Sublist"
begin

text \<open>
  A model of \<^verbatim>\<open>server.js\<close>, the server of the Legend Cyber Analyzer: the helpers that
  call DNS, RDAP, WHOIS, the geolocation service, Shodan and TCP sockets, the scoring
  function, and the handlers of \<^verbatim>\<open>POST /api/scan\<close> (basic profile) and
  \<^verbatim>\<open>POST /api/deepscan\<close> (deep profile). The outside world is a parameter: what each
  external call comes to is read from an environment, and every call is written to a log.
  The Stripe routes (checkout, webhook) are not modelled; the set of paid sessions they
  fill is a parameter of the deep handler.
\<close>

section \<open>Regular expressions of the source\<close>

text \<open>
  The patterns \<^verbatim>\<open>/^\d+\.\d+\.\d+\.\d+$/\<close>, \<^verbatim>\<open>/^[a-z0-9.-]+\.[a-z]{2,}$/i\<close> and
  \<^verbatim>\<open>/google/i\<close> are terms of \<open>rx\<close>. \<open>lang\<close> is the language of a term and
  \<open>matches\<close> decides membership by derivatives; \<^verbatim>\<open>test\<close> on a pattern anchored at both
  ends asks whether the whole string is in the language. Strings are lists of 8-bit
  characters; a character outside ASCII satisfies no atom of these patterns, as in the
  source, where \<^verbatim>\<open>\d\<close> is 0-9 and the flag \<^verbatim>\<open>i\<close> folds ASCII letters only.
\<close>

datatype rx = Fail | Eps | Chr "char \<Rightarrow> bool" | Alt rx rx | Seq rx rx | Star rx

inductive_set star :: "string set \<Rightarrow> string set" for A :: "string set" where
  star_nil: "[] \<in> star A"
| star_app: "u \<in> A \<Longrightarrow> v \<in> star A \<Longrightarrow> u @ v \<in> star A"

fun lang :: "rx \<Rightarrow> string set" where
  "lang Fail = {}"
| "lang Eps = {[]}"
| "lang (Chr p) = {[c] | c. p c}"
| "lang (Alt r s) = lang r \<union> lang s"
| "lang (Seq r s) = {u @ v | u v. u \<in> lang r \<and> v \<in> lang s}"
| "lang (Star r) = star (lang r)"

fun nullable :: "rx \<Rightarrow> bool" where
  "nullable Fail = False"
| "nullable Eps = True"
| "nullable (Chr p) = False"
| "nullable (Alt r s) = (nullable r \<or> nullable s)"
| "nullable (Seq r s) = (nullable r \<and> nullable s)"
| "nullable (Star r) = True"

fun after :: "char \<Rightarrow> rx \<Rightarrow> rx" where
  "after c Fail = Fail"
| "after c Eps = Fail"
| "after c (Chr p) = (if p c then Eps else Fail)"
| "after c (Alt r s) = Alt (after c r) (after c s)"
| "after c (Seq r s) =
     (if nullable r then Alt (Seq (after c r) s) (after c s) else Seq (after c r) s)"
| "after c (Star r) = Seq (after c r) (Star r)"

fun matches :: "rx \<Rightarrow> string \<Rightarrow> bool" where
  "matches r [] = nullable r"
| "matches r (c # cs) = matches (after c r) cs"

definition plus :: "rx \<Rightarrow> rx" where
  "plus r = Seq r (Star r)"

definition digit :: "char \<Rightarrow> bool" where
  "digit c = (c \<in> set ''0123456789'')"

definition letter_i :: "char \<Rightarrow> bool" where
  "letter_i c = (c \<in> set ''abcdefghijklmnopqrstuvwxyzABCDEFGHIJKLMNOPQRSTUVWXYZ'')"

definition label_i :: "char \<Rightarrow> bool" where
  "label_i c = (letter_i c \<or> digit c \<or> c = CHR ''.'' \<or> c = CHR ''-'')"

definition dot :: rx where
  "dot = Chr (\<lambda>c. c = CHR ''.'')"

definition ipv4_rx :: rx where
  "ipv4_rx = Seq (plus (Chr digit)) (Seq dot (Seq (plus (Chr digit)) (Seq dot
               (Seq (plus (Chr digit)) (Seq dot (plus (Chr digit)))))))"

definition domain_rx :: rx where
  "domain_rx = Seq (plus (Chr label_i)) (Seq dot
                 (Seq (Chr letter_i) (Seq (Chr letter_i) (Star (Chr letter_i)))))"

text \<open>
  \<^verbatim>\<open>/google/i.test(s)\<close> is not anchored: it searches anywhere in \<open>s\<close>, and each
  letter of the pattern matches either case.
\<close>

definition ci :: "char \<Rightarrow> char \<Rightarrow> char \<Rightarrow> bool" where
  "ci lo up c = (c = lo \<or> c = up)"

definition anywhere :: "rx \<Rightarrow> rx" where
  "anywhere r = Seq (Star (Chr (\<lambda>c. True))) (Seq r (Star (Chr (\<lambda>c. True))))"

definition google_word :: rx where
  "google_word = Seq (Chr (ci CHR ''g'' CHR ''G'')) (Seq (Chr (ci CHR ''o'' CHR ''O''))
                 (Seq (Chr (ci CHR ''o'' CHR ''O'')) (Seq (Chr (ci CHR ''g'' CHR ''G''))
                 (Seq (Chr (ci CHR ''l'' CHR ''L'')) (Chr (ci CHR ''e'' CHR ''E''))))))"

definition google_rx :: rx where
  "google_rx = anywhere google_word"

section \<open>Values and records of the server\<close>

text \<open>
  JSON values as \<^verbatim>\<open>r.json()\<close> yields them (numbers are integers here, and an
  object lists each of its members once); \<open>truthy\<close> is
  JavaScript's conversion to a boolean, used by \<^verbatim>\<open>!!out.rdap\<close>, \<^verbatim>\<open>if (ip)\<close>,
  \<^verbatim>\<open>ip || null\<close> and \<^verbatim>\<open>if (!target)\<close>. A string that may be missing or null is a
  \<open>string option\<close>.
\<close>

datatype json = JNull | JBool bool | JNum int | JStr string | JArr "json list"
  | JObj "(string \<times> json) list"

fun truthy :: "json \<Rightarrow> bool" where
  "truthy JNull = False"
| "truthy (JBool b) = b"
| "truthy (JNum n) = (n \<noteq> 0)"
| "truthy (JStr s) = (s \<noteq> [])"
| "truthy (JArr xs) = True"
| "truthy (JObj fs) = True"

fun truthy_str :: "string option \<Rightarrow> bool" where
  "truthy_str None = False"
| "truthy_str (Some s) = (s \<noteq> [])"

fun or_null :: "string option \<Rightarrow> json" where
  "or_null None = JNull"
| "or_null (Some s) = (if s \<noteq> [] then JStr s else JNull)"

text \<open>
  What an external call comes to (it throws or rejects with a message, or it yields a
  value), and the three states of a promise.
\<close>

datatype 'a outcome = Failure string | Success 'a

datatype 'a promise = Rejected string | Resolved 'a | Pending

text \<open>
  A response of \<^verbatim>\<open>fetch\<close>: its status, and what \<^verbatim>\<open>r.json()\<close> comes to (it rejects on
  a body that does not parse). \<^verbatim>\<open>r.ok\<close> is a status in 200..299.
\<close>

record response =
  r_status :: nat
  r_json :: "json outcome"

definition r_ok :: "response \<Rightarrow> bool" where
  "r_ok r = (200 \<le> r_status r \<and> r_status r \<le> 299)"

text \<open>
  The objects the handlers build. A member that is absent is \<open>None\<close>; a member that
  holds null is \<open>Some JNull\<close>. \<open>scan_out\<close> has the members of both handlers' \<^verbatim>\<open>out\<close>:
  the basic handler sets \<open>type\<close> and \<open>checks\<close> and never \<open>details\<close>, the deep handler
  sets \<open>details\<close> and neither \<open>type\<close> nor \<open>checks\<close>. \<open>hints\<close> holds the text of
  \<^verbatim>\<open>hints.suggestion\<close>.
\<close>

record port_result =
  port :: nat
  status :: string

record checks =
  checks_rdap :: "bool option"
  checks_https :: "bool option"

record details =
  details_whois :: "json option"
  details_rdap :: "json option"
  details_geo :: "json option"
  details_ports :: "port_result list option"
  details_shodan :: "json option"

record scan_out =
  target :: string
  type :: "string option"
  "when" :: string
  checks :: "checks option"
  rdap :: "json option"
  whois :: "json option"
  resolved_ip :: "json option"
  geo :: "json option"
  https_status :: "nat option"
  hints :: "string option"
  details :: "details option"
  score :: "int option"

datatype body = ErrorBody string | OutBody scan_out

record http_response =
  code :: nat
  body :: body

record request =
  req_target :: "string option"
  req_type :: "string option"
  req_session_id :: "string option"

text \<open>
  The log: one entry per call to the outside (\<^verbatim>\<open>dns.promises.lookup\<close>, \<^verbatim>\<open>fetch\<close>,
  \<^verbatim>\<open>whoiser\<close>, \<^verbatim>\<open>socket.connect\<close>, \<^verbatim>\<open>db.run\<close>), and one per entry into
  \<^verbatim>\<open>shodanLookup\<close>, which may return without any call.
\<close>

datatype call = DnsLookup string | Fetch string | Whoiser string | SocketConnect nat string
  | ShodanLookup string | DbRun string string scan_out

text \<open>
  What becomes of a socket after \<^verbatim>\<open>socket.connect(port, host)\<close>: the call throws at once
  (a port out of range); the connection is made (event \<^verbatim>\<open>connect\<close>); nothing happens
  until the timer set by \<^verbatim>\<open>socket.setTimeout(timeout)\<close> fires (event \<^verbatim>\<open>timeout\<close>); or
  the socket fails (event \<^verbatim>\<open>error\<close>: connection refused, host unreachable, host name
  not resolved), after which Node destroys it.
\<close>

datatype socket_fate = Throws string | Connects | Idles | Fails string

text \<open>
  The environment. Each call is given the log so far, so the same call may come to
  different outcomes at different moments. \<open>now\<close> is the time stamp
  \<^verbatim>\<open>new Date().toISOString()\<close>.
\<close>

record env =
  dns_lookup :: "call list \<Rightarrow> string \<Rightarrow> string outcome"
  fetch :: "call list \<Rightarrow> string \<Rightarrow> response outcome"
  whoiser :: "call list \<Rightarrow> string \<Rightarrow> json outcome"
  socket_connect :: "call list \<Rightarrow> nat \<Rightarrow> string \<Rightarrow> socket_fate"
  now :: string

text \<open>
  \<^verbatim>\<open>SHODAN_KEY = process.env.SHODAN_API_KEY || null\<close>, and the set \<^verbatim>\<open>paidSessions\<close>.
\<close>

record config =
  SHODAN_API_KEY :: "string option"

record server =
  paidSessions :: "string set"

definition SHODAN_KEY :: "config \<Rightarrow> string option" where
  "SHODAN_KEY cfg = (if truthy_str (SHODAN_API_KEY cfg) then SHODAN_API_KEY cfg else None)"

text \<open>The decimal digits of a status, for \<^verbatim>\<open>`shodan:${r.status}`\<close>.\<close>

fun string_of_nat :: "nat \<Rightarrow> string" where
  "string_of_nat n =
     (if n < 10 then [char_of (48 + n)] else string_of_nat (n div 10) @ [char_of (48 + n mod 10)])"

declare string_of_nat.simps [simp del]

section \<open>Asynchronous actions\<close>

text \<open>
  An \<^verbatim>\<open>async\<close> function is a function from the log to the state its promise ends in
  and the log then. \<open>await\<close> passes a resolved value on and lets a rejection (or a promise
  that never settles) through; \<open>try_catch\<close> hands a rejection to its handler.
  \<open>sync\<close> is a synchronous call inside an \<^verbatim>\<open>async\<close> function: its result is passed
  on, and what it throws goes where a rejection goes; it adds nothing to the log.
\<close>

type_synonym 'a action = "call list \<Rightarrow> 'a promise \<times> call list"

definition ret :: "'a \<Rightarrow> 'a action" where
  "ret x tr = (Resolved x, tr)"

definition await :: "'a action \<Rightarrow> ('a \<Rightarrow> 'b action) \<Rightarrow> 'b action" where
  "await m k tr =
     (case m tr of
        (Resolved x, tr') \<Rightarrow> k x tr'
      | (Rejected msg, tr') \<Rightarrow> (Rejected msg, tr')
      | (Pending, tr') \<Rightarrow> (Pending, tr'))"

definition try_catch :: "'a action \<Rightarrow> (string \<Rightarrow> 'a action) \<Rightarrow> 'a action" where
  "try_catch m h tr =
     (case m tr of
        (Rejected msg, tr') \<Rightarrow> h msg tr'
      | (Resolved x, tr') \<Rightarrow> (Resolved x, tr')
      | (Pending, tr') \<Rightarrow> (Pending, tr'))"

fun settle :: "'a outcome \<Rightarrow> 'a promise" where
  "settle (Failure msg) = Rejected msg"
| "settle (Success x) = Resolved x"

definition dns_promises_lookup :: "env \<Rightarrow> string \<Rightarrow> string action" where
  "dns_promises_lookup e host tr = (settle (dns_lookup e tr host), tr @ [DnsLookup host])"

definition fetch_call :: "env \<Rightarrow> string \<Rightarrow> response action" where
  "fetch_call e url tr = (settle (fetch e tr url), tr @ [Fetch url])"

definition json_call :: "response \<Rightarrow> json action" where
  "json_call r tr = (settle (r_json r), tr)"

definition whoiser_call :: "env \<Rightarrow> string \<Rightarrow> json action" where
  "whoiser_call e domain tr = (settle (whoiser e tr domain), tr @ [Whoiser domain])"

definition sync :: "'a outcome \<Rightarrow> 'a action" where
  "sync x tr = (settle x, tr)"

definition db_run :: "string \<Rightarrow> string \<Rightarrow> scan_out \<Rightarrow> unit action" where
  "db_run tgt ty out tr = (Resolved (), tr @ [DbRun tgt ty out])"

section \<open>Helpers\<close>

text \<open>
  In \<^verbatim>\<open>ipGeo\<close> and \<^verbatim>\<open>rdapLookup\<close> the \<^verbatim>\<open>try\<close> block returns the parsed body of a
  success response; a non-success response falls through and a rejection is caught, both
  ending in \<^verbatim>\<open>return null\<close>.
\<close>

definition resolveToIp :: "env \<Rightarrow> string \<Rightarrow> string option action" where
  "resolveToIp e host =
     try_catch (await (dns_promises_lookup e host) (\<lambda>address. ret (Some address)))
       (\<lambda>msg. ret None)"

definition geo_url :: "string \<Rightarrow> string" where
  "geo_url ip = ''http://ip-api.com/json/'' @ ip
     @ ''?fields=status,message,country,regionName,city,isp,org,query,as''"

definition ipGeo :: "env \<Rightarrow> string \<Rightarrow> json action" where
  "ipGeo e ip =
     try_catch (await (fetch_call e (geo_url ip))
                  (\<lambda>r. if r_ok r then json_call r else ret JNull))
       (\<lambda>msg. ret JNull)"

definition rdap_url :: "string \<Rightarrow> string \<Rightarrow> string" where
  "rdap_url tgt ty =
     (if ty = ''ip'' then ''https://rdap.org/ip/'' @ tgt
      else ''https://rdap.org/domain/'' @ tgt)"

definition rdapLookup :: "env \<Rightarrow> string \<Rightarrow> string \<Rightarrow> json action" where
  "rdapLookup e tgt ty =
     try_catch (await (fetch_call e (rdap_url tgt ty))
                  (\<lambda>r. if r_ok r then json_call r else ret JNull))
       (\<lambda>msg. ret JNull)"

definition whoisLookup :: "env \<Rightarrow> string \<Rightarrow> json action" where
  "whoisLookup e domain = try_catch (whoiser_call e domain) (\<lambda>msg. ret JNull)"

definition error_record :: "string \<Rightarrow> json" where
  "error_record msg = JObj [(''error'', JStr msg)]"

definition shodan_url :: "string \<Rightarrow> string \<Rightarrow> string" where
  "shodan_url ip k = ''https://api.shodan.io/shodan/host/'' @ ip @ ''?key='' @ k"

definition shodanLookup :: "config \<Rightarrow> env \<Rightarrow> string \<Rightarrow> json action" where
  "shodanLookup cfg e ip tr =
     (case SHODAN_KEY cfg of
        None \<Rightarrow> ret JNull (tr @ [ShodanLookup ip])
      | Some k \<Rightarrow>
          try_catch (await (fetch_call e (shodan_url ip k))
                       (\<lambda>r. if r_ok r then json_call r
                            else ret (error_record (''shodan:'' @ string_of_nat (r_status r)))))
            (\<lambda>msg. ret (error_record msg)) (tr @ [ShodanLookup ip]))"

section \<open>Port scanner\<close>

text \<open>
  \<open>probe\<close> is the state of one \<^verbatim>\<open>scanPort\<close> call: the variable \<^verbatim>\<open>status\<close> of its
  closure, whether the socket has been destroyed, and the value the promise was resolved
  with, if any. The four handlers are those registered with \<^verbatim>\<open>socket.once\<close>; Node
  emits \<^verbatim>\<open>close\<close> once a socket is destroyed. A throw inside the promise's executor
  rejects the promise; a promise nobody resolves stays pending.
\<close>

record probe =
  status_var :: string
  destroyed :: bool
  resolved :: "port_result option"

definition destroy :: "probe \<Rightarrow> probe" where
  "destroy s = s\<lparr>destroyed := True\<rparr>"

definition on_connect :: "probe \<Rightarrow> probe" where
  "on_connect s = destroy (s\<lparr>status_var := ''open''\<rparr>)"

definition on_timeout :: "probe \<Rightarrow> probe" where
  "on_timeout s = destroy s"

definition on_error :: "probe \<Rightarrow> probe" where
  "on_error s = s"

definition on_close :: "nat \<Rightarrow> probe \<Rightarrow> probe" where
  "on_close p s = s\<lparr>resolved := Some \<lparr>port = p, status = status_var s\<rparr>\<rparr>"

definition emit_close :: "nat \<Rightarrow> probe \<Rightarrow> probe" where
  "emit_close p s = (if destroyed s then on_close p s else s)"

fun deliver :: "socket_fate \<Rightarrow> nat \<Rightarrow> probe \<Rightarrow> probe" where
  "deliver Connects p s = emit_close p (on_connect s)"
| "deliver Idles p s = emit_close p (on_timeout s)"
| "deliver (Fails msg) p s = emit_close p (destroy (on_error s))"
| "deliver (Throws msg) p s = s"

definition scanPort :: "env \<Rightarrow> string \<Rightarrow> nat \<Rightarrow> port_result action" where
  "scanPort e host p tr =
     (case socket_connect e tr p host of
        Throws msg \<Rightarrow> (Rejected msg, tr @ [SocketConnect p host])
      | fate \<Rightarrow>
          (case resolved (deliver fate p
                  \<lparr>status_var = ''closed'', destroyed = False, resolved = None\<rparr>) of
             Some r \<Rightarrow> (Resolved r, tr @ [SocketConnect p host])
           | None \<Rightarrow> (Pending, tr @ [SocketConnect p host])))"

fun scanPorts_loop :: "env \<Rightarrow> string \<Rightarrow> nat list \<Rightarrow> port_result list \<Rightarrow> port_result list action"
  where
  "scanPorts_loop e host [] out tr = ret out tr"
| "scanPorts_loop e host (p # ps) out tr =
     (case try_catch (await (scanPort e host p) (\<lambda>r. ret (out @ [r])))
             (\<lambda>msg. ret (out @ [\<lparr>port = p, status = ''error''\<rparr>])) tr of
        (Resolved out', tr') \<Rightarrow> scanPorts_loop e host ps out' tr'
      | (Rejected msg, tr') \<Rightarrow> (Rejected msg, tr')
      | (Pending, tr') \<Rightarrow> (Pending, tr'))"

definition scanPorts :: "env \<Rightarrow> string \<Rightarrow> nat list \<Rightarrow> port_result list action" where
  "scanPorts e host ports = scanPorts_loop e host ports []"

section \<open>Score\<close>

text \<open>
  \<^verbatim>\<open>out.geo?.isp\<close> is \<open>get_isp\<close>: the member \<^verbatim>\<open>isp\<close> of the geolocation record when
  that record is an object, and \<^verbatim>\<open>undefined\<close> otherwise (no record, \<^verbatim>\<open>null\<close>, or a value
  without that member).

  \<^verbatim>\<open>RegExp.prototype.test\<close> converts its argument to a string first. \<open>to_string\<close> is that
  conversion on a value parsed from JSON: a string is itself, a number its decimal digits
  (JavaScript rounds an integer beyond \<^verbatim>\<open>2^53\<close> and prints an exponent from
  \<^verbatim>\<open>1e21\<close> on: the string then still has only digits, a sign, a point and the letter
  \<^verbatim>\<open>e\<close>, so that no match depends on it), a boolean \<^verbatim>\<open>true\<close> or \<^verbatim>\<open>false\<close>, an array the conversions of its elements
  joined by commas with \<^verbatim>\<open>null\<close> elements empty, and an object \<^verbatim>\<open>[object Object]\<close>.
  An object with a member \<^verbatim>\<open>toString\<close> of its own hides the inherited method behind a
  value that is not callable, whatever it is; \<^verbatim>\<open>valueOf\<close> then gives back the object
  itself or is hidden as well, and the conversion throws a \<^verbatim>\<open>TypeError\<close> with the message
  \<open>cannot_convert\<close>. A throw is the outcome \<open>Failure\<close>.

  The three conditions of \<^verbatim>\<open>heuristicScore\<close> are \<open>https_failed\<close>, \<open>rdap_failed\<close> and
  \<open>isp_google\<close>; the third one can throw, and \<^verbatim>\<open>heuristicScore\<close> with it.
\<close>

definition cannot_convert :: string where
  "cannot_convert = ''Cannot convert object to primitive value''"

definition string_of_int :: "int \<Rightarrow> string" where
  "string_of_int i =
     (if i < 0 then CHR ''-'' # string_of_nat (nat (- i)) else string_of_nat (nat i))"

fun to_string :: "json \<Rightarrow> string outcome"
  and join_comma :: "json list \<Rightarrow> string outcome" where
  "to_string JNull = Success ''null''"
| "to_string (JBool b) = Success (if b then ''true'' else ''false'')"
| "to_string (JNum n) = Success (string_of_int n)"
| "to_string (JStr s) = Success s"
| "to_string (JArr xs) = join_comma xs"
| "to_string (JObj fs) =
     (if map_of fs ''toString'' \<noteq> None then Failure cannot_convert
      else Success ''[object Object]'')"
| "join_comma [] = Success []"
| "join_comma (x # xs) =
     (case (if x = JNull then Success [] else to_string x) of
        Failure msg \<Rightarrow> Failure msg
      | Success s \<Rightarrow>
          (if xs = [] then Success s
           else (case join_comma xs of
                   Failure msg \<Rightarrow> Failure msg
                 | Success r \<Rightarrow> Success (s @ '','' @ r))))"

definition regexp_test :: "rx \<Rightarrow> json \<Rightarrow> bool outcome" where
  "regexp_test r v =
     (case to_string v of Failure msg \<Rightarrow> Failure msg | Success s \<Rightarrow> Success (matches r s))"

definition get_isp :: "json option \<Rightarrow> json option" where
  "get_isp g = (case g of Some (JObj fs) \<Rightarrow> map_of fs ''isp'' | _ \<Rightarrow> None)"

definition https_failed :: "scan_out \<Rightarrow> bool" where
  "https_failed out = (case checks out of Some c \<Rightarrow> checks_https c = Some False | None \<Rightarrow> False)"

definition rdap_failed :: "scan_out \<Rightarrow> bool" where
  "rdap_failed out = (case checks out of Some c \<Rightarrow> checks_rdap c = Some False | None \<Rightarrow> False)"

definition isp_google :: "scan_out \<Rightarrow> bool outcome" where
  "isp_google out =
     (case get_isp (geo out) of
        None \<Rightarrow> Success False
      | Some v \<Rightarrow> if truthy v then regexp_test google_rx v else Success False)"

definition heuristicScore :: "scan_out \<Rightarrow> int outcome" where
  "heuristicScore out =
     (let s = 50;
          s = (if https_failed out then s + 15 else s);
          s = (if rdap_failed out then s + 10 else s)
      in case isp_google out of
           Failure msg \<Rightarrow> Failure msg
         | Success g \<Rightarrow> (let s = (if g then s - 8 else s) in Success (max 0 (min 100 s))))"

definition COMMON_PORTS :: "nat list" where
  "COMMON_PORTS = [80, 443, 21, 22, 25, 53, 110, 143, 161, 3306, 3389, 5900, 8080, 8443, 587,
                   993, 995, 2082, 2083, 8444]"

section \<open>Request handlers\<close>

text \<open>
  \<open>respond\<close> is the outer \<^verbatim>\<open>try\<close>/\<^verbatim>\<open>catch\<close> of a handler: the body's answer is sent, a
  rejection is answered with status 500, and a body that never settles leaves the request
  unanswered (\<open>None\<close>). Each handler starts with an empty log. An assignment to
  \<^verbatim>\<open>out.checks.rdap\<close> or \<^verbatim>\<open>out.details.geo\<close> updates the inner object, which the
  handler has created before.
\<close>

definition json_error :: "nat \<Rightarrow> string \<Rightarrow> http_response" where
  "json_error c msg = \<lparr>code = c, body = ErrorBody msg\<rparr>"

definition json_ok :: "scan_out \<Rightarrow> http_response" where
  "json_ok out = \<lparr>code = 200, body = OutBody out\<rparr>"

definition respond :: "http_response action \<Rightarrow> http_response option \<times> call list" where
  "respond m =
     (case m [] of
        (Resolved r, tr) \<Rightarrow> (Some r, tr)
      | (Rejected msg, tr) \<Rightarrow> (Some (json_error 500 msg), tr)
      | (Pending, tr) \<Rightarrow> (None, tr))"

definition set_check_rdap :: "bool \<Rightarrow> scan_out \<Rightarrow> scan_out" where
  "set_check_rdap b out = out\<lparr>checks := map_option (\<lambda>c. c\<lparr>checks_rdap := Some b\<rparr>) (checks out)\<rparr>"

definition set_check_https :: "bool \<Rightarrow> scan_out \<Rightarrow> scan_out" where
  "set_check_https b out =
     out\<lparr>checks := map_option (\<lambda>c. c\<lparr>checks_https := Some b\<rparr>) (checks out)\<rparr>"

definition with_details :: "(details \<Rightarrow> details) \<Rightarrow> scan_out \<Rightarrow> scan_out" where
  "with_details f out = out\<lparr>details := map_option f (details out)\<rparr>"

definition classify :: "string option \<Rightarrow> string \<Rightarrow> string" where
  "classify ty tgt =
     (case ty of
        Some t \<Rightarrow> if t \<noteq> [] then t else if matches ipv4_rx tgt then ''ip'' else ''domain''
      | None \<Rightarrow> if matches ipv4_rx tgt then ''ip'' else ''domain'')"

definition scan_out0 :: "env \<Rightarrow> string \<Rightarrow> string \<Rightarrow> scan_out" where
  "scan_out0 e tgt t =
     \<lparr>target = tgt, type = Some t, when = now e,
      checks = Some \<lparr>checks_rdap = None, checks_https = None\<rparr>,
      rdap = None, whois = None, resolved_ip = None, geo = None, https_status = None,
      hints = None, details = None, score = None\<rparr>"

definition https_check :: "env \<Rightarrow> string \<Rightarrow> scan_out \<Rightarrow> scan_out action" where
  "https_check e tgt out =
     try_catch (await (fetch_call e (''https://'' @ tgt))
                  (\<lambda>r. ret ((set_check_https (r_ok r) out)\<lparr>https_status := Some (r_status r)\<rparr>)))
       (\<lambda>msg. ret (set_check_https False out))"

definition scan_probes :: "env \<Rightarrow> string \<Rightarrow> string \<Rightarrow> scan_out \<Rightarrow> scan_out action" where
  "scan_probes e tgt t out =
     await (rdapLookup e tgt t) (\<lambda>r.
     let out = set_check_rdap (truthy r) (out\<lparr>rdap := Some r\<rparr>) in
     await (if t = ''domain''
            then await (whoisLookup e tgt) (\<lambda>w. ret (out\<lparr>whois := Some w\<rparr>))
            else ret out) (\<lambda>out.
     await (if t = ''ip'' then ret (Some tgt) else resolveToIp e tgt) (\<lambda>ip.
     let out = out\<lparr>resolved_ip := Some (or_null ip)\<rparr> in
     await (case ip of
              Some a \<Rightarrow>
                if a \<noteq> [] then await (ipGeo e a) (\<lambda>g. ret (out\<lparr>geo := Some g\<rparr>))
                else ret out
            | None \<Rightarrow> ret out) (\<lambda>out.
     if t = ''domain'' then https_check e tgt out else ret out))))"

definition scan_try :: "env \<Rightarrow> string \<Rightarrow> string \<Rightarrow> http_response action" where
  "scan_try e tgt t =
     await (if t = ''domain'' \<or> t = ''ip'' then scan_probes e tgt t (scan_out0 e tgt t)
            else ret ((scan_out0 e tgt t)
                   \<lparr>hints := Some (''Search '' @ tgt @ '' on GitHub, Twitter, etc.'')\<rparr>)) (\<lambda>out.
     await (sync (heuristicScore out)) (\<lambda>s.
     await (db_run tgt t (out\<lparr>score := Some s\<rparr>)) (\<lambda>u.
     ret (json_ok (out\<lparr>score := Some s\<rparr>)))))"

definition scan :: "env \<Rightarrow> request \<Rightarrow> http_response option \<times> call list" where
  "scan e req =
     (case req_target req of
        None \<Rightarrow> (Some (json_error 400 ''missing target''), [])
      | Some tgt \<Rightarrow>
          if tgt = [] then (Some (json_error 400 ''missing target''), [])
          else respond (scan_try e tgt (classify (req_type req) tgt)))"

definition deep_out0 :: "env \<Rightarrow> string \<Rightarrow> scan_out" where
  "deep_out0 e tgt =
     \<lparr>target = tgt, type = None, when = now e, checks = None,
      rdap = None, whois = None, resolved_ip = None, geo = None, https_status = None,
      hints = None,
      details = Some \<lparr>details_whois = None, details_rdap = None, details_geo = None,
                      details_ports = None, details_shodan = None\<rparr>,
      score = None\<rparr>"

definition deep_ip_probes :: "config \<Rightarrow> env \<Rightarrow> string \<Rightarrow> scan_out \<Rightarrow> scan_out action" where
  "deep_ip_probes cfg e ip out =
     await (ipGeo e ip) (\<lambda>g.
     let out = with_details (\<lambda>d. d\<lparr>details_geo := Some g\<rparr>) out in
     await (scanPorts e ip (take 20 COMMON_PORTS)) (\<lambda>ps.
     let out = with_details (\<lambda>d. d\<lparr>details_ports := Some ps\<rparr>) out in
     if truthy_str (SHODAN_KEY cfg)
     then await (shodanLookup cfg e ip)
            (\<lambda>s. ret (with_details (\<lambda>d. d\<lparr>details_shodan := Some s\<rparr>) out))
     else ret out))"

definition deep_probes :: "config \<Rightarrow> env \<Rightarrow> string \<Rightarrow> scan_out \<Rightarrow> scan_out action" where
  "deep_probes cfg e tgt out =
     await (if matches domain_rx tgt
            then await (whoisLookup e tgt)
                   (\<lambda>w. ret (with_details (\<lambda>d. d\<lparr>details_whois := Some w\<rparr>) out))
            else ret out) (\<lambda>out.
     await (rdapLookup e tgt (if matches domain_rx tgt then ''domain'' else ''ip'')) (\<lambda>r.
     let out = with_details (\<lambda>d. d\<lparr>details_rdap := Some r\<rparr>) out in
     await (if matches domain_rx tgt then resolveToIp e tgt
            else ret (if matches ipv4_rx tgt then Some tgt else None)) (\<lambda>ip.
     let out = out\<lparr>resolved_ip := Some (or_null ip)\<rparr> in
     case ip of
       Some a \<Rightarrow> if a \<noteq> [] then deep_ip_probes cfg e a out else ret out
     | None \<Rightarrow> ret out)))"

definition deep_try :: "config \<Rightarrow> env \<Rightarrow> string \<Rightarrow> http_response action" where
  "deep_try cfg e tgt =
     await (deep_probes cfg e tgt (deep_out0 e tgt)) (\<lambda>out.
     await (sync (heuristicScore out)) (\<lambda>s.
     await (db_run tgt ''deepscan'' (out\<lparr>score := Some s\<rparr>)) (\<lambda>u.
     ret (json_ok (out\<lparr>score := Some s\<rparr>)))))"

definition deepscan ::
  "config \<Rightarrow> server \<Rightarrow> env \<Rightarrow> request \<Rightarrow> http_response option \<times> call list" where
  "deepscan cfg srv e req =
     (case req_target req of
        None \<Rightarrow> (Some (json_error 400 ''missing target or session_id''), [])
      | Some tgt \<Rightarrow>
          (case req_session_id req of
             None \<Rightarrow> (Some (json_error 400 ''missing target or session_id''), [])
           | Some sid \<Rightarrow>
               if tgt = [] \<or> sid = []
               then (Some (json_error 400 ''missing target or session_id''), [])
               else if sid \<notin> paidSessions srv
               then (Some (json_error 403 ''Pro access required (no valid payment session)''), [])
               else respond (deep_try cfg e tgt)))"

section \<open>The stated behaviour, for comparison\<close>

text \<open>
  The failure kinds of the interface, read off the status a handler answers with:
  400 is sent for missing input, 403 for a session that is not paid, 500 from the outer
  \<^verbatim>\<open>catch\<close>.
\<close>

datatype failure = InvalidInput | AuthorizationDenied | Internal

definition failure_of :: "http_response \<Rightarrow> failure option" where
  "failure_of r =
     (if code r = 400 then Some InvalidInput
      else if code r = 403 then Some AuthorizationDenied
      else if code r = 500 then Some Internal
      else None)"

text \<open>
  The three-way classification in the words of the specification (\<open>classify_spec\<close>),
  the branch of the basic handler that a type string selects (\<open>kind_of_type\<close>), and
  the two tests of the deep handler in their order (\<open>deep_kind\<close>).
\<close>

datatype kind = Domain | IP | Unclassified

definition classify_spec :: "string \<Rightarrow> kind" where
  "classify_spec tgt =
     (if matches ipv4_rx tgt then IP else if matches domain_rx tgt then Domain else Unclassified)"

definition kind_of_type :: "string \<Rightarrow> kind" where
  "kind_of_type t = (if t = ''ip'' then IP else if t = ''domain'' then Domain else Unclassified)"

definition deep_kind :: "string \<Rightarrow> kind" where
  "deep_kind tgt =
     (if matches domain_rx tgt then Domain else if matches ipv4_rx tgt then IP else Unclassified)"

text \<open>
  The score in the words of the specification: baseline 50, plus 15 for an attempted
  HTTPS check that failed, plus 10 for an attempted registry lookup that failed, minus 8
  when the operator name contains the token (here \<open>google\<close>) in any letter case,
  clamped to 0..100. \<open>https_flag\<close> and \<open>rdap_flag\<close> are the two check flags of a
  record: absent while the check has not been attempted.
\<close>

definition ascii_lower :: "char \<Rightarrow> char" where
  "ascii_lower c =
     (case map_of (zip ''ABCDEFGHIJKLMNOPQRSTUVWXYZ'' ''abcdefghijklmnopqrstuvwxyz'') c of
        Some l \<Rightarrow> l
      | None \<Rightarrow> c)"

definition contains_ci :: "string \<Rightarrow> string \<Rightarrow> bool" where
  "contains_ci token name = sublist (map ascii_lower token) (map ascii_lower name)"

definition https_flag :: "scan_out \<Rightarrow> bool option" where
  "https_flag out = Option.bind (checks out) checks_https"

definition rdap_flag :: "scan_out \<Rightarrow> bool option" where
  "rdap_flag out = Option.bind (checks out) checks_rdap"

definition score_spec :: "bool option \<Rightarrow> bool option \<Rightarrow> string option \<Rightarrow> int" where
  "score_spec https_check_result rdap_check_result operator =
     max 0 (min 100
       (50 + (if https_check_result = Some False then 15 else 0)
           + (if rdap_check_result = Some False then 10 else 0)
           - (if (case operator of Some name \<Rightarrow> contains_ci ''google'' name | None \<Rightarrow> False)
              then 8 else 0)))"

text \<open>What each helper hands back, as a function of what its external call came to.\<close>

definition address_or_none :: "string outcome \<Rightarrow> string option" where
  "address_or_none x = (case x of Success address \<Rightarrow> Some address | Failure msg \<Rightarrow> None)"

definition record_or_null :: "json outcome \<Rightarrow> json" where
  "record_or_null x = (case x of Success j \<Rightarrow> j | Failure msg \<Rightarrow> JNull)"

definition https_recorded :: "response outcome \<Rightarrow> scan_out \<Rightarrow> scan_out" where
  "https_recorded x out =
     (case x of
        Success r \<Rightarrow> (set_check_https (r_ok r) out)\<lparr>https_status := Some (r_status r)\<rparr>
      | Failure msg \<Rightarrow> set_check_https False out)"

definition json_or_null :: "response outcome \<Rightarrow> json" where
  "json_or_null x =
     (case x of
        Success r \<Rightarrow> (if r_ok r then (case r_json r of Success j \<Rightarrow> j | Failure msg \<Rightarrow> JNull)
                      else JNull)
      | Failure msg \<Rightarrow> JNull)"

definition fetch_failed :: "response outcome \<Rightarrow> bool" where
  "fetch_failed x =
     (case x of
        Success r \<Rightarrow> (if r_ok r then (case r_json r of Success j \<Rightarrow> False | Failure msg \<Rightarrow> True)
                      else True)
      | Failure msg \<Rightarrow> True)"

definition shodan_result :: "response outcome \<Rightarrow> json" where
  "shodan_result x =
     (case x of
        Success r \<Rightarrow>
          (if r_ok r then (case r_json r of Success j \<Rightarrow> j | Failure msg \<Rightarrow> error_record msg)
           else error_record (''shodan:'' @ string_of_nat (r_status r)))
      | Failure msg \<Rightarrow> error_record msg)"

fun probe_status :: "socket_fate \<Rightarrow> string" where
  "probe_status Connects = ''open''"
| "probe_status Idles = ''closed''"
| "probe_status (Fails msg) = ''closed''"
| "probe_status (Throws msg) = ''error''"

fun probe_results :: "env \<Rightarrow> string \<Rightarrow> nat list \<Rightarrow> call list \<Rightarrow> port_result list" where
  "probe_results e host [] tr = []"
| "probe_results e host (p # ps) tr =
     \<lparr>port = p, status = probe_status (socket_connect e tr p host)\<rparr>
       # probe_results e host ps (tr @ [SocketConnect p host])"

text \<open>Tests on outcomes and on log entries.\<close>

definition is_failure :: "'a outcome \<Rightarrow> bool" where
  "is_failure x = (case x of Failure msg \<Rightarrow> True | Success y \<Rightarrow> False)"

fun is_connect :: "call \<Rightarrow> bool" where
  "is_connect (SocketConnect p host) = True"
| "is_connect c = False"

fun is_shodan :: "call \<Rightarrow> bool" where
  "is_shodan (ShodanLookup ip) = True"
| "is_shodan (Fetch url) = prefix ''https://api.shodan.io/'' url"
| "is_shodan c = False"

text \<open>An action resolves, and its value and the log then satisfy \<open>Q\<close>.\<close>

definition resolves_with :: "'a action \<Rightarrow> call list \<Rightarrow> ('a \<Rightarrow> call list \<Rightarrow> bool) \<Rightarrow> bool" where
  "resolves_with m tr Q =
     (case m tr of
        (Resolved x, tr') \<Rightarrow> Q x tr'
      | (Rejected msg, tr') \<Rightarrow> False
      | (Pending, tr') \<Rightarrow> False)"

section \<open>Sample environments and requests\<close>

text \<open>
  Environments in which every collaborator answers (\<open>env_up\<close>), every collaborator
  fails (\<open>env_down\<close>), the services answer 503 and the sockets differ by port
  (\<open>env_mixed\<close>), the host of a probe cannot be resolved (\<open>env_nohost\<close>), and the
  HTTPS request alone fails (\<open>env_https_down\<close>). In \<open>env_bad_isp\<close> the services answer
  with an operator that is an object with a member \<^verbatim>\<open>toString\<close>, in \<open>env_isp_list\<close>
  with an operator that is a list of one name.
\<close>

definition env_up :: env where
  "env_up =
     \<lparr>dns_lookup = (\<lambda>tr host. Success ''93.184.216.34''),
      fetch = (\<lambda>tr url. Success \<lparr>r_status = 200,
                  r_json = Success (JObj [(''isp'', JStr ''Example Networks'')])\<rparr>),
      whoiser = (\<lambda>tr domain. Success (JObj [])),
      socket_connect = (\<lambda>tr p host. Connects),
      now = ''2026-01-01T00:00:00.000Z''\<rparr>"

definition env_down :: env where
  "env_down =
     \<lparr>dns_lookup = (\<lambda>tr host. Failure ''getaddrinfo ENOTFOUND''),
      fetch = (\<lambda>tr url. Failure ''request failed''),
      whoiser = (\<lambda>tr domain. Failure ''whois timeout''),
      socket_connect = (\<lambda>tr p host. Fails ''connect ECONNREFUSED''),
      now = ''2026-01-01T00:00:00.000Z''\<rparr>"

definition env_mixed :: env where
  "env_mixed =
     \<lparr>dns_lookup = (\<lambda>tr host. Success ''93.184.216.34''),
      fetch = (\<lambda>tr url. Success \<lparr>r_status = 503, r_json = Failure ''invalid json''\<rparr>),
      whoiser = (\<lambda>tr domain. Success (JObj [])),
      socket_connect = (\<lambda>tr p host. if p = 80 then Connects
                          else if p = 22 then Throws ''bad port''
                          else if p = 21 then Fails ''connect ECONNREFUSED''
                          else Idles),
      now = ''2026-01-01T00:00:00.000Z''\<rparr>"

definition env_nohost :: env where
  "env_nohost =
     \<lparr>dns_lookup = (\<lambda>tr host. Failure ''getaddrinfo ENOTFOUND''),
      fetch = (\<lambda>tr url. Failure ''request failed''),
      whoiser = (\<lambda>tr domain. Failure ''whois timeout''),
      socket_connect = (\<lambda>tr p host. Fails ''getaddrinfo ENOTFOUND no-such-host.invalid''),
      now = ''2026-01-01T00:00:00.000Z''\<rparr>"

definition env_https_down :: env where
  "env_https_down =
     env_up\<lparr>fetch := (\<lambda>tr url. if url = ''https://example.com''
                         then Failure ''connect ETIMEDOUT'' else fetch env_up tr url)\<rparr>"

definition env_bad_isp :: env where
  "env_bad_isp =
     env_up\<lparr>fetch := (\<lambda>tr url. Success \<lparr>r_status = 200,
                  r_json = Success (JObj [(''isp'', JObj [(''toString'', JNum 0)])])\<rparr>)\<rparr>"

definition env_isp_list :: env where
  "env_isp_list =
     env_up\<lparr>fetch := (\<lambda>tr url. Success \<lparr>r_status = 200,
                  r_json = Success (JObj [(''isp'', JArr [JStr ''Google LLC''])])\<rparr>)\<rparr>"

definition basic_req :: "string \<Rightarrow> request" where
  "basic_req tgt = \<lparr>req_target = Some tgt, req_type = None, req_session_id = None\<rparr>"

definition deep_req :: "string \<Rightarrow> string option \<Rightarrow> request" where
  "deep_req tgt sid = \<lparr>req_target = Some tgt, req_type = None, req_session_id = sid\<rparr>"

definition cfg_nokey :: config where
  "cfg_nokey = \<lparr>SHODAN_API_KEY = None\<rparr>"

definition cfg_key :: config where
  "cfg_key = \<lparr>SHODAN_API_KEY = Some ''k1''\<rparr>"

definition srv_paid :: server where
  "srv_paid = \<lparr>paidSessions = {''cs_test_1''}\<rparr>"

definition sample_out :: "bool \<Rightarrow> bool \<Rightarrow> json \<Rightarrow> scan_out" where
  "sample_out https_ok rdap_ok operator =
     (scan_out0 env_up ''example.com'' ''domain'')
       \<lparr>checks := Some \<lparr>checks_rdap = Some rdap_ok, checks_https = Some https_ok\<rparr>,
        geo := Some (JObj [(''country'', JStr ''US''), (''isp'', operator)])\<rparr>"

section \<open>Lemmas\<close>

subsection \<open>The matcher decides the language of a pattern\<close>

lemma nullable_lang: "nullable r \<longleftrightarrow> [] \<in> lang r"
  by (induction r) (auto intro: star.star_nil)

lemma star_cons:
  "c # w \<in> star A \<longleftrightarrow> (\<exists>u v. w = u @ v \<and> c # u \<in> A \<and> v \<in> star A)"
proof
  assume "c # w \<in> star A"
  then show "\<exists>u v. w = u @ v \<and> c # u \<in> A \<and> v \<in> star A"
  proof (induction "c # w" rule: star.induct)
    case (star_app u v)
    show ?case
    proof (cases u)
      case Nil
      with star_app show ?thesis by simp
    next
      case (Cons a u')
      with star_app have "w = u' @ v" "c # u' \<in> A" by auto
      with star_app show ?thesis by blast
    qed
  qed
next
  assume "\<exists>u v. w = u @ v \<and> c # u \<in> A \<and> v \<in> star A"
  then obtain u v where "w = u @ v" "c # u \<in> A" "v \<in> star A" by blast
  then show "c # w \<in> star A"
    using star.star_app [of "c # u" A v] by simp
qed

lemma after_lang: "w \<in> lang (after c r) \<longleftrightarrow> c # w \<in> lang r"
proof (induction r arbitrary: w)
  case (Seq r s)
  show ?case
  proof
    assume a: "w \<in> lang (after c (Seq r s))"
    have "(\<exists>u v. w = u @ v \<and> c # u \<in> lang r \<and> v \<in> lang s) \<or> ([] \<in> lang r \<and> c # w \<in> lang s)"
      using a Seq nullable_lang [of r] by (auto split: if_splits)
    then show "c # w \<in> lang (Seq r s)"
    proof
      assume "\<exists>u v. w = u @ v \<and> c # u \<in> lang r \<and> v \<in> lang s"
      then obtain u v where "w = u @ v" "c # u \<in> lang r" "v \<in> lang s" by blast
      then have "c # w = (c # u) @ v \<and> c # u \<in> lang r \<and> v \<in> lang s" by simp
      then show ?thesis unfolding lang.simps by blast
    next
      assume "[] \<in> lang r \<and> c # w \<in> lang s"
      then have "c # w = [] @ (c # w) \<and> [] \<in> lang r \<and> c # w \<in> lang s" by simp
      then show ?thesis unfolding lang.simps by blast
    qed
  next
    assume "c # w \<in> lang (Seq r s)"
    then obtain u v where uv: "c # w = u @ v" "u \<in> lang r" "v \<in> lang s" by auto
    show "w \<in> lang (after c (Seq r s))"
    proof (cases u)
      case Nil
      with uv Seq show ?thesis using nullable_lang [of r] by auto
    next
      case (Cons a u')
      with uv have "w = u' @ v" "c # u' \<in> lang r" by auto
      with uv Seq show ?thesis by auto
    qed
  qed
next
  case (Star r)
  then show ?case by (auto simp: star_cons)
qed auto

lemma matches_lang: "matches r w \<longleftrightarrow> w \<in> lang r"
  by (induction w arbitrary: r) (simp_all add: nullable_lang after_lang)

lemma star_chars: "w \<in> star {[c] | c. p c} \<longleftrightarrow> (\<forall>c \<in> set w. p c)"
proof
  assume "w \<in> star {[c] | c. p c}"
  then show "\<forall>c \<in> set w. p c" by (induction rule: star.induct) auto
next
  assume "\<forall>c \<in> set w. p c"
  then show "w \<in> star {[c] | c. p c}"
  proof (induction w)
    case Nil
    show ?case by (rule star.star_nil)
  next
    case (Cons a w)
    then have "[a] \<in> {[c] | c. p c}" "w \<in> star {[c] | c. p c}" by auto
    then have "[a] @ w \<in> star {[c] | c. p c}" by (rule star.star_app)
    then show ?case by simp
  qed
qed

lemma lang_Seq_Chr:
  "w \<in> lang (Seq (Chr p) r) \<longleftrightarrow> (\<exists>c v. w = c # v \<and> p c \<and> v \<in> lang r)"
proof
  assume "w \<in> lang (Seq (Chr p) r)"
  then show "\<exists>c v. w = c # v \<and> p c \<and> v \<in> lang r" by auto
next
  assume "\<exists>c v. w = c # v \<and> p c \<and> v \<in> lang r"
  then obtain c v where "w = [c] @ v" "[c] \<in> lang (Chr p)" "v \<in> lang r" by auto
  then show "w \<in> lang (Seq (Chr p) r)" unfolding lang.simps(5) by blast
qed

lemma lang_Chr: "w \<in> lang (Chr p) \<longleftrightarrow> (\<exists>c. w = [c] \<and> p c)"
  by auto

lemma lang_plus_chars:
  "w \<in> lang (plus (Chr p)) \<longleftrightarrow> w \<noteq> [] \<and> (\<forall>c \<in> set w. p c)"
proof -
  have "w \<in> lang (plus (Chr p)) \<longleftrightarrow> (\<exists>c v. w = c # v \<and> p c \<and> (\<forall>c \<in> set v. p c))"
    unfolding plus_def lang_Seq_Chr by (simp add: star_chars)
  also have "\<dots> \<longleftrightarrow> w \<noteq> [] \<and> (\<forall>c \<in> set w. p c)"
    by (cases w) auto
  finally show ?thesis .
qed

lemma lang_anywhere:
  "w \<in> lang (anywhere r) \<longleftrightarrow> (\<exists>u x v. w = u @ x @ v \<and> x \<in> lang r)"
proof -
  have all: "\<And>v. v \<in> lang (Star (Chr (\<lambda>c. True)))"
    using star_chars [of _ "\<lambda>c. True"] by simp
  have "w \<in> lang (anywhere r) \<longleftrightarrow>
      (\<exists>u y. w = u @ y \<and> (\<exists>x v. y = x @ v \<and> x \<in> lang r))"
    unfolding anywhere_def lang.simps(5) using all by blast
  then show ?thesis by blast
qed

lemma ascii_lower_simps:
  "ascii_lower c = CHR ''g'' \<longleftrightarrow> ci CHR ''g'' CHR ''G'' c"
  "ascii_lower c = CHR ''o'' \<longleftrightarrow> ci CHR ''o'' CHR ''O'' c"
  "ascii_lower c = CHR ''l'' \<longleftrightarrow> ci CHR ''l'' CHR ''L'' c"
  "ascii_lower c = CHR ''e'' \<longleftrightarrow> ci CHR ''e'' CHR ''E'' c"
  by (auto simp: ascii_lower_def ci_def)

lemma lang_google_word: "w \<in> lang google_word \<longleftrightarrow> map ascii_lower w = ''google''"
proof -
  have "w \<in> lang google_word \<longleftrightarrow>
      (\<exists>a b c d e f. w = [a, b, c, d, e, f] \<and> ci CHR ''g'' CHR ''G'' a \<and> ci CHR ''o'' CHR ''O'' b
         \<and> ci CHR ''o'' CHR ''O'' c \<and> ci CHR ''g'' CHR ''G'' d \<and> ci CHR ''l'' CHR ''L'' e
         \<and> ci CHR ''e'' CHR ''E'' f)"
    unfolding google_word_def lang_Seq_Chr lang_Chr by auto
  also have "\<dots> \<longleftrightarrow> map ascii_lower w = ''google''"
    by (auto simp: ascii_lower_simps map_eq_Cons_conv)
  finally show ?thesis .
qed

lemma sub_google:
  "(\<exists>u x v. s = u @ x @ v \<and> map f x = g) \<longleftrightarrow> (\<exists>ps ss. map f s = ps @ g @ ss)"
proof
  assume "\<exists>u x v. s = u @ x @ v \<and> map f x = g"
  then obtain u x v where "s = u @ x @ v" "map f x = g" by blast
  then have "map f s = map f u @ g @ map f v" by simp
  then show "\<exists>ps ss. map f s = ps @ g @ ss" by blast
next
  assume "\<exists>ps ss. map f s = ps @ g @ ss"
  then obtain ps ss where "map f s = ps @ (g @ ss)" by blast
  then obtain u y where 1: "s = u @ y" "map f y = g @ ss"
    by (metis map_eq_append_conv)
  then obtain x v where 2: "y = x @ v" "map f x = g"
    by (metis map_eq_append_conv)
  from 1 2 show "\<exists>u x v. s = u @ x @ v \<and> map f x = g" by blast
qed

lemma google_rx_contains: "matches google_rx s \<longleftrightarrow> contains_ci ''google'' s"
proof -
  have low: "map ascii_lower ''google'' = ''google''"
    by (simp add: ascii_lower_def)
  have "matches google_rx s \<longleftrightarrow> (\<exists>u x v. s = u @ x @ v \<and> map ascii_lower x = ''google'')"
    unfolding matches_lang google_rx_def lang_anywhere lang_google_word ..
  also have "\<dots> \<longleftrightarrow> (\<exists>ps ss. map ascii_lower s = ps @ ''google'' @ ss)"
    by (rule sub_google)
  also have "\<dots> \<longleftrightarrow> contains_ci ''google'' s"
    unfolding contains_ci_def sublist_def low ..
  finally show ?thesis .
qed

lemma last_Seq:
  assumes "w \<in> lang (Seq r s)" and "\<And>v. v \<in> lang s \<Longrightarrow> v \<noteq> [] \<and> P (last v)"
  shows "w \<noteq> [] \<and> P (last w)"
proof -
  from assms(1) obtain u v where "w = u @ v" "v \<in> lang s" by auto
  with assms(2) [of v] show ?thesis by simp
qed

lemma ipv4_last_digit:
  assumes "matches ipv4_rx w"
  shows "w \<noteq> [] \<and> digit (last w)"
proof -
  have d: "\<And>v. v \<in> lang (plus (Chr digit)) \<Longrightarrow> v \<noteq> [] \<and> digit (last v)"
    by (simp add: lang_plus_chars)
  from assms have "w \<in> lang ipv4_rx" by (simp add: matches_lang)
  then show ?thesis
    unfolding ipv4_rx_def
    by (elim last_Seq) (rule d)
qed

lemma domain_last_letter:
  assumes "matches domain_rx w"
  shows "w \<noteq> [] \<and> letter_i (last w)"
proof -
  from assms obtain u a b v where "w = u @ a # b # v" "letter_i b" "\<forall>c \<in> set v. letter_i c"
    unfolding matches_lang domain_rx_def dot_def lang.simps(5) lang_Seq_Chr
    by (auto simp: star_chars)
  then show ?thesis by (cases v rule: rev_cases) auto
qed

lemma ipv4_not_domain: "matches ipv4_rx w \<Longrightarrow> \<not> matches domain_rx w"
proof
  assume "matches ipv4_rx w" "matches domain_rx w"
  then have "digit (last w)" "letter_i (last w)"
    using ipv4_last_digit domain_last_letter by blast+
  then show False by (auto simp: digit_def letter_i_def)
qed

subsection \<open>What the helpers resolve with\<close>

lemma resolveToIp_eq:
  "resolveToIp e host tr =
     (Resolved (address_or_none (dns_lookup e tr host)), tr @ [DnsLookup host])"
  by (cases "dns_lookup e tr host")
     (simp_all add: resolveToIp_def try_catch_def await_def dns_promises_lookup_def ret_def
        address_or_none_def)

lemma fetch_json_eq:
  "try_catch (await (fetch_call e url) (\<lambda>r. if r_ok r then json_call r else ret JNull))
     (\<lambda>msg. ret JNull) tr = (Resolved (json_or_null (fetch e tr url)), tr @ [Fetch url])"
proof (cases "fetch e tr url")
  case (Failure msg)
  then show ?thesis
    by (simp add: try_catch_def await_def fetch_call_def ret_def json_or_null_def)
next
  case (Success r)
  then show ?thesis
    by (cases "r_json r")
       (simp_all add: try_catch_def await_def fetch_call_def ret_def json_or_null_def json_call_def)
qed

lemma ipGeo_eq:
  "ipGeo e ip tr = (Resolved (json_or_null (fetch e tr (geo_url ip))), tr @ [Fetch (geo_url ip)])"
  unfolding ipGeo_def by (rule fetch_json_eq)

lemma rdapLookup_eq:
  "rdapLookup e tgt ty tr =
     (Resolved (json_or_null (fetch e tr (rdap_url tgt ty))), tr @ [Fetch (rdap_url tgt ty)])"
  unfolding rdapLookup_def by (rule fetch_json_eq)

lemma whoisLookup_eq:
  "whoisLookup e domain tr =
     (Resolved (record_or_null (whoiser e tr domain)), tr @ [Whoiser domain])"
  by (cases "whoiser e tr domain")
     (simp_all add: whoisLookup_def try_catch_def whoiser_call_def ret_def record_or_null_def)

lemma shodanLookup_eq:
  assumes "SHODAN_KEY cfg = Some k"
  shows "shodanLookup cfg e ip tr =
     (Resolved (shodan_result (fetch e (tr @ [ShodanLookup ip]) (shodan_url ip k))),
      tr @ [ShodanLookup ip, Fetch (shodan_url ip k)])"
proof (cases "fetch e (tr @ [ShodanLookup ip]) (shodan_url ip k)")
  case (Failure msg)
  with assms show ?thesis
    by (simp add: shodanLookup_def try_catch_def await_def fetch_call_def ret_def shodan_result_def)
next
  case (Success r)
  with assms show ?thesis
    by (cases "r_json r")
       (simp_all add: shodanLookup_def try_catch_def await_def fetch_call_def ret_def
          shodan_result_def json_call_def)
qed

lemma scanPort_eq:
  "scanPort e host p tr =
     ((case socket_connect e tr p host of
         Throws msg \<Rightarrow> Rejected msg
       | Connects \<Rightarrow> Resolved \<lparr>port = p, status = ''open''\<rparr>
       | Idles \<Rightarrow> Resolved \<lparr>port = p, status = ''closed''\<rparr>
       | Fails msg \<Rightarrow> Resolved \<lparr>port = p, status = ''closed''\<rparr>),
      tr @ [SocketConnect p host])"
  by (cases "socket_connect e tr p host")
     (simp_all add: scanPort_def emit_close_def on_connect_def on_timeout_def on_error_def
        on_close_def destroy_def)

lemma probe_step_eq:
  "try_catch (await (scanPort e host p) (\<lambda>r. ret (out @ [r])))
     (\<lambda>msg. ret (out @ [\<lparr>port = p, status = ''error''\<rparr>])) tr =
   (Resolved (out @ [\<lparr>port = p, status = probe_status (socket_connect e tr p host)\<rparr>]),
    tr @ [SocketConnect p host])"
  by (cases "socket_connect e tr p host")
     (simp_all add: try_catch_def await_def ret_def scanPort_eq)

lemma scanPorts_loop_eq:
  "scanPorts_loop e host ps out tr =
     (Resolved (out @ probe_results e host ps tr), tr @ map (\<lambda>p. SocketConnect p host) ps)"
proof (induction ps arbitrary: out tr)
  case Nil
  show ?case by (simp add: ret_def)
next
  case (Cons p ps)
  show ?case by (simp add: probe_step_eq Cons.IH)
qed

lemma scanPorts_eq:
  "scanPorts e host ps tr =
     (Resolved (probe_results e host ps tr), tr @ map (\<lambda>p. SocketConnect p host) ps)"
  by (simp add: scanPorts_def scanPorts_loop_eq)

lemma ports_of_probe_results: "map port (probe_results e host ps tr) = ps"
  by (induction ps arbitrary: tr) simp_all

lemma https_check_eq:
  "https_check e tgt out tr =
     (Resolved (https_recorded (fetch e tr (''https://'' @ tgt)) out),
      tr @ [Fetch (''https://'' @ tgt)])"
  by (cases "fetch e tr (''https://'' @ tgt)")
     (simp_all add: https_check_def try_catch_def await_def fetch_call_def ret_def
        https_recorded_def)

lemma https_recorded_keeps [simp]:
  "details (https_recorded x out) = details out"
  "geo (https_recorded x out) = geo out"
  "rdap (https_recorded x out) = rdap out"
  "whois (https_recorded x out) = whois out"
  "resolved_ip (https_recorded x out) = resolved_ip out"
  "hints (https_recorded x out) = hints out"
  "type (https_recorded x out) = type out"
  by (cases x; simp add: https_recorded_def set_check_https_def)+

subsection \<open>Composing actions that resolve\<close>

lemma rw_ret [simp]: "resolves_with (ret x) tr Q = Q x tr"
  by (simp add: resolves_with_def ret_def)

lemma rw_await [simp]:
  "resolves_with (await m k) tr Q = resolves_with m tr (\<lambda>x tr'. resolves_with (k x) tr' Q)"
  by (cases "m tr" rule: prod.exhaust; cases "fst (m tr)") (auto simp: resolves_with_def await_def)

lemma rw_eq: "m tr = (Resolved x, tr') \<Longrightarrow> resolves_with m tr Q = Q x tr'"
  by (simp add: resolves_with_def)

lemmas rw_helpers [simp] =
  rw_eq [OF resolveToIp_eq] rw_eq [OF ipGeo_eq] rw_eq [OF rdapLookup_eq] rw_eq [OF whoisLookup_eq]
  rw_eq [OF scanPorts_eq] rw_eq [OF https_check_eq]

lemma rw_shodan [simp]:
  "SHODAN_KEY cfg = Some k \<Longrightarrow> resolves_with (shodanLookup cfg e ip) tr Q =
     Q (shodan_result (fetch e (tr @ [ShodanLookup ip]) (shodan_url ip k)))
       (tr @ [ShodanLookup ip, Fetch (shodan_url ip k)])"
  by (simp add: rw_eq [OF shodanLookup_eq])

lemma rw_db_run [simp]: "resolves_with (db_run tgt ty out) tr Q = Q () (tr @ [DbRun tgt ty out])"
  by (simp add: resolves_with_def db_run_def)

lemma rw_elim:
  "resolves_with m tr Q \<Longrightarrow> \<exists>x tr'. m tr = (Resolved x, tr') \<and> Q x tr'"
  by (cases "m tr" rule: prod.exhaust; cases "fst (m tr)") (auto simp: resolves_with_def)

lemma SHODAN_KEY_truthy: "truthy_str (SHODAN_KEY cfg) \<longleftrightarrow> SHODAN_KEY cfg \<noteq> None"
  by (cases "SHODAN_API_KEY cfg") (auto simp: SHODAN_KEY_def)

lemma deep_ip_probes_keeps:
  "resolves_with (deep_ip_probes cfg e ip out) tr
     (\<lambda>out' tr'. checks out' = checks out \<and> geo out' = geo out)"
  by (cases "SHODAN_KEY cfg")
     (simp_all add: deep_ip_probes_def Let_def SHODAN_KEY_truthy with_details_def)

lemma rw_mono:
  "resolves_with m tr P \<Longrightarrow> (\<And>x tr'. P x tr' \<Longrightarrow> Q x tr') \<Longrightarrow> resolves_with m tr Q"
  by (cases "m tr" rule: prod.exhaust; cases "fst (m tr)") (auto simp: resolves_with_def)

lemma deep_probes_keeps:
  "resolves_with (deep_probes cfg e tgt out) tr
     (\<lambda>out' tr'. checks out' = checks out \<and> geo out' = geo out)"
  by (auto simp: deep_probes_def Let_def with_details_def split: option.splits
        intro!: rw_mono [OF deep_ip_probes_keeps])

subsection \<open>The handlers, step by step\<close>

lemma to_string_failure:
  "to_string v = Failure m \<Longrightarrow> m = cannot_convert"
  "join_comma xs = Failure m \<Longrightarrow> m = cannot_convert"
  by (induction v and xs arbitrary: m and m rule: to_string_join_comma.induct)
     (auto split: if_splits outcome.splits)

lemma isp_google_failure:
  assumes "isp_google out = Failure m"
  shows "m = cannot_convert
     \<and> (\<exists>v. get_isp (geo out) = Some v \<and> truthy v \<and> to_string v = Failure cannot_convert)"
proof -
  from assms obtain v where v: "get_isp (geo out) = Some v" "truthy v" "to_string v = Failure m"
    by (auto simp: isp_google_def regexp_test_def split: option.splits if_splits outcome.splits)
  with to_string_failure(1) [of v m] show ?thesis by auto
qed

lemma score_range: "heuristicScore out = Success s \<Longrightarrow> 0 \<le> s \<and> s \<le> 100"
  by (auto simp: heuristicScore_def Let_def split: outcome.splits)

lemma score_failure:
  assumes "heuristicScore out = Failure m"
  shows "m = cannot_convert
     \<and> (\<exists>v. get_isp (geo out) = Some v \<and> truthy v \<and> to_string v = Failure cannot_convert)"
proof -
  from assms have "isp_google out = Failure m"
    by (auto simp: heuristicScore_def Let_def split: outcome.splits)
  then show ?thesis by (rule isp_google_failure)
qed

lemma score_no_geo:
  "geo out = None \<Longrightarrow>
     heuristicScore out =
       Success (50 + (if https_failed out then 15 else 0) + (if rdap_failed out then 10 else 0))"
  by (simp add: heuristicScore_def Let_def isp_google_def get_isp_def)

lemma score_deep: "checks out = None \<Longrightarrow> geo out = None \<Longrightarrow> heuristicScore out = Success 50"
  by (simp add: score_no_geo https_failed_def rdap_failed_def)

lemma rw_sync [simp]: "resolves_with (sync (Success v)) tr Q = Q v tr"
  by (simp add: resolves_with_def sync_def)

lemma rw_conj:
  "resolves_with m tr P \<Longrightarrow> resolves_with m tr Q \<Longrightarrow>
     resolves_with m tr (\<lambda>x tr'. P x tr' \<and> Q x tr')"
  by (cases "m tr" rule: prod.exhaust; cases "fst (m tr)") (auto simp: resolves_with_def)

lemma await_elim:
  assumes "resolves_with m tr P"
  shows "\<exists>x tr'. P x tr' \<and> (\<forall>k. await m k tr = k x tr')"
proof -
  from rw_elim [OF assms] obtain x tr' where "m tr = (Resolved x, tr')" "P x tr'" by blast
  then show ?thesis by (auto simp: await_def)
qed

lemma respond_rw:
  assumes "resolves_with m [] Q"
  shows "\<exists>r tr. respond m = (Some r, tr) \<and> Q r tr"
proof -
  from rw_elim [OF assms] obtain r tr where "m [] = (Resolved r, tr)" "Q r tr" by blast
  then show ?thesis by (simp add: respond_def)
qed

lemma filter_connects [simp]:
  "filter is_connect (map (\<lambda>p. SocketConnect p host) ps) = map (\<lambda>p. SocketConnect p host) ps"
  by (induction ps) simp_all

lemma filter_shodan_connects [simp]:
  "filter is_shodan (map (\<lambda>p. SocketConnect p host) ps) = []"
  by (induction ps) simp_all

lemma not_shodan_urls [simp]:
  "\<not> prefix ''https://api.shodan.io/'' (rdap_url tgt ty)"
  "\<not> prefix ''https://api.shodan.io/'' (geo_url ip)"
  by (simp_all add: rdap_url_def geo_url_def)

lemma SHODAN_KEY_Some: "SHODAN_KEY cfg = Some k \<Longrightarrow> k \<noteq> []"
  by (cases "SHODAN_API_KEY cfg") (auto simp: SHODAN_KEY_def split: if_splits)

lemma common_ports_20: "take 20 COMMON_PORTS = COMMON_PORTS"
  by (simp add: COMMON_PORTS_def)

lemma scan_probes_inv:
  "resolves_with (scan_probes e tgt t out) tr
     (\<lambda>out' tr'. details out' = details out \<and> filter is_connect tr' = filter is_connect tr)"
  by (simp add: scan_probes_def Let_def set_check_rdap_def set_check_https_def
        split: option.split)

lemma json_ok_eq [simp]: "json_ok a = json_ok b \<longleftrightarrow> a = b"
  by (simp add: json_ok_def)

lemma score_self [simp]:
  "heuristicScore (x\<lparr>score := s\<rparr>) = heuristicScore x"
  by (simp add: heuristicScore_def https_failed_def rdap_failed_def isp_google_def)

lemma score_and_store:
  "await (sync (heuristicScore x))
     (\<lambda>s. await (db_run tgt t (x\<lparr>score := Some s\<rparr>)) (\<lambda>u. ret (json_ok (x\<lparr>score := Some s\<rparr>)))) tr =
   (case heuristicScore x of
      Success s \<Rightarrow> (Resolved (json_ok (x\<lparr>score := Some s\<rparr>)), tr @ [DbRun tgt t (x\<lparr>score := Some s\<rparr>)])
    | Failure msg \<Rightarrow> (Rejected msg, tr))"
  by (cases "heuristicScore x") (simp_all add: await_def sync_def db_run_def ret_def)

lemma scan_try_lift:
  assumes "resolves_with
     (if t = ''domain'' \<or> t = ''ip'' then scan_probes e tgt t (scan_out0 e tgt t)
      else ret ((scan_out0 e tgt t)
             \<lparr>hints := Some (''Search '' @ tgt @ '' on GitHub, Twitter, etc.'')\<rparr>)) [] P"
  shows "\<exists>x tr0. P x tr0 \<and> scan_try e tgt t [] =
     (case heuristicScore x of
        Success s \<Rightarrow> (Resolved (json_ok (x\<lparr>score := Some s\<rparr>)),
                       tr0 @ [DbRun tgt t (x\<lparr>score := Some s\<rparr>)])
      | Failure msg \<Rightarrow> (Rejected msg, tr0))"
proof -
  from await_elim [OF assms] obtain x tr0 where p: "P x tr0"
    and x: "\<And>k :: scan_out \<Rightarrow> http_response action. await
        (if t = ''domain'' \<or> t = ''ip'' then scan_probes e tgt t (scan_out0 e tgt t)
         else ret ((scan_out0 e tgt t)
             \<lparr>hints := Some (''Search '' @ tgt @ '' on GitHub, Twitter, etc.'')\<rparr>)) k [] = k x tr0"
    by blast
  have "scan_try e tgt t [] =
     (case heuristicScore x of
        Success s \<Rightarrow> (Resolved (json_ok (x\<lparr>score := Some s\<rparr>)),
                       tr0 @ [DbRun tgt t (x\<lparr>score := Some s\<rparr>)])
      | Failure msg \<Rightarrow> (Rejected msg, tr0))"
    by (simp only: scan_try_def x score_and_store)
  with p show ?thesis by blast
qed

lemma scan_lift:
  assumes "req_target req = Some tgt" "tgt \<noteq> []" "t = classify (req_type req) tgt"
    and "resolves_with
     (if t = ''domain'' \<or> t = ''ip'' then scan_probes e tgt t (scan_out0 e tgt t)
      else ret ((scan_out0 e tgt t)
             \<lparr>hints := Some (''Search '' @ tgt @ '' on GitHub, Twitter, etc.'')\<rparr>)) [] P"
  shows "\<exists>x tr0. P x tr0 \<and> scan e req =
     (case heuristicScore x of
        Success s \<Rightarrow> (Some (json_ok (x\<lparr>score := Some s\<rparr>)),
                       tr0 @ [DbRun tgt t (x\<lparr>score := Some s\<rparr>)])
      | Failure msg \<Rightarrow> (Some (json_error 500 msg), tr0))"
proof -
  from scan_try_lift [OF assms(4)] obtain x tr0 where p: "P x tr0"
    and x: "scan_try e tgt t [] =
     (case heuristicScore x of
        Success s \<Rightarrow> (Resolved (json_ok (x\<lparr>score := Some s\<rparr>)),
                       tr0 @ [DbRun tgt t (x\<lparr>score := Some s\<rparr>)])
      | Failure msg \<Rightarrow> (Rejected msg, tr0))"
    by blast
  from assms(1-3) have "scan e req = respond (scan_try e tgt t)" by (simp add: scan_def)
  also have "\<dots> =
     (case heuristicScore x of
        Success s \<Rightarrow> (Some (json_ok (x\<lparr>score := Some s\<rparr>)),
                       tr0 @ [DbRun tgt t (x\<lparr>score := Some s\<rparr>)])
      | Failure msg \<Rightarrow> (Some (json_error 500 msg), tr0))"
    by (simp add: respond_def x split: outcome.split)
  finally show ?thesis using p by blast
qed

lemma scan_lift_ok:
  assumes "req_target req = Some tgt" "tgt \<noteq> []" "t = classify (req_type req) tgt"
    and "resolves_with
     (if t = ''domain'' \<or> t = ''ip'' then scan_probes e tgt t (scan_out0 e tgt t)
      else ret ((scan_out0 e tgt t)
             \<lparr>hints := Some (''Search '' @ tgt @ '' on GitHub, Twitter, etc.'')\<rparr>)) []
       (\<lambda>x tr. heuristicScore x = Success (v x) \<and> P x tr)"
  shows "\<exists>x tr0. scan e req =
           (Some (json_ok (x\<lparr>score := Some (v x)\<rparr>)),
            tr0 @ [DbRun tgt t (x\<lparr>score := Some (v x)\<rparr>)]) \<and> P x tr0"
proof -
  from scan_lift [OF assms] obtain x tr0 where "heuristicScore x = Success (v x)" "P x tr0"
    "scan e req =
     (case heuristicScore x of
        Success s \<Rightarrow> (Some (json_ok (x\<lparr>score := Some s\<rparr>)),
                       tr0 @ [DbRun tgt t (x\<lparr>score := Some s\<rparr>)])
      | Failure msg \<Rightarrow> (Some (json_error 500 msg), tr0))"
    by blast
  then show ?thesis by auto
qed

lemma scan_body_inv:
  "resolves_with
     (if t = ''domain'' \<or> t = ''ip'' then scan_probes e tgt t (scan_out0 e tgt t)
      else ret ((scan_out0 e tgt t)
             \<lparr>hints := Some (''Search '' @ tgt @ '' on GitHub, Twitter, etc.'')\<rparr>)) []
     (\<lambda>x tr. details x = None \<and> filter is_connect tr = [])"
proof (cases "t = ''domain'' \<or> t = ''ip''")
  case True
  then show ?thesis
    using scan_probes_inv [of e tgt t "scan_out0 e tgt t" "[]"] by (simp add: scan_out0_def)
next
  case False
  then show ?thesis by (simp add: scan_out0_def)
qed

lemma scan_valid:
  assumes "req_target req = Some tgt" "tgt \<noteq> []"
  shows "(\<exists>out s tr. scan e req = (Some (json_ok out), tr) \<and> score out = Some s
            \<and> heuristicScore out = Success s \<and> 0 \<le> s \<and> s \<le> 100
            \<and> details out = None \<and> filter is_connect tr = [])
       \<or> (\<exists>tr. scan e req = (Some (json_error 500 cannot_convert), tr)
            \<and> filter is_connect tr = [])"
proof -
  from scan_lift [OF assms refl scan_body_inv] obtain x tr0 where
    x: "details x = None" "filter is_connect tr0 = []"
    and s: "scan e req =
     (case heuristicScore x of
        Success s \<Rightarrow> (Some (json_ok (x\<lparr>score := Some s\<rparr>)),
                       tr0 @ [DbRun tgt (classify (req_type req) tgt) (x\<lparr>score := Some s\<rparr>)])
      | Failure msg \<Rightarrow> (Some (json_error 500 msg), tr0))"
    by blast
  show ?thesis
  proof (cases "heuristicScore x")
    case (Success v)
    with score_range [OF Success] x s show ?thesis by auto
  next
    case (Failure msg)
    with score_failure [OF Failure] x s show ?thesis by auto
  qed
qed

lemma deep_try_lift:
  assumes "resolves_with (deep_probes cfg e tgt (deep_out0 e tgt)) [] P"
  shows "resolves_with (deep_try cfg e tgt) []
     (\<lambda>r tr. \<exists>x tr0. r = json_ok (x\<lparr>score := Some 50\<rparr>)
        \<and> tr = tr0 @ [DbRun tgt ''deepscan'' (x\<lparr>score := Some 50\<rparr>)]
        \<and> checks x = None \<and> geo x = None \<and> heuristicScore x = Success 50 \<and> P x tr0)"
proof -
  have "resolves_with (deep_probes cfg e tgt (deep_out0 e tgt)) []
     (\<lambda>out' tr'. checks out' = None \<and> geo out' = None)"
    using deep_probes_keeps [of cfg e tgt "deep_out0 e tgt" "[]"] by (simp add: deep_out0_def)
  from rw_conj [OF this assms] show ?thesis
    unfolding deep_try_def rw_await
    by (rule rw_mono) (auto simp: score_deep)
qed

lemma deepscan_lift:
  assumes "req_target req = Some tgt" "tgt \<noteq> []" "req_session_id req = Some sid" "sid \<noteq> []"
    "sid \<in> paidSessions srv"
    and "resolves_with (deep_probes cfg e tgt (deep_out0 e tgt)) [] P"
  shows "\<exists>x tr0. deepscan cfg srv e req =
           (Some (json_ok (x\<lparr>score := Some 50\<rparr>)),
            tr0 @ [DbRun tgt ''deepscan'' (x\<lparr>score := Some 50\<rparr>)])
         \<and> checks x = None \<and> geo x = None \<and> heuristicScore x = Success 50 \<and> P x tr0"
proof -
  from respond_rw [OF deep_try_lift [OF assms(6)]]
  obtain r tr x tr0 where "respond (deep_try cfg e tgt) = (Some r, tr)"
    "r = json_ok (x\<lparr>score := Some 50\<rparr>)"
    "tr = tr0 @ [DbRun tgt ''deepscan'' (x\<lparr>score := Some 50\<rparr>)]"
    "checks x = None" "geo x = None" "heuristicScore x = Success 50" "P x tr0"
    by blast
  with assms(1-5) show ?thesis by (auto simp: deepscan_def)
qed

lemma deep_probes_any: "resolves_with (deep_probes cfg e tgt (deep_out0 e tgt)) [] (\<lambda>x tr. True)"
  by (rule rw_mono [OF deep_probes_keeps]) simp

lemma deep_valid:
  assumes "req_target req = Some tgt" "tgt \<noteq> []" "req_session_id req = Some sid" "sid \<noteq> []"
    "sid \<in> paidSessions srv"
  shows "\<exists>out tr. deepscan cfg srv e req = (Some (json_ok out), tr) \<and> score out = Some 50
           \<and> checks out = None \<and> geo out = None \<and> heuristicScore out = Success 50"
proof -
  from deepscan_lift [OF assms deep_probes_any] obtain x tr0 where
    "deepscan cfg srv e req =
       (Some (json_ok (x\<lparr>score := Some 50\<rparr>)), tr0 @ [DbRun tgt ''deepscan'' (x\<lparr>score := Some 50\<rparr>)])"
    "checks x = None" "geo x = None" "heuristicScore x = Success 50"
    by blast
  then show ?thesis by auto
qed

lemma deep_ipv4_ports:
  assumes "matches ipv4_rx tgt"
  shows "resolves_with (deep_probes cfg e tgt (deep_out0 e tgt)) []
     (\<lambda>out' tr'. \<exists>d ps. details out' = Some d \<and> details_ports d = Some ps
        \<and> map port ps = COMMON_PORTS
        \<and> filter is_connect tr' = map (\<lambda>p. SocketConnect p tgt) COMMON_PORTS)"
proof -
  from assms have nd: "\<not> matches domain_rx tgt" and ne: "tgt \<noteq> []"
    using ipv4_not_domain ipv4_last_digit by blast+
  show ?thesis
    using assms nd ne
    by (cases "SHODAN_KEY cfg")
       (simp_all add: deep_probes_def deep_ip_probes_def Let_def SHODAN_KEY_truthy
          with_details_def deep_out0_def common_ports_20 ports_of_probe_results)
qed

lemma deep_nokey:
  assumes "SHODAN_KEY cfg = None"
  shows "resolves_with (deep_probes cfg e tgt (deep_out0 e tgt)) []
     (\<lambda>out' tr'. filter is_shodan tr' = []
        \<and> (\<exists>d. details out' = Some d \<and> details_shodan d = None))"
  using assms
  by (simp add: deep_probes_def deep_ip_probes_def Let_def SHODAN_KEY_truthy
        with_details_def deep_out0_def split: option.split)

lemma deep_domain_branch:
  assumes "matches domain_rx tgt"
  shows "resolves_with (deep_probes cfg e tgt (deep_out0 e tgt)) []
     (\<lambda>out' tr'. take 3 tr' = [Whoiser tgt, Fetch (rdap_url tgt ''domain''), DnsLookup tgt]
        \<and> (\<exists>d w. details out' = Some d \<and> details_whois d = Some w))"
  using assms
  by (cases "SHODAN_KEY cfg")
     (simp_all add: deep_probes_def deep_ip_probes_def Let_def SHODAN_KEY_truthy
        with_details_def deep_out0_def split: option.split)

lemma deep_ipv4_branch:
  assumes "matches ipv4_rx tgt"
  shows "resolves_with (deep_probes cfg e tgt (deep_out0 e tgt)) []
     (\<lambda>out' tr'. take 2 tr' = [Fetch (rdap_url tgt ''ip''), Fetch (geo_url tgt)]
        \<and> resolved_ip out' = Some (JStr tgt)
        \<and> (\<exists>d. details out' = Some d \<and> details_whois d = None))"
proof -
  from assms have nd: "\<not> matches domain_rx tgt" and ne: "tgt \<noteq> []"
    using ipv4_not_domain ipv4_last_digit by blast+
  show ?thesis
    using assms nd ne
    by (cases "SHODAN_KEY cfg")
       (simp_all add: deep_probes_def deep_ip_probes_def Let_def SHODAN_KEY_truthy
          with_details_def deep_out0_def)
qed

lemma deep_neither_branch:
  assumes "\<not> matches domain_rx tgt" "\<not> matches ipv4_rx tgt"
  shows "resolves_with (deep_probes cfg e tgt (deep_out0 e tgt)) []
     (\<lambda>out' tr'. tr' = [Fetch (rdap_url tgt ''ip'')] \<and> resolved_ip out' = Some JNull
        \<and> (\<exists>d. details out' = Some d \<and> details_whois d = None \<and> details_geo d = None
              \<and> details_ports d = None \<and> details_shodan d = None))"
  using assms
  by (simp add: deep_probes_def Let_def with_details_def deep_out0_def)

lemma failure_views [simp]:
  "is_failure x \<Longrightarrow> json_or_null x = JNull"
  "is_failure x \<Longrightarrow> fetch_failed x"
  "is_failure x \<Longrightarrow> https_recorded x out = set_check_https False out"
  "is_failure y \<Longrightarrow> address_or_none y = None"
  "is_failure z \<Longrightarrow> record_or_null z = JNull"
  by (auto simp: is_failure_def json_or_null_def fetch_failed_def https_recorded_def
        address_or_none_def record_or_null_def split: outcome.splits)

lemma fetch_failed_null: "fetch_failed x \<Longrightarrow> json_or_null x = JNull"
  by (auto simp: json_or_null_def fetch_failed_def split: outcome.splits if_splits)

lemma scan_domain_all_down:
  assumes "\<forall>tr u. is_failure (fetch e tr u)" "\<forall>tr h. is_failure (dns_lookup e tr h)"
    "\<forall>tr d. is_failure (whoiser e tr d)"
  shows "resolves_with (scan_probes e tgt ''domain'' (scan_out0 e tgt ''domain'')) []
     (\<lambda>x tr. rdap x = Some JNull \<and> whois x = Some JNull \<and> resolved_ip x = Some JNull
        \<and> geo x = None \<and> https_status x = None
        \<and> checks x = Some \<lparr>checks_rdap = Some False, checks_https = Some False\<rparr>
        \<and> heuristicScore x = Success 75
        \<and> tr = [Fetch (rdap_url tgt ''domain''), Whoiser tgt, DnsLookup tgt,
                 Fetch (''https://'' @ tgt)])"
  using assms
  by (simp add: scan_probes_def Let_def set_check_rdap_def set_check_https_def scan_out0_def
        score_no_geo https_failed_def rdap_failed_def)

lemma scan_probes_kind:
  "resolves_with (scan_probes e tgt t out) []
     (\<lambda>x tr. type x = type out \<and> hints x = hints out
        \<and> take 1 tr = [Fetch (rdap_url tgt t)])"
  by (simp add: scan_probes_def Let_def set_check_rdap_def split: option.split)

lemma scan_probes_geo:
  assumes "geo out = None"
  shows "resolves_with (scan_probes e tgt t out) tr
     (\<lambda>x tr'. geo x = None
        \<or> (\<exists>ip trg. geo x = Some (json_or_null (fetch e trg (geo_url ip)))))"
  using assms
  by (auto simp: scan_probes_def Let_def set_check_rdap_def set_check_https_def
        split: option.split)

lemma scan_body_geo:
  "resolves_with
     (if t = ''domain'' \<or> t = ''ip'' then scan_probes e tgt t (scan_out0 e tgt t)
      else ret ((scan_out0 e tgt t)
             \<lparr>hints := Some (''Search '' @ tgt @ '' on GitHub, Twitter, etc.'')\<rparr>)) []
     (\<lambda>x tr'. geo x = None
        \<or> (\<exists>ip trg. geo x = Some (json_or_null (fetch e trg (geo_url ip)))))"
proof (cases "t = ''domain'' \<or> t = ''ip''")
  case True
  have "geo (scan_out0 e tgt t) = None" by (simp add: scan_out0_def)
  from scan_probes_geo [OF this, of e tgt t "[]"] True show ?thesis by simp
next
  case False
  then show ?thesis by (simp add: scan_out0_def)
qed

lemma json_or_null_object:
  "json_or_null x = JObj fs \<Longrightarrow> \<not> fetch_failed x"
  using fetch_failed_null [of x] by auto

subsection \<open>Early answers and single probes\<close>

lemma probe_single:
  "scanPorts e host [p] tr =
     (Resolved [\<lparr>port = p, status = probe_status (socket_connect e tr p host)\<rparr>],
      tr @ [SocketConnect p host])"
  by (simp add: scanPorts_eq)

lemma failure_of_json_ok [simp]: "failure_of (json_ok out) = None"
  by (simp add: failure_of_def json_ok_def)

lemma failure_of_json_error [simp]:
  "failure_of (json_error 400 msg) = Some InvalidInput"
  "failure_of (json_error 403 msg) = Some AuthorizationDenied"
  "failure_of (json_error 500 msg) = Some Internal"
  by (simp_all add: failure_of_def json_error_def)

lemma scan_missing_target:
  "\<not> truthy_str (req_target req) \<Longrightarrow> scan e req = (Some (json_error 400 ''missing target''), [])"
  by (cases "req_target req") (simp_all add: scan_def)

lemma deepscan_missing:
  "\<not> truthy_str (req_target req) \<or> \<not> truthy_str (req_session_id req) \<Longrightarrow>
     deepscan cfg srv e req = (Some (json_error 400 ''missing target or session_id''), [])"
  by (cases "req_target req"; cases "req_session_id req") (auto simp: deepscan_def)

lemma shodan_result_failed:
  "fetch_failed x \<Longrightarrow> \<exists>msg. shodan_result x = error_record msg"
  by (auto simp: fetch_failed_def shodan_result_def split: outcome.splits if_splits)

lemma shodan_result_cases:
  "shodan_result (Failure msg) = JObj [(''error'', JStr msg)]"
  "\<not> r_ok r \<Longrightarrow>
     shodan_result (Success r) = JObj [(''error'', JStr (''shodan:'' @ string_of_nat (r_status r)))]"
  "r_ok r \<Longrightarrow> r_json r = Failure msg \<Longrightarrow> shodan_result (Success r) = JObj [(''error'', JStr msg)]"
  "r_ok r \<Longrightarrow> r_json r = Success j \<Longrightarrow> shodan_result (Success r) = j"
  by (simp_all add: shodan_result_def error_record_def)

lemma shodanLookup_cases:
  assumes "SHODAN_KEY cfg = Some k"
  shows "fetch e (tr @ [ShodanLookup ip]) (shodan_url ip k) = Failure msg \<Longrightarrow>
       shodanLookup cfg e ip tr =
         (Resolved (JObj [(''error'', JStr msg)]),
          tr @ [ShodanLookup ip, Fetch (shodan_url ip k)])"
    and "fetch e (tr @ [ShodanLookup ip]) (shodan_url ip k) = Success r \<Longrightarrow> \<not> r_ok r \<Longrightarrow>
       shodanLookup cfg e ip tr =
         (Resolved (JObj [(''error'', JStr (''shodan:'' @ string_of_nat (r_status r)))]),
          tr @ [ShodanLookup ip, Fetch (shodan_url ip k)])"
    and "fetch e (tr @ [ShodanLookup ip]) (shodan_url ip k) = Success r \<Longrightarrow> r_ok r \<Longrightarrow>
       r_json r = Failure msg \<Longrightarrow>
       shodanLookup cfg e ip tr =
         (Resolved (JObj [(''error'', JStr msg)]),
          tr @ [ShodanLookup ip, Fetch (shodan_url ip k)])"
    and "fetch e (tr @ [ShodanLookup ip]) (shodan_url ip k) = Success r \<Longrightarrow> r_ok r \<Longrightarrow>
       r_json r = Success j \<Longrightarrow>
       shodanLookup cfg e ip tr =
         (Resolved j, tr @ [ShodanLookup ip, Fetch (shodan_url ip k)])"
  by (simp_all add: shodanLookup_eq [OF assms] shodan_result_cases)

subsection \<open>Conversion to a string\<close>

lemma digit_table: "map (\<lambda>k::nat. char_of (48 + k)) [0..<10] = ''0123456789''"
  by code_simp

lemma digit_char:
  assumes "k < 10"
  shows "char_of (48 + k :: nat) \<in> set ''0123456789''"
proof -
  from assms have "k \<in> set [0..<10]" by simp
  then have "char_of (48 + k) \<in> (\<lambda>k::nat. char_of (48 + k)) ` set [0..<10]"
    by (rule imageI)
  then have "char_of (48 + k) \<in> set (map (\<lambda>k::nat. char_of (48 + k)) [0..<10])"
    by (simp only: set_map)
  then show ?thesis unfolding digit_table .
qed

lemma set_snoc_subset: "set a \<subseteq> S \<Longrightarrow> c \<in> S \<Longrightarrow> set (a @ [c]) \<subseteq> S"
  by simp

lemma string_of_nat_digits: "set (string_of_nat n) \<subseteq> set ''0123456789''"
proof (induction n rule: string_of_nat.induct)
  case (1 n)
  show ?case
  proof (cases "n < 10")
    case True
    then have "string_of_nat n = [] @ [char_of (48 + n)]" by (subst string_of_nat.simps) simp
    moreover have "set ([] @ [char_of (48 + n)]) \<subseteq> set ''0123456789''"
      by (rule set_snoc_subset [OF _ digit_char [OF True]]) simp
    ultimately show ?thesis by (simp only:)
  next
    case False
    then have "string_of_nat n = string_of_nat (n div 10) @ [char_of (48 + n mod 10)]"
      by (subst string_of_nat.simps) simp
    moreover have "n mod 10 < 10" by simp
    then have "set (string_of_nat (n div 10) @ [char_of (48 + n mod 10)]) \<subseteq> set ''0123456789''"
      by (rule set_snoc_subset [OF 1 [OF False] digit_char])
    ultimately show ?thesis by (simp only:)
  qed
qed

lemma string_of_int_no_g:
  "CHR ''g'' \<notin> set (string_of_int i)" "CHR ''G'' \<notin> set (string_of_int i)"
proof -
  have d: "CHR ''g'' \<notin> set ''0123456789''" "CHR ''G'' \<notin> set ''0123456789''" by simp_all
  with string_of_nat_digits have n: "CHR ''g'' \<notin> set (string_of_nat k)"
    "CHR ''G'' \<notin> set (string_of_nat k)" for k
    by blast+
  show "CHR ''g'' \<notin> set (string_of_int i)" "CHR ''G'' \<notin> set (string_of_int i)"
    using n [of "nat i"] n [of "nat (- i)"] by (simp_all add: string_of_int_def)
qed

lemma google_needs_g:
  assumes "matches google_rx s"
  shows "CHR ''g'' \<in> set s \<or> CHR ''G'' \<in> set s"
proof -
  from assms have "sublist ''google'' (map ascii_lower s)"
    by (simp add: google_rx_contains contains_ci_def ascii_lower_def)
  then obtain ps ss where "map ascii_lower s = ps @ ''google'' @ ss"
    by (auto simp: sublist_def)
  then have "CHR ''g'' \<in> set (map ascii_lower s)" by simp
  then obtain c where "c \<in> set s" "ascii_lower c = CHR ''g''" by auto
  then show ?thesis by (auto simp: ascii_lower_simps ci_def)
qed

lemma number_no_match: "\<not> matches google_rx (string_of_int i)"
  using google_needs_g [of "string_of_int i"] string_of_int_no_g [of i] by blast

lemma fixed_no_match:
  "\<not> matches google_rx ''true''" "\<not> matches google_rx ''[object Object]''"
  by code_simp+

subsection \<open>Scenarios\<close>

text \<open>
  The model run on whole requests: every collaborator answering, the HTTPS request
  alone failing, an operator given as a list of one name, and a deep request with a
  session that was never paid.
\<close>

lemma scenario_all_up:
  "map_option code (fst (scan env_up (basic_req ''example.com''))) = Some 200"
  "map_option body (fst (scan env_up (basic_req ''example.com''))) =
     Some (OutBody \<lparr>target = ''example.com'', type = Some ''domain'',
            when = ''2026-01-01T00:00:00.000Z'',
            checks = Some \<lparr>checks_rdap = Some True, checks_https = Some True\<rparr>,
            rdap = Some (JObj [(''isp'', JStr ''Example Networks'')]),
            whois = Some (JObj []),
            resolved_ip = Some (JStr ''93.184.216.34''),
            geo = Some (JObj [(''isp'', JStr ''Example Networks'')]),
            https_status = Some 200, hints = None, details = None,
            score = Some 50\<rparr>)"
  by code_simp+

lemma scenario_https_down:
  "map_option body (fst (scan env_https_down (basic_req ''example.com''))) =
     Some (OutBody \<lparr>target = ''example.com'', type = Some ''domain'',
            when = ''2026-01-01T00:00:00.000Z'',
            checks = Some \<lparr>checks_rdap = Some True, checks_https = Some False\<rparr>,
            rdap = Some (JObj [(''isp'', JStr ''Example Networks'')]),
            whois = Some (JObj []),
            resolved_ip = Some (JStr ''93.184.216.34''),
            geo = Some (JObj [(''isp'', JStr ''Example Networks'')]),
            https_status = None, hints = None, details = None,
            score = Some 65\<rparr>)"
  by code_simp

lemma scenario_operator_list:
  "map_option body (fst (scan env_isp_list (basic_req ''example.com''))) =
     Some (OutBody \<lparr>target = ''example.com'', type = Some ''domain'',
            when = ''2026-01-01T00:00:00.000Z'',
            checks = Some \<lparr>checks_rdap = Some True, checks_https = Some True\<rparr>,
            rdap = Some (JObj [(''isp'', JArr [JStr ''Google LLC''])]),
            whois = Some (JObj []),
            resolved_ip = Some (JStr ''93.184.216.34''),
            geo = Some (JObj [(''isp'', JArr [JStr ''Google LLC''])]),
            https_status = Some 200, hints = None, details = None,
            score = Some 42\<rparr>)"
  by code_simp

lemma scenario_deep_denied:
  "deepscan cfg_key srv_paid env_up (deep_req ''10.0.0.1'' (Some ''cs_unpaid'')) =
     (Some (json_error 403 ''Pro access required (no valid payment session)''), [])"
  by code_simp

section \<open>The claims\<close>

subsection \<open>The score\<close>

lemma https_failed_iff: "https_failed out \<longleftrightarrow> https_flag out = Some False"
  by (cases "checks out") (simp_all add: https_failed_def https_flag_def)

lemma rdap_failed_iff: "rdap_failed out \<longleftrightarrow> rdap_flag out = Some False"
  by (cases "checks out") (simp_all add: rdap_failed_def rdap_flag_def)

lemma score_by_match:
  assumes "isp_google out = Success g"
  shows "heuristicScore out =
     Success (50 + (if https_failed out then 15 else 0) + (if rdap_failed out then 10 else 0)
                 - (if g then 8 else 0))"
  using assms by (simp add: heuristicScore_def Let_def)

lemma score_plain:
  assumes "isp_google out = Success False"
  shows "heuristicScore out = Success (score_spec (https_flag out) (rdap_flag out) None)"
  unfolding score_by_match [OF assms] score_spec_def https_failed_iff rdap_failed_iff
  by simp

lemma score_named:
  assumes "isp_google out = Success (matches google_rx name)"
  shows "heuristicScore out = Success (score_spec (https_flag out) (rdap_flag out) (Some name))"
  unfolding score_by_match [OF assms] score_spec_def https_failed_iff rdap_failed_iff
    google_rx_contains
  by simp

lemma score_thrown:
  assumes "isp_google out = Failure msg"
  shows "heuristicScore out = Failure msg"
  using assms by (simp add: heuristicScore_def Let_def)

lemma isp_google_cases:
  "get_isp (geo out) = None \<Longrightarrow> isp_google out = Success False"
  "get_isp (geo out) = Some v \<Longrightarrow> \<not> truthy v \<Longrightarrow> isp_google out = Success False"
  "get_isp (geo out) = Some v \<Longrightarrow> truthy v \<Longrightarrow> to_string v = Success name \<Longrightarrow>
     isp_google out = Success (matches google_rx name)"
  "get_isp (geo out) = Some v \<Longrightarrow> truthy v \<Longrightarrow> to_string v = Failure msg \<Longrightarrow>
     isp_google out = Failure msg"
  by (simp_all add: isp_google_def regexp_test_def)

lemma empty_no_match: "\<not> matches google_rx []"
  by code_simp

lemma score_of_operator:
  assumes "geo out = Some (JObj fs)"
  shows "case map_of fs ''isp'' of
      None \<Rightarrow> heuristicScore out = Success (score_spec (https_flag out) (rdap_flag out) None)
    | Some JNull \<Rightarrow>
        heuristicScore out = Success (score_spec (https_flag out) (rdap_flag out) None)
    | Some (JBool b) \<Rightarrow>
        heuristicScore out = Success (score_spec (https_flag out) (rdap_flag out) None)
    | Some (JNum n) \<Rightarrow>
        heuristicScore out = Success (score_spec (https_flag out) (rdap_flag out) None)
    | Some (JStr name) \<Rightarrow>
        heuristicScore out = Success (score_spec (https_flag out) (rdap_flag out) (Some name))
    | Some (JArr xs) \<Rightarrow>
        (case join_comma xs of
           Success name \<Rightarrow>
             heuristicScore out =
               Success (score_spec (https_flag out) (rdap_flag out) (Some name))
         | Failure msg \<Rightarrow> heuristicScore out = Failure cannot_convert)
    | Some (JObj ms) \<Rightarrow>
        (if map_of ms ''toString'' = None
         then heuristicScore out = Success (score_spec (https_flag out) (rdap_flag out) None)
         else heuristicScore out = Failure cannot_convert)"
proof (cases "map_of fs ''isp''")
  case None
  with assms have "get_isp (geo out) = None" by (simp add: get_isp_def)
  from score_plain [OF isp_google_cases(1) [OF this]] None show ?thesis by simp
next
  case (Some v)
  with assms have g: "get_isp (geo out) = Some v" by (simp add: get_isp_def)
  show ?thesis
  proof (cases v)
    case JNull
    with score_plain [OF isp_google_cases(2) [OF g]] Some show ?thesis by simp
  next
    case (JBool b)
    show ?thesis
    proof (cases b)
      case True
      with JBool have "isp_google out = Success (matches google_rx ''true'')"
        by (intro isp_google_cases(3) [OF g]) simp_all
      then have "isp_google out = Success False" by (simp only: fixed_no_match)
      from score_plain [OF this] Some JBool show ?thesis by simp
    next
      case False
      with JBool score_plain [OF isp_google_cases(2) [OF g]] Some show ?thesis by simp
    qed
  next
    case (JNum n)
    show ?thesis
    proof (cases "n = 0")
      case True
      with JNum score_plain [OF isp_google_cases(2) [OF g]] Some show ?thesis by simp
    next
      case False
      with JNum have "isp_google out = Success (matches google_rx (string_of_int n))"
        by (intro isp_google_cases(3) [OF g]) simp_all
      then have "isp_google out = Success False" by (simp only: number_no_match)
      from score_plain [OF this] Some JNum show ?thesis by simp
    qed
  next
    case (JStr name)
    show ?thesis
    proof (cases "name = []")
      case True
      with JStr have "isp_google out = Success False"
        by (intro isp_google_cases(2) [OF g]) simp
      then have "isp_google out = Success (matches google_rx name)"
        using True by (simp only: empty_no_match)
      from score_named [OF this] Some JStr show ?thesis by simp
    next
      case False
      with JStr have "isp_google out = Success (matches google_rx name)"
        by (intro isp_google_cases(3) [OF g]) simp_all
      from score_named [OF this] Some JStr show ?thesis by simp
    qed
  next
    case (JArr xs)
    show ?thesis
    proof (cases "join_comma xs")
      case (Failure msg)
      with JArr have "isp_google out = Failure msg"
        by (intro isp_google_cases(4) [OF g]) simp_all
      moreover from Failure have "msg = cannot_convert" by (rule to_string_failure(2))
      ultimately have "heuristicScore out = Failure cannot_convert"
        using score_thrown by simp
      with Some JArr Failure show ?thesis by simp
    next
      case (Success name)
      with JArr have "isp_google out = Success (matches google_rx name)"
        by (intro isp_google_cases(3) [OF g]) simp_all
      from score_named [OF this] Some JArr Success show ?thesis by simp
    qed
  next
    case (JObj ms)
    show ?thesis
    proof (cases "map_of ms ''toString'' = None")
      case True
      with JObj have "isp_google out = Success (matches google_rx ''[object Object]'')"
        by (intro isp_google_cases(3) [OF g]) simp_all
      then have "isp_google out = Success False" by (simp only: fixed_no_match)
      from score_plain [OF this] Some JObj True show ?thesis by simp
    next
      case False
      with JObj have "isp_google out = Failure cannot_convert"
        by (intro isp_google_cases(4) [OF g]) auto
      from score_thrown [OF this] Some JObj False show ?thesis by simp
    qed
  qed
qed

lemma score_without_object:
  assumes "geo out = None \<or> (\<exists>g. geo out = Some g \<and> (\<forall>fs. g \<noteq> JObj fs))"
  shows "heuristicScore out = Success (score_spec (https_flag out) (rdap_flag out) None)"
proof -
  from assms have "get_isp (geo out) = None"
    by (auto simp: get_isp_def split: json.splits)
  from score_plain [OF isp_google_cases(1) [OF this]] show ?thesis .
qed

lemma score_of_list:
  assumes "geo out = Some (JObj fs)"
    and "map_of fs ''isp'' = Some (JArr [JStr a, JNull, JArr [JStr b]])"
  shows "heuristicScore out =
     Success (score_spec (https_flag out) (rdap_flag out) (Some (a @ '','' @ '','' @ b)))"
  using score_of_operator [OF assms(1)] assms(2) by simp

text \<open>
  Claim C1, as stated, fails: for a geolocation record whose operator is an object with a
  member \<open>toString\<close>, the score function returns no score at all; it throws.
\<close>

theorem operator_without_string_form_throws:
  "geo (sample_out True True (JObj [(''toString'', JNum 0)])) =
     Some (JObj [(''country'', JStr ''US''), (''isp'', JObj [(''toString'', JNum 0)])])
   \<and> heuristicScore (sample_out True True (JObj [(''toString'', JNum 0)])) =
       Failure ''Cannot convert object to primitive value''
   \<and> heuristicScore (sample_out True True (JObj [(''toString'', JNum 0)])) \<noteq>
       Success (score_spec (Some True) (Some True) None)"
  by (simp add: sample_out_def heuristicScore_def isp_google_def get_isp_def regexp_test_def
        cannot_convert_def)

text \<open>
  Claim C1, amended. The score is the stated formula whenever the operator of the
  geolocation record is absent or can be converted to a string: from a baseline of 50 it
  adds 15 when \<open>checks.https\<close> is present and false, adds 10 when \<open>checks.rdap\<close> is
  present and false, subtracts 8 when the operator name contains \<open>google\<close> in any letter
  case, and clamps to 0..100 (the clamp never binds). The operator name is the member
  \<open>isp\<close> of the record \<open>geo\<close>: a string as it is, a list as its elements joined by
  commas; with no \<open>geo\<close>, a \<open>geo\<close> that is not an object, no member \<open>isp\<close>, or an
  \<open>isp\<close> that is null, a number, a boolean or a plain object there is no match. With no
  failed check and no match the score is exactly 50. The score is a function of the
  record alone. It throws, with the message of \<open>cannot_convert\<close>, exactly when the
  operator is truthy and has no string form (an object with a member \<open>toString\<close>,
  possibly inside a list).
\<close>

theorem heuristicScore_formula:
  "(geo out = None \<or> (\<exists>g. geo out = Some g \<and> (\<forall>fs. g \<noteq> JObj fs))
      \<longrightarrow> heuristicScore out = Success (score_spec (https_flag out) (rdap_flag out) None))
   \<and> (geo out = Some (JObj fs)
      \<longrightarrow> (case map_of fs ''isp'' of
            None \<Rightarrow> heuristicScore out = Success (score_spec (https_flag out) (rdap_flag out) None)
          | Some JNull \<Rightarrow>
              heuristicScore out = Success (score_spec (https_flag out) (rdap_flag out) None)
          | Some (JBool b) \<Rightarrow>
              heuristicScore out = Success (score_spec (https_flag out) (rdap_flag out) None)
          | Some (JNum n) \<Rightarrow>
              heuristicScore out = Success (score_spec (https_flag out) (rdap_flag out) None)
          | Some (JStr name) \<Rightarrow>
              heuristicScore out =
                Success (score_spec (https_flag out) (rdap_flag out) (Some name))
          | Some (JArr xs) \<Rightarrow>
              (case join_comma xs of
                 Success name \<Rightarrow>
                   heuristicScore out =
                     Success (score_spec (https_flag out) (rdap_flag out) (Some name))
               | Failure msg \<Rightarrow> heuristicScore out = Failure cannot_convert)
          | Some (JObj ms) \<Rightarrow>
              (if map_of ms ''toString'' = None
               then heuristicScore out =
                      Success (score_spec (https_flag out) (rdap_flag out) None)
               else heuristicScore out = Failure cannot_convert)))
   \<and> (geo out = Some (JObj fs)
        \<and> map_of fs ''isp'' = Some (JArr [JStr a, JNull, JArr [JStr c]])
      \<longrightarrow> heuristicScore out =
            Success (score_spec (https_flag out) (rdap_flag out)
                       (Some (a @ '','' @ '','' @ c))))
   \<and> (heuristicScore out = Success s
      \<longrightarrow> 0 \<le> s \<and> s \<le> 100
        \<and> s = 50 + (if https_flag out = Some False then 15 else 0)
                 + (if rdap_flag out = Some False then 10 else 0)
                 - (if isp_google out = Success True then 8 else 0))
   \<and> (https_flag out \<noteq> Some False \<and> rdap_flag out \<noteq> Some False
        \<and> isp_google out = Success False
      \<longrightarrow> heuristicScore out = Success 50)
   \<and> (heuristicScore out = Failure msg
      \<longrightarrow> msg = cannot_convert
        \<and> (\<exists>fs v. geo out = Some (JObj fs) \<and> map_of fs ''isp'' = Some v \<and> truthy v
              \<and> to_string v = Failure cannot_convert))"
proof (intro conjI impI)
  assume "geo out = None \<or> (\<exists>g. geo out = Some g \<and> (\<forall>fs. g \<noteq> JObj fs))"
  then show "heuristicScore out = Success (score_spec (https_flag out) (rdap_flag out) None)"
    by (rule score_without_object)
next
  assume "geo out = Some (JObj fs)"
  then show "case map_of fs ''isp'' of
      None \<Rightarrow> heuristicScore out = Success (score_spec (https_flag out) (rdap_flag out) None)
    | Some JNull \<Rightarrow>
        heuristicScore out = Success (score_spec (https_flag out) (rdap_flag out) None)
    | Some (JBool b) \<Rightarrow>
        heuristicScore out = Success (score_spec (https_flag out) (rdap_flag out) None)
    | Some (JNum n) \<Rightarrow>
        heuristicScore out = Success (score_spec (https_flag out) (rdap_flag out) None)
    | Some (JStr name) \<Rightarrow>
        heuristicScore out = Success (score_spec (https_flag out) (rdap_flag out) (Some name))
    | Some (JArr xs) \<Rightarrow>
        (case join_comma xs of
           Success name \<Rightarrow>
             heuristicScore out =
               Success (score_spec (https_flag out) (rdap_flag out) (Some name))
         | Failure msg \<Rightarrow> heuristicScore out = Failure cannot_convert)
    | Some (JObj ms) \<Rightarrow>
        (if map_of ms ''toString'' = None
         then heuristicScore out = Success (score_spec (https_flag out) (rdap_flag out) None)
         else heuristicScore out = Failure cannot_convert)"
    by (rule score_of_operator)
next
  assume "geo out = Some (JObj fs) \<and> map_of fs ''isp'' = Some (JArr [JStr a, JNull, JArr [JStr c]])"
  then show "heuristicScore out =
      Success (score_spec (https_flag out) (rdap_flag out) (Some (a @ '','' @ '','' @ c)))"
    using score_of_list [of out fs a c] by blast
next
  assume s: "heuristicScore out = Success s"
  from score_range [OF s] show "0 \<le> s" "s \<le> 100" by simp_all
  from s obtain g where g: "isp_google out = Success g"
    by (cases "isp_google out") (simp_all add: heuristicScore_def Let_def)
  from score_by_match [OF g] s g
  show "s = 50 + (if https_flag out = Some False then 15 else 0)
              + (if rdap_flag out = Some False then 10 else 0)
              - (if isp_google out = Success True then 8 else 0)"
    by (simp add: https_failed_iff rdap_failed_iff)
next
  assume "https_flag out \<noteq> Some False \<and> rdap_flag out \<noteq> Some False
    \<and> isp_google out = Success False"
  then show "heuristicScore out = Success 50"
    using score_by_match [of out False] by (simp add: https_failed_iff rdap_failed_iff)
next
  assume f: "heuristicScore out = Failure msg"
  from score_failure [OF f] show "msg = cannot_convert" by simp
  from score_failure [OF f] obtain v where v: "get_isp (geo out) = Some v" "truthy v"
    "to_string v = Failure cannot_convert" by blast
  from v(1) obtain fs where "geo out = Some (JObj fs)" "map_of fs ''isp'' = Some v"
    by (auto simp: get_isp_def split: option.splits json.splits)
  with v show "\<exists>fs v. geo out = Some (JObj fs) \<and> map_of fs ''isp'' = Some v \<and> truthy v
      \<and> to_string v = Failure cannot_convert"
    by blast
qed

theorem heuristicScore_formula_witness:
  "geo (sample_out True True (JStr ''Google LLC'')) =
     Some (JObj [(''country'', JStr ''US''), (''isp'', JStr ''Google LLC'')])
   \<and> score_spec (Some True) (Some True) (Some ''Google LLC'') = 42
   \<and> heuristicScore (sample_out True True (JStr ''Google LLC'')) = Success 42
   \<and> score_spec (Some False) (Some True) (Some ''GOOGLE LLC'') = 57
   \<and> heuristicScore (sample_out False True (JArr [JStr ''GOOGLE LLC''])) = Success 57
   \<and> score_spec (Some True) (Some False) (Some ''Example Networks'') = 60
   \<and> heuristicScore (sample_out True False (JStr ''Example Networks'')) = Success 60
   \<and> score_spec (Some False) (Some False) (Some ''Goo,,gle'') = 75
   \<and> heuristicScore (sample_out False False (JArr [JStr ''Goo'', JNull, JArr [JStr ''gle'']])) =
       Success 75
   \<and> score_spec (Some True) (Some True) None = 50
   \<and> heuristicScore (sample_out True True (JObj [(''name'', JStr ''Google LLC'')])) = Success 50
   \<and> heuristicScore (sample_out True True (JNum 15169)) = Success 50
   \<and> heuristicScore (sample_out True True (JObj [(''toString'', JNum 0)])) =
       Failure ''Cannot convert object to primitive value''
   \<and> geo (scan_out0 env_up ''octocat'' ''username'') = None
   \<and> score_spec None None None = 50
   \<and> heuristicScore (scan_out0 env_up ''octocat'' ''username'') = Success 50"
proof -
  have g: "geo (sample_out h r v) = Some (JObj [(''country'', JStr ''US''), (''isp'', v)])"
    for h r v
    by (simp add: sample_out_def)
  have f: "https_flag (sample_out h r v) = Some h" "rdap_flag (sample_out h r v) = Some r"
    for h r v
    by (simp_all add: sample_out_def https_flag_def rdap_flag_def)
  have g0: "geo (scan_out0 env_up ''octocat'' ''username'') = None"
    and f0: "https_flag (scan_out0 env_up ''octocat'' ''username'') = None"
      "rdap_flag (scan_out0 env_up ''octocat'' ''username'') = None"
    by (simp_all add: scan_out0_def https_flag_def rdap_flag_def)
  have s: "score_spec (Some True) (Some True) (Some ''Google LLC'') = 42"
    "score_spec (Some False) (Some True) (Some ''GOOGLE LLC'') = 57"
    "score_spec (Some True) (Some False) (Some ''Example Networks'') = 60"
    "score_spec (Some False) (Some False) (Some ''Goo,,gle'') = 75"
    "score_spec (Some True) (Some True) None = 50"
    "score_spec None None None = 50"
    by code_simp+
  have 1: "heuristicScore (sample_out True True (JStr ''Google LLC'')) =
      Success 42"
    using heuristicScore_formula
      [where out = "sample_out True True (JStr ''Google LLC'')"
         and fs = "[(''country'', JStr ''US''), (''isp'', JStr ''Google LLC'')]",
       THEN conjunct2, THEN conjunct1, THEN mp, OF g]
    by (simp add: f s)
  have 2: "heuristicScore (sample_out False True (JArr [JStr ''GOOGLE LLC''])) =
      Success 57"
    using heuristicScore_formula
      [where out = "sample_out False True (JArr [JStr ''GOOGLE LLC''])"
         and fs = "[(''country'', JStr ''US''), (''isp'', JArr [JStr ''GOOGLE LLC''])]",
       THEN conjunct2, THEN conjunct1, THEN mp, OF g]
    by (simp add: f s)
  have 3: "heuristicScore (sample_out True False (JStr ''Example Networks'')) =
      Success 60"
    using heuristicScore_formula
      [where out = "sample_out True False (JStr ''Example Networks'')"
         and fs = "[(''country'', JStr ''US''), (''isp'', JStr ''Example Networks'')]",
       THEN conjunct2, THEN conjunct1, THEN mp, OF g]
    by (simp add: f s)
  have 5: "heuristicScore (sample_out True True (JObj [(''name'', JStr ''Google LLC'')])) =
      Success 50"
    using heuristicScore_formula
      [where out = "sample_out True True (JObj [(''name'', JStr ''Google LLC'')])"
         and fs = "[(''country'', JStr ''US''), (''isp'', JObj [(''name'', JStr ''Google LLC'')])]",
       THEN conjunct2, THEN conjunct1, THEN mp, OF g]
    by (simp add: f s)
  have 6: "heuristicScore (sample_out True True (JNum 15169)) =
      Success 50"
    using heuristicScore_formula
      [where out = "sample_out True True (JNum 15169)"
         and fs = "[(''country'', JStr ''US''), (''isp'', JNum 15169)]",
       THEN conjunct2, THEN conjunct1, THEN mp, OF g]
    by (simp add: f s)
  have 7: "heuristicScore (sample_out True True (JObj [(''toString'', JNum 0)])) =
      Failure ''Cannot convert object to primitive value''"
    using heuristicScore_formula
      [where out = "sample_out True True (JObj [(''toString'', JNum 0)])"
         and fs = "[(''country'', JStr ''US''), (''isp'', JObj [(''toString'', JNum 0)])]",
       THEN conjunct2, THEN conjunct1, THEN mp, OF g]
    by (simp add: cannot_convert_def)
  have 4: "heuristicScore (sample_out False False (JArr [JStr ''Goo'', JNull, JArr [JStr ''gle'']])) =
      Success 75"
    using heuristicScore_formula
      [where out = "sample_out False False (JArr [JStr ''Goo'', JNull, JArr [JStr ''gle'']])"
         and fs = "[(''country'', JStr ''US''), (''isp'', JArr [JStr ''Goo'', JNull, JArr [JStr ''gle'']])]"
         and a = "''Goo''" and c = "''gle''",
       THEN conjunct2, THEN conjunct2, THEN conjunct1, THEN mp, OF conjI, OF g]
    by (simp add: f s)
  have 8: "heuristicScore (scan_out0 env_up ''octocat'' ''username'') = Success 50"
    using heuristicScore_formula [THEN conjunct1, THEN mp, OF disjI1, OF g0]
    by (simp add: f0 s)
  show ?thesis
    by (intro conjI g s 1 2 3 4 5 6 7 8 g0)
qed

subsection \<open>Failures of collaborators\<close>

lemma deep_domain_all_down:
  assumes "\<forall>tr u. is_failure (fetch e tr u)" "\<forall>tr h. is_failure (dns_lookup e tr h)"
    "\<forall>tr d. is_failure (whoiser e tr d)" "matches domain_rx tgt"
  shows "resolves_with (deep_probes cfg e tgt (deep_out0 e tgt)) []
     (\<lambda>x tr. resolved_ip x = Some JNull
        \<and> details x = Some \<lparr>details_whois = Some JNull, details_rdap = Some JNull,
                             details_geo = None, details_ports = None, details_shodan = None\<rparr>
        \<and> tr = [Whoiser tgt, Fetch (rdap_url tgt ''domain''), DnsLookup tgt])"
  using assms
  by (simp add: deep_probes_def Let_def with_details_def deep_out0_def)

lemma scan_all_down:
  assumes "\<forall>tr u. is_failure (fetch e tr u)" "\<forall>tr h. is_failure (dns_lookup e tr h)"
    "\<forall>tr d. is_failure (whoiser e tr d)"
    "req_target req = Some tgt" "tgt \<noteq> []" "classify (req_type req) tgt = ''domain''"
  shows "\<exists>out tr. scan e req = (Some (json_ok out), tr)
     \<and> rdap out = Some JNull \<and> whois out = Some JNull \<and> resolved_ip out = Some JNull
     \<and> geo out = None \<and> https_status out = None
     \<and> checks out = Some \<lparr>checks_rdap = Some False, checks_https = Some False\<rparr>
     \<and> score out = Some 75"
proof -
  have "resolves_with
     (if ''domain'' = ''domain'' \<or> ''domain'' = ''ip''
      then scan_probes e tgt ''domain'' (scan_out0 e tgt ''domain'')
      else ret ((scan_out0 e tgt ''domain'')
             \<lparr>hints := Some (''Search '' @ tgt @ '' on GitHub, Twitter, etc.'')\<rparr>)) []
     (\<lambda>x tr. heuristicScore x = Success 75
        \<and> rdap x = Some JNull \<and> whois x = Some JNull \<and> resolved_ip x = Some JNull
        \<and> geo x = None \<and> https_status x = None
        \<and> checks x = Some \<lparr>checks_rdap = Some False, checks_https = Some False\<rparr>)"
    using rw_mono [OF scan_domain_all_down [OF assms(1-3), of tgt]] by simp
  from scan_lift_ok [where v = "\<lambda>x. 75", OF assms(4,5) assms(6) [symmetric] this]
  obtain x tr0 where "scan e req =
      (Some (json_ok (x\<lparr>score := Some 75\<rparr>)), tr0 @ [DbRun tgt ''domain'' (x\<lparr>score := Some 75\<rparr>)])"
    "rdap x = Some JNull" "whois x = Some JNull" "resolved_ip x = Some JNull"
    "geo x = None" "https_status x = None"
    "checks x = Some \<lparr>checks_rdap = Some False, checks_https = Some False\<rparr>"
    by blast
  then show ?thesis by simp
qed

lemma deepscan_all_down:
  assumes "\<forall>tr u. is_failure (fetch e tr u)" "\<forall>tr h. is_failure (dns_lookup e tr h)"
    "\<forall>tr d. is_failure (whoiser e tr d)" "matches domain_rx tgt"
    "req_target req = Some tgt" "req_session_id req = Some sid" "sid \<noteq> []"
    "sid \<in> paidSessions srv"
  shows "\<exists>out tr. deepscan cfg srv e req = (Some (json_ok out), tr)
     \<and> resolved_ip out = Some JNull
     \<and> details out = Some \<lparr>details_whois = Some JNull, details_rdap = Some JNull,
                            details_geo = None, details_ports = None, details_shodan = None\<rparr>
     \<and> score out = Some 50"
proof -
  from assms(4) have ne: "tgt \<noteq> []" using domain_last_letter by blast
  from deepscan_lift [OF assms(5) ne assms(6,7,8) deep_domain_all_down [OF assms(1-4), of cfg]]
  obtain x tr0 where d: "deepscan cfg srv e req =
      (Some (json_ok (x\<lparr>score := Some 50\<rparr>)),
       tr0 @ [DbRun tgt ''deepscan'' (x\<lparr>score := Some 50\<rparr>)])"
    "resolved_ip x = Some JNull"
    "details x = Some \<lparr>details_whois = Some JNull, details_rdap = Some JNull,
                        details_geo = None, details_ports = None, details_shodan = None\<rparr>"
    by blast
  then show ?thesis by simp
qed

lemma helper_absorption:
  "is_failure (dns_lookup e tr host) \<longrightarrow>
     resolveToIp e host tr = (Resolved None, tr @ [DnsLookup host])"
  "fetch_failed (fetch e tr (geo_url ip)) \<longrightarrow>
     ipGeo e ip tr = (Resolved JNull, tr @ [Fetch (geo_url ip)])"
  "fetch_failed (fetch e tr (rdap_url tgt ty)) \<longrightarrow>
     rdapLookup e tgt ty tr = (Resolved JNull, tr @ [Fetch (rdap_url tgt ty)])"
  "is_failure (whoiser e tr domain) \<longrightarrow>
     whoisLookup e domain tr = (Resolved JNull, tr @ [Whoiser domain])"
  "is_failure (fetch e tr (''https://'' @ tgt)) \<longrightarrow>
     https_check e tgt out tr =
       (Resolved (set_check_https False out), tr @ [Fetch (''https://'' @ tgt)])"
  "(\<exists>msg. socket_connect e tr p host = Throws msg) \<longrightarrow>
     scanPorts e host [p] tr =
       (Resolved [\<lparr>port = p, status = ''error''\<rparr>], tr @ [SocketConnect p host])"
  by (auto simp: resolveToIp_eq ipGeo_eq rdapLookup_eq whoisLookup_eq https_check_eq
        fetch_failed_null probe_single)

lemma shodan_absorption:
  "SHODAN_KEY cfg = Some k \<and> fetch e (tr @ [ShodanLookup ip]) (shodan_url ip k) = Failure msg
     \<longrightarrow> shodanLookup cfg e ip tr =
           (Resolved (JObj [(''error'', JStr msg)]),
            tr @ [ShodanLookup ip, Fetch (shodan_url ip k)])"
  "SHODAN_KEY cfg = Some k \<and> fetch e (tr @ [ShodanLookup ip]) (shodan_url ip k) = Success r
      \<and> \<not> r_ok r
     \<longrightarrow> shodanLookup cfg e ip tr =
           (Resolved (JObj [(''error'', JStr (''shodan:'' @ string_of_nat (r_status r)))]),
            tr @ [ShodanLookup ip, Fetch (shodan_url ip k)])"
  "SHODAN_KEY cfg = Some k \<and> fetch e (tr @ [ShodanLookup ip]) (shodan_url ip k) = Success r
      \<and> r_ok r \<and> r_json r = Failure msg
     \<longrightarrow> shodanLookup cfg e ip tr =
           (Resolved (JObj [(''error'', JStr msg)]),
            tr @ [ShodanLookup ip, Fetch (shodan_url ip k)])"
  using shodanLookup_cases [of cfg k e tr ip] by blast+

lemma scan_scored_or_thrown:
  assumes "req_target req = Some tgt" "tgt \<noteq> []"
  shows "(\<exists>out tr' s. scan e req = (Some (json_ok out), tr') \<and> score out = Some s
            \<and> heuristicScore out = Success s \<and> 0 \<le> s \<and> s \<le> 100)
       \<or> (\<exists>tr' trg ip fs v. scan e req = (Some (json_error 500 cannot_convert), tr')
            \<and> \<not> fetch_failed (fetch e trg (geo_url ip))
            \<and> json_or_null (fetch e trg (geo_url ip)) = JObj fs
            \<and> map_of fs ''isp'' = Some v \<and> truthy v \<and> to_string v = Failure cannot_convert)"
proof -
  from scan_lift [OF assms refl scan_body_geo] obtain x tr0 where
    x: "geo x = None \<or> (\<exists>ip trg. geo x = Some (json_or_null (fetch e trg (geo_url ip))))"
    and s: "scan e req =
     (case heuristicScore x of
        Success s \<Rightarrow> (Some (json_ok (x\<lparr>score := Some s\<rparr>)),
                       tr0 @ [DbRun tgt (classify (req_type req) tgt) (x\<lparr>score := Some s\<rparr>)])
      | Failure msg \<Rightarrow> (Some (json_error 500 msg), tr0))"
    by blast
  show ?thesis
  proof (cases "heuristicScore x")
    case (Success v)
    with score_range [OF Success] s
    have "scan e req = (Some (json_ok (x\<lparr>score := Some v\<rparr>)),
          tr0 @ [DbRun tgt (classify (req_type req) tgt) (x\<lparr>score := Some v\<rparr>)])
      \<and> score (x\<lparr>score := Some v\<rparr>) = Some v
      \<and> heuristicScore (x\<lparr>score := Some v\<rparr>) = Success v \<and> 0 \<le> v \<and> v \<le> 100"
      by simp
    then show ?thesis by blast
  next
    case (Failure msg)
    from score_failure [OF Failure] obtain v where m: "msg = cannot_convert"
      and v: "get_isp (geo x) = Some v" "truthy v" "to_string v = Failure cannot_convert"
      by blast
    from v(1) obtain fs where fs: "geo x = Some (JObj fs)" "map_of fs ''isp'' = Some v"
      by (auto simp: get_isp_def split: option.splits json.splits)
    with x obtain ip trg where g: "json_or_null (fetch e trg (geo_url ip)) = JObj fs"
      by auto
    from json_or_null_object [OF g] have "\<not> fetch_failed (fetch e trg (geo_url ip))" .
    moreover from s Failure m have "scan e req = (Some (json_error 500 cannot_convert), tr0)"
      by simp
    ultimately show ?thesis using g fs(2) v(2,3) by blast
  qed
qed

lemma scan_scored:
  assumes "req_target req = Some tgt" "tgt \<noteq> []"
    and "\<forall>trg ip fs v. json_or_null (fetch e trg (geo_url ip)) = JObj fs
           \<and> map_of fs ''isp'' = Some v \<and> truthy v \<longrightarrow> to_string v \<noteq> Failure cannot_convert"
  shows "\<exists>out tr' s. scan e req = (Some (json_ok out), tr') \<and> score out = Some s
            \<and> heuristicScore out = Success s \<and> 0 \<le> s \<and> s \<le> 100"
  using scan_scored_or_thrown [OF assms(1,2), of e] assms(3) by blast

lemma deepscan_scored:
  "req_target req = Some tgt \<and> tgt \<noteq> [] \<and> req_session_id req = Some sid \<and> sid \<noteq> []
     \<and> sid \<in> paidSessions srv
     \<longrightarrow> (\<exists>out tr s. deepscan cfg srv e req = (Some (json_ok out), tr) \<and> score out = Some s
            \<and> 0 \<le> s \<and> s \<le> 100)"
proof
  assume "req_target req = Some tgt \<and> tgt \<noteq> [] \<and> req_session_id req = Some sid \<and> sid \<noteq> []
     \<and> sid \<in> paidSessions srv"
  then have "req_target req = Some tgt" "tgt \<noteq> []" "req_session_id req = Some sid" "sid \<noteq> []"
    "sid \<in> paidSessions srv" by simp_all
  from deep_valid [OF this, of cfg e]
  obtain out tr where "deepscan cfg srv e req = (Some (json_ok out), tr)" "score out = Some 50"
    by blast
  then have "deepscan cfg srv e req = (Some (json_ok out), tr) \<and> score out = Some 50
      \<and> (0::int) \<le> 50 \<and> (50::int) \<le> 100" by simp
  then show "\<exists>out tr s. deepscan cfg srv e req = (Some (json_ok out), tr) \<and> score out = Some s
      \<and> 0 \<le> s \<and> s \<le> 100"
    by blast
qed

text \<open>
  Claim C2, as stated, fails: a basic scan whose input passes validation is answered with
  status 500 and no record when the geolocation service answers with an operator that
  has no string form; the score function throws on it and nothing absorbs the throw
  before the handler's own \<open>catch\<close>.
\<close>

theorem unconvertible_operator_aborts_scan:
  "req_target (basic_req ''93.184.216.34'') = Some ''93.184.216.34''
   \<and> fetch env_bad_isp [Fetch (rdap_url ''93.184.216.34'' ''ip'')] (geo_url ''93.184.216.34'') =
       Success \<lparr>r_status = 200,
                r_json = Success (JObj [(''isp'', JObj [(''toString'', JNum 0)])])\<rparr>
   \<and> scan env_bad_isp (basic_req ''93.184.216.34'') =
       (Some \<lparr>code = 500, body = ErrorBody ''Cannot convert object to primitive value''\<rparr>,
        [Fetch (rdap_url ''93.184.216.34'' ''ip''), Fetch (geo_url ''93.184.216.34'')])"
proof -
  have "scan env_bad_isp (basic_req ''93.184.216.34'') =
       (Some \<lparr>code = 500, body = ErrorBody ''Cannot convert object to primitive value''\<rparr>,
        [Fetch (rdap_url ''93.184.216.34'' ''ip''), Fetch (geo_url ''93.184.216.34'')])"
    by code_simp
  then show ?thesis by (simp add: basic_req_def env_bad_isp_def)
qed

text \<open>
  Claim C2, amended. For every scan request whose input passes validation (and, for the
  deep profile, whose session is paid), no failure of a collaborator aborts the scan.
  Each helper absorbs its own failure: a failed DNS lookup gives no address, a failed
  registry, ownership or geolocation lookup gives null, a failed HTTPS request gives
  \<open>checks.https = false\<close>, a probe that throws gives an \<open>error\<close> entry, and a failed
  threat lookup gives the record \<open>{error: message}\<close>, the message being that of the
  rejection or \<open>shodan:\<close> followed by the status. The deep scan always answers with a
  record whose score lies in 0..100. The basic scan answers with a record whose score is
  the computed one and lies in 0..100, except when the geolocation service answers, with
  no failure, an operator that is truthy and has no string form: then it answers status
  500 with the message of \<open>cannot_convert\<close>. With every collaborator failing, the basic
  scan of a domain still answers with null members, both checks false and score 75, and
  the deep scan of a domain with null members and score 50.
\<close>

theorem failures_are_absorbed:
  "(req_target req = Some tgt \<and> tgt \<noteq> []
      \<longrightarrow> (\<exists>out tr' s. scan e req = (Some (json_ok out), tr') \<and> score out = Some s
             \<and> heuristicScore out = Success s \<and> 0 \<le> s \<and> s \<le> 100)
        \<or> (\<exists>tr' trg a fs v. scan e req = (Some (json_error 500 cannot_convert), tr')
             \<and> \<not> fetch_failed (fetch e trg (geo_url a))
             \<and> json_or_null (fetch e trg (geo_url a)) = JObj fs
             \<and> map_of fs ''isp'' = Some v \<and> truthy v \<and> to_string v = Failure cannot_convert))
   \<and> (req_target req = Some tgt \<and> tgt \<noteq> []
        \<and> (\<forall>trg a fs v. json_or_null (fetch e trg (geo_url a)) = JObj fs
              \<and> map_of fs ''isp'' = Some v \<and> truthy v
              \<longrightarrow> to_string v \<noteq> Failure cannot_convert)
      \<longrightarrow> (\<exists>out tr' s. scan e req = (Some (json_ok out), tr') \<and> score out = Some s
             \<and> heuristicScore out = Success s \<and> 0 \<le> s \<and> s \<le> 100))
   \<and> (req_target req = Some tgt \<and> tgt \<noteq> [] \<and> req_session_id req = Some sid \<and> sid \<noteq> []
        \<and> sid \<in> paidSessions srv
      \<longrightarrow> (\<exists>out tr' s. deepscan cfg srv e req = (Some (json_ok out), tr') \<and> score out = Some s
             \<and> 0 \<le> s \<and> s \<le> 100))
   \<and> (is_failure (dns_lookup e tr host)
      \<longrightarrow> resolveToIp e host tr = (Resolved None, tr @ [DnsLookup host]))
   \<and> (fetch_failed (fetch e tr (geo_url ip))
      \<longrightarrow> ipGeo e ip tr = (Resolved JNull, tr @ [Fetch (geo_url ip)]))
   \<and> (fetch_failed (fetch e tr (rdap_url tgt ty))
      \<longrightarrow> rdapLookup e tgt ty tr = (Resolved JNull, tr @ [Fetch (rdap_url tgt ty)]))
   \<and> (is_failure (whoiser e tr domain)
      \<longrightarrow> whoisLookup e domain tr = (Resolved JNull, tr @ [Whoiser domain]))
   \<and> (is_failure (fetch e tr (''https://'' @ tgt))
      \<longrightarrow> https_check e tgt x tr =
            (Resolved (set_check_https False x), tr @ [Fetch (''https://'' @ tgt)]))
   \<and> ((\<exists>msg. socket_connect e tr p host = Throws msg)
      \<longrightarrow> scanPorts e host [p] tr =
            (Resolved [\<lparr>port = p, status = ''error''\<rparr>], tr @ [SocketConnect p host]))
   \<and> (SHODAN_KEY cfg = Some k \<and> fetch e (tr @ [ShodanLookup ip]) (shodan_url ip k) = Failure msg
      \<longrightarrow> shodanLookup cfg e ip tr =
            (Resolved (JObj [(''error'', JStr msg)]),
             tr @ [ShodanLookup ip, Fetch (shodan_url ip k)]))
   \<and> (SHODAN_KEY cfg = Some k \<and> fetch e (tr @ [ShodanLookup ip]) (shodan_url ip k) = Success r
        \<and> \<not> r_ok r
      \<longrightarrow> shodanLookup cfg e ip tr =
            (Resolved (JObj [(''error'', JStr (''shodan:'' @ string_of_nat (r_status r)))]),
             tr @ [ShodanLookup ip, Fetch (shodan_url ip k)]))
   \<and> (SHODAN_KEY cfg = Some k \<and> fetch e (tr @ [ShodanLookup ip]) (shodan_url ip k) = Success r
        \<and> r_ok r \<and> r_json r = Failure msg
      \<longrightarrow> shodanLookup cfg e ip tr =
            (Resolved (JObj [(''error'', JStr msg)]),
             tr @ [ShodanLookup ip, Fetch (shodan_url ip k)]))
   \<and> ((\<forall>tr u. is_failure (fetch e tr u)) \<and> (\<forall>tr h. is_failure (dns_lookup e tr h))
        \<and> (\<forall>tr d. is_failure (whoiser e tr d))
        \<and> req_target req = Some tgt \<and> tgt \<noteq> [] \<and> classify (req_type req) tgt = ''domain''
      \<longrightarrow> (\<exists>out tr'. scan e req = (Some (json_ok out), tr')
             \<and> rdap out = Some JNull \<and> whois out = Some JNull \<and> resolved_ip out = Some JNull
             \<and> geo out = None \<and> https_status out = None
             \<and> checks out = Some \<lparr>checks_rdap = Some False, checks_https = Some False\<rparr>
             \<and> score out = Some 75))
   \<and> ((\<forall>tr u. is_failure (fetch e tr u)) \<and> (\<forall>tr h. is_failure (dns_lookup e tr h))
        \<and> (\<forall>tr d. is_failure (whoiser e tr d)) \<and> matches domain_rx tgt
        \<and> req_target req = Some tgt \<and> req_session_id req = Some sid \<and> sid \<noteq> []
        \<and> sid \<in> paidSessions srv
      \<longrightarrow> (\<exists>out tr'. deepscan cfg srv e req = (Some (json_ok out), tr')
             \<and> resolved_ip out = Some JNull
             \<and> details out =
                 Some \<lparr>details_whois = Some JNull, details_rdap = Some JNull,
                       details_geo = None, details_ports = None, details_shodan = None\<rparr>
             \<and> score out = Some 50))"
proof -
  have s1: "req_target req = Some tgt \<and> tgt \<noteq> []
      \<longrightarrow> (\<exists>out tr' s. scan e req = (Some (json_ok out), tr') \<and> score out = Some s
             \<and> heuristicScore out = Success s \<and> 0 \<le> s \<and> s \<le> 100)
        \<or> (\<exists>tr' trg a fs v. scan e req = (Some (json_error 500 cannot_convert), tr')
             \<and> \<not> fetch_failed (fetch e trg (geo_url a))
             \<and> json_or_null (fetch e trg (geo_url a)) = JObj fs
             \<and> map_of fs ''isp'' = Some v \<and> truthy v \<and> to_string v = Failure cannot_convert)"
    using scan_scored_or_thrown [of req tgt e] by blast
  have s2: "req_target req = Some tgt \<and> tgt \<noteq> []
        \<and> (\<forall>trg a fs v. json_or_null (fetch e trg (geo_url a)) = JObj fs
              \<and> map_of fs ''isp'' = Some v \<and> truthy v
              \<longrightarrow> to_string v \<noteq> Failure cannot_convert)
      \<longrightarrow> (\<exists>out tr' s. scan e req = (Some (json_ok out), tr') \<and> score out = Some s
             \<and> heuristicScore out = Success s \<and> 0 \<le> s \<and> s \<le> 100)"
    using scan_scored [of req tgt e] by blast
  have a: "(\<forall>tr u. is_failure (fetch e tr u)) \<and> (\<forall>tr h. is_failure (dns_lookup e tr h))
        \<and> (\<forall>tr d. is_failure (whoiser e tr d))
        \<and> req_target req = Some tgt \<and> tgt \<noteq> [] \<and> classify (req_type req) tgt = ''domain''
      \<longrightarrow> (\<exists>out tr'. scan e req = (Some (json_ok out), tr')
             \<and> rdap out = Some JNull \<and> whois out = Some JNull \<and> resolved_ip out = Some JNull
             \<and> geo out = None \<and> https_status out = None
             \<and> checks out = Some \<lparr>checks_rdap = Some False, checks_https = Some False\<rparr>
             \<and> score out = Some 75)"
    using scan_all_down [of e req tgt] by blast
  have b: "(\<forall>tr u. is_failure (fetch e tr u)) \<and> (\<forall>tr h. is_failure (dns_lookup e tr h))
        \<and> (\<forall>tr d. is_failure (whoiser e tr d)) \<and> matches domain_rx tgt
        \<and> req_target req = Some tgt \<and> req_session_id req = Some sid \<and> sid \<noteq> []
        \<and> sid \<in> paidSessions srv
      \<longrightarrow> (\<exists>out tr'. deepscan cfg srv e req = (Some (json_ok out), tr')
             \<and> resolved_ip out = Some JNull
             \<and> details out =
                 Some \<lparr>details_whois = Some JNull, details_rdap = Some JNull,
                       details_geo = None, details_ports = None, details_shodan = None\<rparr>
             \<and> score out = Some 50)"
    using deepscan_all_down [of e tgt req sid srv cfg] by blast
  show ?thesis
    by (intro conjI s1 s2 deepscan_scored helper_absorption shodan_absorption a b)
qed

theorem failures_are_absorbed_witness:
  "req_target (basic_req ''example.com'') = Some ''example.com''
   \<and> classify (req_type (basic_req ''example.com'')) ''example.com'' = ''domain''
   \<and> (\<forall>tr u. is_failure (fetch env_down tr u))
   \<and> (\<forall>tr h. is_failure (dns_lookup env_down tr h))
   \<and> (\<forall>tr d. is_failure (whoiser env_down tr d))
   \<and> (\<exists>out tr'. scan env_down (basic_req ''example.com'') = (Some (json_ok out), tr')
         \<and> rdap out = Some JNull \<and> whois out = Some JNull \<and> resolved_ip out = Some JNull
         \<and> geo out = None \<and> https_status out = None
         \<and> checks out = Some \<lparr>checks_rdap = Some False, checks_https = Some False\<rparr>
         \<and> score out = Some 75)
   \<and> matches domain_rx ''example.com''
   \<and> ''cs_test_1'' \<in> paidSessions srv_paid
   \<and> (\<exists>out tr'. deepscan cfg_key srv_paid env_down (deep_req ''example.com'' (Some ''cs_test_1''))
          = (Some (json_ok out), tr')
         \<and> resolved_ip out = Some JNull
         \<and> details out =
             Some \<lparr>details_whois = Some JNull, details_rdap = Some JNull,
                   details_geo = None, details_ports = None, details_shodan = None\<rparr>
         \<and> score out = Some 50)
   \<and> resolveToIp env_down ''example.com'' [] = (Resolved None, [] @ [DnsLookup ''example.com''])
   \<and> socket_connect env_mixed [] 22 ''10.0.0.1'' = Throws ''bad port''
   \<and> scanPorts env_mixed ''10.0.0.1'' [22] [] =
       (Resolved [\<lparr>port = 22, status = ''error''\<rparr>], [] @ [SocketConnect 22 ''10.0.0.1''])
   \<and> (\<exists>out tr' s. scan env_isp_list (basic_req ''example.com'') = (Some (json_ok out), tr')
         \<and> score out = Some s \<and> heuristicScore out = Success s \<and> 0 \<le> s \<and> s \<le> 100)
   \<and> SHODAN_KEY cfg_key = Some ''k1''
   \<and> shodanLookup cfg_key env_down ''10.0.0.1'' [] =
       (Resolved (JObj [(''error'', JStr ''request failed'')]),
        [] @ [ShodanLookup ''10.0.0.1'', Fetch (shodan_url ''10.0.0.1'' ''k1'')])
   \<and> shodanLookup cfg_key env_mixed ''10.0.0.1'' [] =
       (Resolved (JObj [(''error'', JStr ''shodan:503'')]),
        [] @ [ShodanLookup ''10.0.0.1'', Fetch (shodan_url ''10.0.0.1'' ''k1'')])"
proof -
  have r: "req_target (basic_req ''example.com'') = Some ''example.com''"
    "''example.com'' \<noteq> []"
    by (simp_all add: basic_req_def)
  have q: "req_target (deep_req ''example.com'' (Some ''cs_test_1'')) = Some ''example.com''"
    "req_session_id (deep_req ''example.com'' (Some ''cs_test_1'')) = Some ''cs_test_1''"
    "''cs_test_1'' \<noteq> []" "''cs_test_1'' \<in> paidSessions srv_paid"
    by (simp_all add: deep_req_def srv_paid_def)
  have n: "\<not> matches ipv4_rx ''example.com''" by code_simp
  then have c: "classify (req_type (basic_req ''example.com'')) ''example.com'' = ''domain''"
    by (simp add: classify_def basic_req_def)
  have m: "matches domain_rx ''example.com''" by code_simp
  have d: "\<forall>tr u. is_failure (fetch env_down tr u)"
    "\<forall>tr h. is_failure (dns_lookup env_down tr h)"
    "\<forall>tr d. is_failure (whoiser env_down tr d)"
    by (simp_all add: env_down_def is_failure_def)
  have t: "socket_connect env_mixed [] 22 ''10.0.0.1'' = Throws ''bad port''"
    by (simp add: env_mixed_def)
  have k: "SHODAN_KEY cfg_key = Some ''k1''" by (simp add: SHODAN_KEY_def cfg_key_def)
  have fd: "fetch env_down ([] @ [ShodanLookup ''10.0.0.1'']) (shodan_url ''10.0.0.1'' ''k1'') =
      Failure ''request failed''"
    by (simp add: env_down_def)
  have fm: "fetch env_mixed ([] @ [ShodanLookup ''10.0.0.1'']) (shodan_url ''10.0.0.1'' ''k1'') =
      Success \<lparr>r_status = 503, r_json = Failure ''invalid json''\<rparr>"
    "\<not> r_ok \<lparr>r_status = 503, r_json = Failure ''invalid json''\<rparr>"
    by (simp_all add: env_mixed_def r_ok_def)
  have sn: "string_of_nat 503 = ''503''" by code_simp
  have l: "\<forall>trg a fs v. json_or_null (fetch env_isp_list trg (geo_url a)) = JObj fs
      \<and> map_of fs ''isp'' = Some v \<and> truthy v \<longrightarrow> to_string v \<noteq> Failure cannot_convert"
    by (auto simp: env_isp_list_def json_or_null_def r_ok_def)
  note basic = failures_are_absorbed
    [where req = "basic_req ''example.com''" and tgt = "''example.com''" and e = env_down
       and tr = "[]" and host = "''example.com''" and ip = "''10.0.0.1''" and cfg = cfg_key
       and k = "''k1''" and msg = "''request failed''"]
  note listed = failures_are_absorbed
    [where req = "basic_req ''example.com''" and tgt = "''example.com''" and e = env_isp_list]
  note deep = failures_are_absorbed
    [where req = "deep_req ''example.com'' (Some ''cs_test_1'')" and tgt = "''example.com''"
       and e = env_down and sid = "''cs_test_1''" and srv = srv_paid and cfg = cfg_key]
  note probe = failures_are_absorbed
    [where e = env_mixed and tr = "[]" and host = "''10.0.0.1''" and p = 22
       and ip = "''10.0.0.1''" and cfg = cfg_key and k = "''k1''"
       and r = "\<lparr>r_status = 503, r_json = Failure ''invalid json''\<rparr>"]
  have 1: "\<exists>out tr'. scan env_down (basic_req ''example.com'') = (Some (json_ok out), tr')
         \<and> rdap out = Some JNull \<and> whois out = Some JNull \<and> resolved_ip out = Some JNull
         \<and> geo out = None \<and> https_status out = None
         \<and> checks out = Some \<lparr>checks_rdap = Some False, checks_https = Some False\<rparr>
         \<and> score out = Some 75"
    by (rule basic [THEN conjunct2, THEN conjunct2, THEN conjunct2, THEN conjunct2, THEN conjunct2, THEN conjunct2, THEN conjunct2, THEN conjunct2, THEN conjunct2, THEN conjunct2, THEN conjunct2, THEN conjunct2, THEN conjunct1, THEN mp]) (intro conjI d r c)
  have 2: "\<exists>out tr'. deepscan cfg_key srv_paid env_down
          (deep_req ''example.com'' (Some ''cs_test_1'')) = (Some (json_ok out), tr')
         \<and> resolved_ip out = Some JNull
         \<and> details out =
             Some \<lparr>details_whois = Some JNull, details_rdap = Some JNull,
                   details_geo = None, details_ports = None, details_shodan = None\<rparr>
         \<and> score out = Some 50"
    by (rule deep [THEN conjunct2, THEN conjunct2, THEN conjunct2, THEN conjunct2, THEN conjunct2, THEN conjunct2, THEN conjunct2, THEN conjunct2, THEN conjunct2, THEN conjunct2, THEN conjunct2, THEN conjunct2, THEN conjunct2, THEN mp]) (intro conjI d m q)
  have 3: "resolveToIp env_down ''example.com'' [] =
      (Resolved None, [] @ [DnsLookup ''example.com''])"
    by (rule basic [THEN conjunct2, THEN conjunct2, THEN conjunct2, THEN conjunct1, THEN mp]) (rule d(2) [rule_format])
  have 4: "scanPorts env_mixed ''10.0.0.1'' [22] [] =
       (Resolved [\<lparr>port = 22, status = ''error''\<rparr>], [] @ [SocketConnect 22 ''10.0.0.1''])"
    by (rule probe [THEN conjunct2, THEN conjunct2, THEN conjunct2, THEN conjunct2, THEN conjunct2, THEN conjunct2, THEN conjunct2, THEN conjunct2, THEN conjunct1, THEN mp]) (rule exI, rule t)
  have 5: "\<exists>out tr' s. scan env_isp_list (basic_req ''example.com'') = (Some (json_ok out), tr')
         \<and> score out = Some s \<and> heuristicScore out = Success s \<and> 0 \<le> s \<and> s \<le> 100"
    by (rule listed [THEN conjunct2, THEN conjunct1, THEN mp]) (intro conjI r l)
  have 6: "shodanLookup cfg_key env_down ''10.0.0.1'' [] =
       (Resolved (JObj [(''error'', JStr ''request failed'')]),
        [] @ [ShodanLookup ''10.0.0.1'', Fetch (shodan_url ''10.0.0.1'' ''k1'')])"
    by (rule basic [THEN conjunct2, THEN conjunct2, THEN conjunct2, THEN conjunct2, THEN conjunct2, THEN conjunct2, THEN conjunct2, THEN conjunct2, THEN conjunct2, THEN conjunct1, THEN mp]) (intro conjI k fd)
  have "shodanLookup cfg_key env_mixed ''10.0.0.1'' [] =
       (Resolved (JObj [(''error'', JStr (''shodan:'' @ string_of_nat
            (r_status \<lparr>r_status = 503, r_json = Failure ''invalid json''\<rparr>)))]),
        [] @ [ShodanLookup ''10.0.0.1'', Fetch (shodan_url ''10.0.0.1'' ''k1'')])"
    by (rule probe [THEN conjunct2, THEN conjunct2, THEN conjunct2, THEN conjunct2, THEN conjunct2, THEN conjunct2, THEN conjunct2, THEN conjunct2, THEN conjunct2, THEN conjunct2, THEN conjunct1, THEN mp]) (intro conjI k fm)
  then have 7: "shodanLookup cfg_key env_mixed ''10.0.0.1'' [] =
       (Resolved (JObj [(''error'', JStr ''shodan:503'')]),
        [] @ [ShodanLookup ''10.0.0.1'', Fetch (shodan_url ''10.0.0.1'' ''k1'')])"
    by (simp add: sn)
  show ?thesis
    by (intro conjI r(1) c d 1 m q(4) 2 3 t 4 5 k 6 7)
qed

subsection \<open>One result per port\<close>

lemma length_probe_results: "length (probe_results e host ps tr) = length ps"
  by (induction ps arbitrary: tr) simp_all

lemma probe_status_cases: "probe_status f \<in> {''open'', ''closed'', ''error''}"
  by (cases f) simp_all

lemma probe_results_nth:
  "i < length ps \<Longrightarrow>
     port (probe_results e host ps tr ! i) = ps ! i
     \<and> status (probe_results e host ps tr ! i) \<in> {''open'', ''closed'', ''error''}"
proof (induction ps arbitrary: tr i)
  case Nil
  then show ?case by simp
next
  case (Cons p ps)
  show ?case
  proof (cases i)
    case 0
    then show ?thesis using probe_status_cases [of "socket_connect e tr p host"] by simp
  next
    case (Suc j)
    with Cons.prems have "j < length ps" by simp
    from Cons.IH [OF this, of "tr @ [SocketConnect p host]"] Suc show ?thesis by simp
  qed
qed

text \<open>
  Claim C3. For every host and every ordered list of ports \<open>P\<close>, \<open>scanPorts\<close> resolves
  with exactly one result per port, in the order of \<open>P\<close>, the entry at each position
  carrying the port at that position of \<open>P\<close>; a probe that throws is recorded with
  status \<open>error\<close> and the remaining ports are still probed (one connect per port is
  logged, in order).
\<close>

theorem scanPorts_one_result_per_port:
  "scanPorts e host P tr =
     (Resolved (probe_results e host P tr), tr @ map (\<lambda>p. SocketConnect p host) P)
   \<and> length (probe_results e host P tr) = length P
   \<and> map port (probe_results e host P tr) = P
   \<and> (\<forall>i < length P. port (probe_results e host P tr ! i) = P ! i
         \<and> status (probe_results e host P tr ! i) \<in> {''open'', ''closed'', ''error''})"
  using scanPorts_eq [of e host P tr] length_probe_results [of e host P tr]
    ports_of_probe_results [of e host P tr] probe_results_nth [of _ P e host tr]
  by blast

theorem scanPorts_one_result_per_port_witness:
  "scanPorts env_mixed ''10.0.0.1'' [80, 22, 21, 443] [] =
     (Resolved [\<lparr>port = 80, status = ''open''\<rparr>, \<lparr>port = 22, status = ''error''\<rparr>,
                \<lparr>port = 21, status = ''closed''\<rparr>, \<lparr>port = 443, status = ''closed''\<rparr>],
      [SocketConnect 80 ''10.0.0.1'', SocketConnect 22 ''10.0.0.1'',
       SocketConnect 21 ''10.0.0.1'', SocketConnect 443 ''10.0.0.1''])
   \<and> (1::nat) < length [80, 22, 21, 443 :: nat]
   \<and> port (probe_results env_mixed ''10.0.0.1'' [80, 22, 21, 443] [] ! 1) = 22
   \<and> status (probe_results env_mixed ''10.0.0.1'' [80, 22, 21, 443] [] ! 1) = ''error''"
proof -
  have v: "probe_results env_mixed ''10.0.0.1'' [80, 22, 21, 443] [] =
    [\<lparr>port = 80, status = ''open''\<rparr>, \<lparr>port = 22, status = ''error''\<rparr>,
     \<lparr>port = 21, status = ''closed''\<rparr>, \<lparr>port = 443, status = ''closed''\<rparr>]"
    by (simp add: env_mixed_def)
  from scanPorts_one_result_per_port [of env_mixed "''10.0.0.1''" "[80, 22, 21, 443]" "[]"]
  show ?thesis unfolding v by simp
qed

subsection \<open>Classification of the target\<close>

lemma take_append_full:
  assumes "take n xs = ys" "length ys = n"
  shows "take n (xs @ zs) = ys"
proof -
  from assms have "min (length xs) n = n" by (metis length_take)
  then have "n \<le> length xs" by simp
  with assms(1) show ?thesis by simp
qed

lemma classify_untyped:
  "\<not> truthy_str ty \<Longrightarrow> classify ty tgt = (if matches ipv4_rx tgt then ''ip'' else ''domain'')"
  by (cases ty) (simp_all add: classify_def)

lemma classify_typed: "ty = Some t \<Longrightarrow> t \<noteq> [] \<Longrightarrow> classify ty tgt = t"
  by (simp add: classify_def)

lemma deep_kind_spec: "deep_kind tgt = classify_spec tgt"
  using ipv4_not_domain [of tgt] by (auto simp: deep_kind_def classify_spec_def)

lemma scan_untyped:
  assumes "req_target req = Some tgt" "tgt \<noteq> []" "\<not> truthy_str (req_type req)"
  shows "(\<exists>out tr. scan e req = (Some (json_ok out), tr)
       \<and> type out = Some (if matches ipv4_rx tgt then ''ip'' else ''domain'')
       \<and> hints out = None
       \<and> take 1 tr = [Fetch (rdap_url tgt (if matches ipv4_rx tgt then ''ip'' else ''domain''))])
     \<or> (\<exists>tr. scan e req = (Some (json_error 500 cannot_convert), tr)
       \<and> take 1 tr = [Fetch (rdap_url tgt (if matches ipv4_rx tgt then ''ip'' else ''domain''))])"
proof -
  define t where "t = (if matches ipv4_rx tgt then ''ip'' else ''domain'')"
  have t: "t = classify (req_type req) tgt" "t = ''domain'' \<or> t = ''ip''"
    using assms(3) by (auto simp: t_def classify_untyped)
  have "resolves_with (scan_probes e tgt t (scan_out0 e tgt t)) []
     (\<lambda>x tr. type x = Some t \<and> hints x = None \<and> take 1 tr = [Fetch (rdap_url tgt t)])"
    using scan_probes_kind [of e tgt t "scan_out0 e tgt t"] by (simp add: scan_out0_def)
  with t(2) have "resolves_with
     (if t = ''domain'' \<or> t = ''ip'' then scan_probes e tgt t (scan_out0 e tgt t)
      else ret ((scan_out0 e tgt t)
             \<lparr>hints := Some (''Search '' @ tgt @ '' on GitHub, Twitter, etc.'')\<rparr>)) []
     (\<lambda>x tr. type x = Some t \<and> hints x = None \<and> take 1 tr = [Fetch (rdap_url tgt t)])"
    by simp
  from scan_lift [OF assms(1,2) t(1) this]
  obtain x tr0 where x: "type x = Some t" "hints x = None"
    "take 1 tr0 = [Fetch (rdap_url tgt t)]"
    and s: "scan e req =
     (case heuristicScore x of
        Success s \<Rightarrow> (Some (json_ok (x\<lparr>score := Some s\<rparr>)),
                       tr0 @ [DbRun tgt t (x\<lparr>score := Some s\<rparr>)])
      | Failure msg \<Rightarrow> (Some (json_error 500 msg), tr0))"
    by blast
  have "(\<exists>out tr. scan e req = (Some (json_ok out), tr) \<and> type out = Some t
       \<and> hints out = None \<and> take 1 tr = [Fetch (rdap_url tgt t)])
     \<or> (\<exists>tr. scan e req = (Some (json_error 500 cannot_convert), tr)
       \<and> take 1 tr = [Fetch (rdap_url tgt t)])"
  proof (cases "heuristicScore x")
    case (Success v)
    from x(3) have "take 1 (tr0 @ [DbRun tgt t (x\<lparr>score := Some v\<rparr>)]) = [Fetch (rdap_url tgt t)]"
      by (rule take_append_full) simp
    with s Success x have "scan e req =
        (Some (json_ok (x\<lparr>score := Some v\<rparr>)), tr0 @ [DbRun tgt t (x\<lparr>score := Some v\<rparr>)])
      \<and> type (x\<lparr>score := Some v\<rparr>) = Some t \<and> hints (x\<lparr>score := Some v\<rparr>) = None
      \<and> take 1 (tr0 @ [DbRun tgt t (x\<lparr>score := Some v\<rparr>)]) = [Fetch (rdap_url tgt t)]"
      by simp
    then show ?thesis by blast
  next
    case (Failure msg)
    with score_failure [OF Failure] s x(3) show ?thesis by auto
  qed
  then show ?thesis unfolding t_def .
qed

lemma scan_untyped_first_call:
  assumes "req_target req = Some tgt" "tgt \<noteq> []" "\<not> truthy_str (req_type req)"
  shows "take 1 (snd (scan e req)) =
     [Fetch (rdap_url tgt (if matches ipv4_rx tgt then ''ip'' else ''domain''))]"
  using scan_untyped [OF assms, of e] by auto

lemma scan_other_kind:
  assumes "req_target req = Some tgt" "tgt \<noteq> []" "req_type req = Some t" "t \<noteq> []"
    "kind_of_type t = Unclassified"
  shows "\<exists>out. scan e req = (Some (json_ok out), [DbRun tgt t out])
     \<and> type out = Some t
     \<and> hints out = Some (''Search '' @ tgt @ '' on GitHub, Twitter, etc.'')
     \<and> rdap out = None \<and> resolved_ip out = None \<and> score out = Some 50"
proof -
  from assms(5) have k: "\<not> (t = ''domain'' \<or> t = ''ip'')"
    by (auto simp: kind_of_type_def split: if_splits)
  have c: "t = classify (req_type req) tgt" using assms(3,4) by (simp add: classify_typed)
  from k have "resolves_with
     (if t = ''domain'' \<or> t = ''ip'' then scan_probes e tgt t (scan_out0 e tgt t)
      else ret ((scan_out0 e tgt t)
             \<lparr>hints := Some (''Search '' @ tgt @ '' on GitHub, Twitter, etc.'')\<rparr>)) []
     (\<lambda>x tr. heuristicScore x = Success 50 \<and> tr = [] \<and> type x = Some t
        \<and> hints x = Some (''Search '' @ tgt @ '' on GitHub, Twitter, etc.'')
        \<and> rdap x = None \<and> resolved_ip x = None)"
    by (simp add: scan_out0_def score_no_geo https_failed_def rdap_failed_def)
  from scan_lift_ok [where v = "\<lambda>x. 50", OF assms(1,2) c this]
  obtain x tr0 where "scan e req =
      (Some (json_ok (x\<lparr>score := Some 50\<rparr>)), tr0 @ [DbRun tgt t (x\<lparr>score := Some 50\<rparr>)])"
    "tr0 = []" "type x = Some t"
    "hints x = Some (''Search '' @ tgt @ '' on GitHub, Twitter, etc.'')"
    "rdap x = None" "resolved_ip x = None"
    by blast
  then show ?thesis by simp
qed

lemma deepscan_domain:
  assumes "classify_spec tgt = Domain" "req_target req = Some tgt"
    "req_session_id req = Some sid" "sid \<noteq> []" "sid \<in> paidSessions srv"
  shows "\<exists>out tr. deepscan cfg srv e req = (Some (json_ok out), tr)
     \<and> take 3 tr = [Whoiser tgt, Fetch (rdap_url tgt ''domain''), DnsLookup tgt]"
proof -
  from assms(1) have m: "matches domain_rx tgt"
    by (auto simp: classify_spec_def split: if_splits)
  then have ne: "tgt \<noteq> []" using domain_last_letter by blast
  from deepscan_lift [OF assms(2) ne assms(3,4,5) deep_domain_branch [OF m, of cfg e]]
  obtain x tr0 where "deepscan cfg srv e req =
      (Some (json_ok (x\<lparr>score := Some 50\<rparr>)),
       tr0 @ [DbRun tgt ''deepscan'' (x\<lparr>score := Some 50\<rparr>)])"
    "take 3 tr0 = [Whoiser tgt, Fetch (rdap_url tgt ''domain''), DnsLookup tgt]"
    by blast
  moreover from this(2)
  have "take 3 (tr0 @ [DbRun tgt ''deepscan'' (x\<lparr>score := Some 50\<rparr>)]) =
      [Whoiser tgt, Fetch (rdap_url tgt ''domain''), DnsLookup tgt]"
    by (rule take_append_full) simp
  ultimately show ?thesis by blast
qed

lemma deepscan_ip:
  assumes "classify_spec tgt = IP" "req_target req = Some tgt"
    "req_session_id req = Some sid" "sid \<noteq> []" "sid \<in> paidSessions srv"
  shows "\<exists>out tr. deepscan cfg srv e req = (Some (json_ok out), tr)
     \<and> take 2 tr = [Fetch (rdap_url tgt ''ip''), Fetch (geo_url tgt)]
     \<and> resolved_ip out = Some (JStr tgt)"
proof -
  from assms(1) have m: "matches ipv4_rx tgt"
    by (auto simp: classify_spec_def split: if_splits)
  then have ne: "tgt \<noteq> []" using ipv4_last_digit by blast
  from deepscan_lift [OF assms(2) ne assms(3,4,5) deep_ipv4_branch [OF m, of cfg e]]
  obtain x tr0 where "deepscan cfg srv e req =
      (Some (json_ok (x\<lparr>score := Some 50\<rparr>)),
       tr0 @ [DbRun tgt ''deepscan'' (x\<lparr>score := Some 50\<rparr>)])"
    "take 2 tr0 = [Fetch (rdap_url tgt ''ip''), Fetch (geo_url tgt)]"
    "resolved_ip x = Some (JStr tgt)"
    by blast
  moreover from this(2)
  have "take 2 (tr0 @ [DbRun tgt ''deepscan'' (x\<lparr>score := Some 50\<rparr>)]) =
      [Fetch (rdap_url tgt ''ip''), Fetch (geo_url tgt)]"
    by (rule take_append_full) simp
  moreover from calculation(3)
  have "resolved_ip (x\<lparr>score := Some 50\<rparr>) = Some (JStr tgt)" by simp
  ultimately show ?thesis by blast
qed

lemma deepscan_neither:
  assumes "classify_spec tgt = Unclassified" "req_target req = Some tgt" "tgt \<noteq> []"
    "req_session_id req = Some sid" "sid \<noteq> []" "sid \<in> paidSessions srv"
  shows "\<exists>out. deepscan cfg srv e req =
       (Some (json_ok out), [Fetch (rdap_url tgt ''ip''), DbRun tgt ''deepscan'' out])
     \<and> resolved_ip out = Some JNull"
proof -
  from assms(1) have m: "\<not> matches domain_rx tgt" "\<not> matches ipv4_rx tgt"
    by (auto simp: classify_spec_def split: if_splits)
  from deepscan_lift [OF assms(2,3,4,5,6) deep_neither_branch [OF m, of cfg e]]
  obtain x tr0 where "deepscan cfg srv e req =
      (Some (json_ok (x\<lparr>score := Some 50\<rparr>)),
       tr0 @ [DbRun tgt ''deepscan'' (x\<lparr>score := Some 50\<rparr>)])"
    "tr0 = [Fetch (rdap_url tgt ''ip'')]" "resolved_ip x = Some JNull"
    by blast
  then show ?thesis by simp
qed

lemma classify_spec_examples:
  "classify_spec ''93.184.216.34'' = IP"
  "classify_spec ''example.com'' = Domain"
  "classify_spec ''not a domain!!'' = Unclassified"
  by code_simp+

text \<open>
  Claim C4, as stated, fails for the basic scan: with no explicit kind, a target that
  matches neither pattern is classified as a domain, and the domain probes run on it.
\<close>

theorem free_text_is_scanned_as_domain:
  "req_type (basic_req ''not a domain!!'') = None
   \<and> classify_spec ''not a domain!!'' = Unclassified
   \<and> classify (req_type (basic_req ''not a domain!!'')) ''not a domain!!'' = ''domain''
   \<and> kind_of_type (classify (req_type (basic_req ''not a domain!!'')) ''not a domain!!'') = Domain
   \<and> take 1 (snd (scan env_down (basic_req ''not a domain!!''))) =
       [Fetch ''https://rdap.org/domain/not a domain!!'']"
proof -
  have n: "\<not> matches ipv4_rx ''not a domain!!''" by code_simp
  have r: "req_target (basic_req ''not a domain!!'') = Some ''not a domain!!''"
    "''not a domain!!'' \<noteq> []" "\<not> truthy_str (req_type (basic_req ''not a domain!!''))"
    by (simp_all add: basic_req_def)
  from scan_untyped_first_call [OF r, of env_down] n
  have "take 1 (snd (scan env_down (basic_req ''not a domain!!''))) =
       [Fetch (rdap_url ''not a domain!!'' ''domain'')]"
    by simp
  then have "take 1 (snd (scan env_down (basic_req ''not a domain!!''))) =
       [Fetch ''https://rdap.org/domain/not a domain!!'']"
    by (simp add: rdap_url_def)
  moreover have "classify (req_type (basic_req ''not a domain!!'')) ''not a domain!!'' = ''domain''"
    using n r(3) by (simp add: classify_untyped)
  moreover have "classify_spec ''not a domain!!'' = Unclassified"
    by (rule classify_spec_examples)
  ultimately show ?thesis by (simp add: kind_of_type_def basic_req_def)
qed

text \<open>
  Claim C4, amended. With no explicit kind the basic scan classifies two ways: a target
  matching the dotted-quad pattern is an IP and every other target is a domain, so the
  registry lookup runs on it; the basic scan treats a target as unclassified (hint only,
  no probe) only when an explicit kind other than \<open>ip\<close> and \<open>domain\<close> is supplied. The
  deep scan classifies three ways, and the order of its two tests does not matter: a
  domain-like target is a domain (ownership, registry, resolution), a dotted-quad target
  is an IP (registry, geolocation, no resolution), any other target is neither (registry
  lookup only, no address). By the three-way rule \<open>93.184.216.34\<close> is an IP,
  \<open>example.com\<close> a domain and \<open>not a domain!!\<close> unclassified.
\<close>

theorem classification_rules:
  "(req_target req = Some tgt \<and> tgt \<noteq> [] \<and> \<not> truthy_str (req_type req)
      \<longrightarrow> take 1 (snd (scan e req)) =
            [Fetch (rdap_url tgt (if matches ipv4_rx tgt then ''ip'' else ''domain''))]
        \<and> ((\<exists>out tr. scan e req = (Some (json_ok out), tr)
               \<and> type out = Some (if matches ipv4_rx tgt then ''ip'' else ''domain'')
               \<and> hints out = None
               \<and> take 1 tr =
                   [Fetch (rdap_url tgt (if matches ipv4_rx tgt then ''ip'' else ''domain''))])
           \<or> (\<exists>tr. scan e req = (Some (json_error 500 cannot_convert), tr))))
   \<and> kind_of_type (classify None tgt) = (if matches ipv4_rx tgt then IP else Domain)
   \<and> (req_target req = Some tgt \<and> tgt \<noteq> [] \<and> req_type req = Some t \<and> t \<noteq> []
        \<and> kind_of_type t = Unclassified
      \<longrightarrow> (\<exists>out. scan e req = (Some (json_ok out), [DbRun tgt t out])
             \<and> type out = Some t
             \<and> hints out = Some (''Search '' @ tgt @ '' on GitHub, Twitter, etc.'')
             \<and> rdap out = None \<and> resolved_ip out = None \<and> score out = Some 50))
   \<and> deep_kind tgt = classify_spec tgt
   \<and> (classify_spec tgt = Domain \<and> req_target req = Some tgt \<and> req_session_id req = Some sid
        \<and> sid \<noteq> [] \<and> sid \<in> paidSessions srv
      \<longrightarrow> (\<exists>out tr. deepscan cfg srv e req = (Some (json_ok out), tr)
             \<and> take 3 tr = [Whoiser tgt, Fetch (rdap_url tgt ''domain''), DnsLookup tgt]))
   \<and> (classify_spec tgt = IP \<and> req_target req = Some tgt \<and> req_session_id req = Some sid
        \<and> sid \<noteq> [] \<and> sid \<in> paidSessions srv
      \<longrightarrow> (\<exists>out tr. deepscan cfg srv e req = (Some (json_ok out), tr)
             \<and> take 2 tr = [Fetch (rdap_url tgt ''ip''), Fetch (geo_url tgt)]
             \<and> resolved_ip out = Some (JStr tgt)))
   \<and> (classify_spec tgt = Unclassified \<and> req_target req = Some tgt \<and> tgt \<noteq> []
        \<and> req_session_id req = Some sid \<and> sid \<noteq> [] \<and> sid \<in> paidSessions srv
      \<longrightarrow> (\<exists>out. deepscan cfg srv e req =
               (Some (json_ok out), [Fetch (rdap_url tgt ''ip''), DbRun tgt ''deepscan'' out])
             \<and> resolved_ip out = Some JNull))
   \<and> classify_spec ''93.184.216.34'' = IP
   \<and> classify_spec ''example.com'' = Domain
   \<and> classify_spec ''not a domain!!'' = Unclassified"
proof -
  have k: "kind_of_type (classify None tgt) = (if matches ipv4_rx tgt then IP else Domain)"
    by (simp add: classify_def kind_of_type_def)
  have u: "req_target req = Some tgt \<and> tgt \<noteq> [] \<and> \<not> truthy_str (req_type req)
      \<longrightarrow> take 1 (snd (scan e req)) =
            [Fetch (rdap_url tgt (if matches ipv4_rx tgt then ''ip'' else ''domain''))]
        \<and> ((\<exists>out tr. scan e req = (Some (json_ok out), tr)
               \<and> type out = Some (if matches ipv4_rx tgt then ''ip'' else ''domain'')
               \<and> hints out = None
               \<and> take 1 tr =
                   [Fetch (rdap_url tgt (if matches ipv4_rx tgt then ''ip'' else ''domain''))])
           \<or> (\<exists>tr. scan e req = (Some (json_error 500 cannot_convert), tr)))"
  proof (intro impI conjI)
    assume h: "req_target req = Some tgt \<and> tgt \<noteq> [] \<and> \<not> truthy_str (req_type req)"
    then have h': "req_target req = Some tgt" "tgt \<noteq> []" "\<not> truthy_str (req_type req)"
      by simp_all
    from scan_untyped_first_call [OF h', of e]
    show "take 1 (snd (scan e req)) =
        [Fetch (rdap_url tgt (if matches ipv4_rx tgt then ''ip'' else ''domain''))]" .
    from scan_untyped [OF h', of e]
    show "(\<exists>out tr. scan e req = (Some (json_ok out), tr)
               \<and> type out = Some (if matches ipv4_rx tgt then ''ip'' else ''domain'')
               \<and> hints out = None
               \<and> take 1 tr =
                   [Fetch (rdap_url tgt (if matches ipv4_rx tgt then ''ip'' else ''domain''))])
           \<or> (\<exists>tr. scan e req = (Some (json_error 500 cannot_convert), tr))"
      by blast
  qed
  show ?thesis
    using scan_other_kind [of req tgt t e]
      deepscan_domain [of tgt req sid srv cfg e] deepscan_ip [of tgt req sid srv cfg e]
      deepscan_neither [of tgt req sid srv cfg e]
    by (intro conjI u k deep_kind_spec classify_spec_examples; intro impI; (elim conjE)?) blast+
qed

theorem classification_rules_witness:
  "req_target (deep_req ''not a domain!!'' (Some ''cs_test_1'')) = Some ''not a domain!!''
   \<and> classify_spec ''not a domain!!'' = Unclassified
   \<and> ''cs_test_1'' \<in> paidSessions srv_paid
   \<and> (\<exists>out. deepscan cfg_key srv_paid env_up (deep_req ''not a domain!!'' (Some ''cs_test_1'')) =
         (Some (json_ok out),
          [Fetch (rdap_url ''not a domain!!'' ''ip''), DbRun ''not a domain!!'' ''deepscan'' out])
        \<and> resolved_ip out = Some JNull)
   \<and> classify_spec ''93.184.216.34'' = IP
   \<and> (\<exists>out tr. deepscan cfg_key srv_paid env_up (deep_req ''93.184.216.34'' (Some ''cs_test_1'')) =
         (Some (json_ok out), tr)
        \<and> take 2 tr = [Fetch (rdap_url ''93.184.216.34'' ''ip''), Fetch (geo_url ''93.184.216.34'')]
        \<and> resolved_ip out = Some (JStr ''93.184.216.34''))
   \<and> classify_spec ''example.com'' = Domain
   \<and> (\<exists>out tr. deepscan cfg_key srv_paid env_up (deep_req ''example.com'' (Some ''cs_test_1'')) =
         (Some (json_ok out), tr)
        \<and> take 3 tr = [Whoiser ''example.com'', Fetch (rdap_url ''example.com'' ''domain''),
                        DnsLookup ''example.com''])
   \<and> \<not> truthy_str (req_type (basic_req ''93.184.216.34''))
   \<and> (\<exists>out tr. scan env_up (basic_req ''93.184.216.34'') = (Some (json_ok out), tr)
        \<and> type out = Some (if matches ipv4_rx ''93.184.216.34'' then ''ip'' else ''domain'')
        \<and> hints out = None
        \<and> take 1 tr = [Fetch (rdap_url ''93.184.216.34''
                          (if matches ipv4_rx ''93.184.216.34'' then ''ip'' else ''domain''))])
   \<and> kind_of_type ''username'' = Unclassified
   \<and> (\<exists>out. scan env_up \<lparr>req_target = Some ''octocat'', req_type = Some ''username'',
                           req_session_id = None\<rparr> =
         (Some (json_ok out), [DbRun ''octocat'' ''username'' out])
        \<and> type out = Some ''username''
        \<and> hints out = Some (''Search '' @ ''octocat'' @ '' on GitHub, Twitter, etc.'')
        \<and> rdap out = None \<and> resolved_ip out = None \<and> score out = Some 50)"
proof -
  have s: "''cs_test_1'' \<noteq> []" "''cs_test_1'' \<in> paidSessions srv_paid"
    by (simp_all add: srv_paid_def)
  have r: "\<And>x. req_target (deep_req x (Some ''cs_test_1'')) = Some x"
    "\<And>x. req_session_id (deep_req x (Some ''cs_test_1'')) = Some ''cs_test_1''"
    "\<And>x. req_target (basic_req x) = Some x" "\<And>x. \<not> truthy_str (req_type (basic_req x))"
    by (simp_all add: deep_req_def basic_req_def)
  have ne: "''not a domain!!'' \<noteq> []" "''93.184.216.34'' \<noteq> []" "''octocat'' \<noteq> []"
    "''username'' \<noteq> []"
    by simp_all
  have u: "kind_of_type ''username'' = Unclassified" by (simp add: kind_of_type_def)
  have o: "req_target \<lparr>req_target = Some ''octocat'', req_type = Some ''username'',
                       req_session_id = None\<rparr> = Some ''octocat''"
    "req_type \<lparr>req_target = Some ''octocat'', req_type = Some ''username'',
                req_session_id = None\<rparr> = Some ''username''"
    by simp_all
  note neither = classification_rules
    [where tgt = "''not a domain!!''" and req = "deep_req ''not a domain!!'' (Some ''cs_test_1'')"
       and sid = "''cs_test_1''" and srv = srv_paid and cfg = cfg_key and e = env_up]
  note ip = classification_rules
    [where tgt = "''93.184.216.34''" and req = "deep_req ''93.184.216.34'' (Some ''cs_test_1'')"
       and sid = "''cs_test_1''" and srv = srv_paid and cfg = cfg_key and e = env_up]
  note dom = classification_rules
    [where tgt = "''example.com''" and req = "deep_req ''example.com'' (Some ''cs_test_1'')"
       and sid = "''cs_test_1''" and srv = srv_paid and cfg = cfg_key and e = env_up]
  note basic = classification_rules
    [where tgt = "''93.184.216.34''" and req = "basic_req ''93.184.216.34''" and e = env_up]
  note other = classification_rules
    [where tgt = "''octocat''" and t = "''username''" and e = env_up
       and req = "\<lparr>req_target = Some ''octocat'', req_type = Some ''username'',
                   req_session_id = None\<rparr>"]
  note c3 = neither [THEN conjunct2, THEN conjunct2, THEN conjunct2, THEN conjunct2,
      THEN conjunct2, THEN conjunct2, THEN conjunct2]
  have k1: "classify_spec ''93.184.216.34'' = IP" by (rule c3 [THEN conjunct1])
  have k2: "classify_spec ''example.com'' = Domain" by (rule c3 [THEN conjunct2, THEN conjunct1])
  have k3: "classify_spec ''not a domain!!'' = Unclassified"
    by (rule c3 [THEN conjunct2, THEN conjunct2])
  have 1: "\<exists>out. deepscan cfg_key srv_paid env_up (deep_req ''not a domain!!'' (Some ''cs_test_1'')) =
         (Some (json_ok out),
          [Fetch (rdap_url ''not a domain!!'' ''ip''), DbRun ''not a domain!!'' ''deepscan'' out])
        \<and> resolved_ip out = Some JNull"
    by (rule neither [THEN conjunct2, THEN conjunct2, THEN conjunct2, THEN conjunct2,
          THEN conjunct2, THEN conjunct2, THEN conjunct1, THEN mp])
       (intro conjI k3 r ne s)
  have 2: "\<exists>out tr. deepscan cfg_key srv_paid env_up (deep_req ''93.184.216.34'' (Some ''cs_test_1'')) =
         (Some (json_ok out), tr)
        \<and> take 2 tr = [Fetch (rdap_url ''93.184.216.34'' ''ip''), Fetch (geo_url ''93.184.216.34'')]
        \<and> resolved_ip out = Some (JStr ''93.184.216.34'')"
    by (rule ip [THEN conjunct2, THEN conjunct2, THEN conjunct2, THEN conjunct2,
          THEN conjunct2, THEN conjunct1, THEN mp])
       (intro conjI k1 r ne s)
  have 3: "\<exists>out tr. deepscan cfg_key srv_paid env_up (deep_req ''example.com'' (Some ''cs_test_1'')) =
         (Some (json_ok out), tr)
        \<and> take 3 tr = [Whoiser ''example.com'', Fetch (rdap_url ''example.com'' ''domain''),
                        DnsLookup ''example.com'']"
    by (rule dom [THEN conjunct2, THEN conjunct2, THEN conjunct2, THEN conjunct2,
          THEN conjunct1, THEN mp])
       (intro conjI k2 r ne s)
  have ok: "fst (scan env_up (basic_req ''93.184.216.34'')) \<noteq>
      Some \<lparr>code = 500, body = ErrorBody ''Cannot convert object to primitive value''\<rparr>"
    by code_simp
  have "(\<exists>out tr. scan env_up (basic_req ''93.184.216.34'') = (Some (json_ok out), tr)
        \<and> type out = Some (if matches ipv4_rx ''93.184.216.34'' then ''ip'' else ''domain'')
        \<and> hints out = None
        \<and> take 1 tr = [Fetch (rdap_url ''93.184.216.34''
                          (if matches ipv4_rx ''93.184.216.34'' then ''ip'' else ''domain''))])
      \<or> (\<exists>tr. scan env_up (basic_req ''93.184.216.34'') =
            (Some (json_error 500 cannot_convert), tr))"
    by (rule basic [THEN conjunct1, THEN mp, THEN conjunct2]) (intro conjI r ne)
  moreover have "\<not> (\<exists>tr. scan env_up (basic_req ''93.184.216.34'') =
            (Some (json_error 500 cannot_convert), tr))"
    using ok by (auto simp: json_error_def cannot_convert_def)
  ultimately have 4: "\<exists>out tr. scan env_up (basic_req ''93.184.216.34'') = (Some (json_ok out), tr)
        \<and> type out = Some (if matches ipv4_rx ''93.184.216.34'' then ''ip'' else ''domain'')
        \<and> hints out = None
        \<and> take 1 tr = [Fetch (rdap_url ''93.184.216.34''
                          (if matches ipv4_rx ''93.184.216.34'' then ''ip'' else ''domain''))]"
    by blast
  have 5: "\<exists>out. scan env_up \<lparr>req_target = Some ''octocat'', req_type = Some ''username'',
                           req_session_id = None\<rparr> =
         (Some (json_ok out), [DbRun ''octocat'' ''username'' out])
        \<and> type out = Some ''username''
        \<and> hints out = Some (''Search '' @ ''octocat'' @ '' on GitHub, Twitter, etc.'')
        \<and> rdap out = None \<and> resolved_ip out = None \<and> score out = Some 50"
    by (rule other [THEN conjunct2, THEN conjunct2, THEN conjunct1, THEN mp])
       (intro conjI o ne u)
  show ?thesis
    by (intro conjI r k3 s(2) 1 k1 2 k2 3 4 u 5)
qed

subsection \<open>Deep scan without authorization\<close>

text \<open>
  Claim C5, as stated, fails for an absent token: the handler answers status 400
  (missing target or session id), not the authorization failure.
\<close>

theorem absent_token_is_invalid_input:
  "deepscan cfg_key srv_paid env_up (deep_req ''10.0.0.1'' None) =
     (Some (json_error 400 ''missing target or session_id''), [])
   \<and> failure_of (json_error 400 ''missing target or session_id'') = Some InvalidInput"
  by (simp add: deepscan_def deep_req_def failure_of_def json_error_def)

text \<open>
  Claim C5, amended. A deep request with a target and a non-empty session id that is not
  among the paid sessions fails with AuthorizationDenied (status 403), and no collaborator
  is called before that answer; a deep request whose session id is absent or empty is
  answered with status 400 instead, again with no collaborator called.
\<close>

theorem deepscan_denied_without_probes:
  "(req_target req = Some tgt \<and> tgt \<noteq> [] \<and> req_session_id req = Some sid \<and> sid \<noteq> []
      \<and> sid \<notin> paidSessions srv
     \<longrightarrow> deepscan cfg srv e req =
           (Some (json_error 403 ''Pro access required (no valid payment session)''), [])
         \<and> failure_of (json_error 403 ''Pro access required (no valid payment session)'') =
             Some AuthorizationDenied)
   \<and> (req_target req = Some tgt \<and> tgt \<noteq> [] \<and> \<not> truthy_str (req_session_id req)
     \<longrightarrow> deepscan cfg srv e req = (Some (json_error 400 ''missing target or session_id''), [])
         \<and> failure_of (json_error 400 ''missing target or session_id'') = Some InvalidInput)"
  by (cases "req_session_id req")
     (auto simp: deepscan_def failure_of_def json_error_def)

theorem deepscan_denied_without_probes_witness:
  "req_target (deep_req ''10.0.0.1'' (Some ''cs_forged'')) = Some ''10.0.0.1''
   \<and> req_session_id (deep_req ''10.0.0.1'' (Some ''cs_forged'')) = Some ''cs_forged''
   \<and> ''cs_forged'' \<notin> paidSessions srv_paid
   \<and> deepscan cfg_key srv_paid env_up (deep_req ''10.0.0.1'' (Some ''cs_forged'')) =
       (Some (json_error 403 ''Pro access required (no valid payment session)''), [])
   \<and> \<not> truthy_str (req_session_id (deep_req ''192.0.2.7'' (Some [])))
   \<and> deepscan cfg_key srv_paid env_up (deep_req ''192.0.2.7'' (Some [])) =
       (Some (json_error 400 ''missing target or session_id''), [])"
  using deepscan_denied_without_probes
    [of "deep_req ''10.0.0.1'' (Some ''cs_forged'')" "''10.0.0.1''" "''cs_forged''" srv_paid
      cfg_key env_up]
    deepscan_denied_without_probes
    [of "deep_req ''192.0.2.7'' (Some [])" "''192.0.2.7''" "''cs_forged''" srv_paid
      cfg_key env_up]
  by (simp add: deep_req_def srv_paid_def)

subsection \<open>Status of a port\<close>

text \<open>
  Claim C6, as stated, fails: a host that cannot be resolved gives status \<open>closed\<close>, not
  \<open>error\<close>, because the failure arrives on the socket's error event, which the probe
  ignores before the close event settles it with the initial status.
\<close>

theorem unresolvable_host_is_closed:
  "scanPorts env_nohost ''no-such-host.invalid'' [80] [] =
     (Resolved [\<lparr>port = 80, status = ''closed''\<rparr>], [SocketConnect 80 ''no-such-host.invalid''])
   \<and> socket_connect env_nohost [] 80 ''no-such-host.invalid'' =
       Fails ''getaddrinfo ENOTFOUND no-such-host.invalid''"
  by (simp add: probe_single env_nohost_def)

text \<open>
  Claim C6, amended. The status of a port is \<open>open\<close> exactly when the connect completes
  before the timeout; an elapsed timeout and every error reported on the socket (a refused
  connection, an unreachable or unresolvable host) give \<open>closed\<close>, the two not being
  told apart; the probe's promise rejects exactly when the connect call itself throws,
  and \<open>scanPorts\<close> records exactly that case as \<open>error\<close>.
\<close>

theorem scanPort_status_by_fate:
  "scanPorts e host [p] tr =
     (Resolved [\<lparr>port = p, status = probe_status (socket_connect e tr p host)\<rparr>],
      tr @ [SocketConnect p host])
   \<and> (probe_status (socket_connect e tr p host) = ''open''
        \<longleftrightarrow> socket_connect e tr p host = Connects)
   \<and> (probe_status (socket_connect e tr p host) = ''closed''
        \<longleftrightarrow> socket_connect e tr p host = Idles \<or> (\<exists>msg. socket_connect e tr p host = Fails msg))
   \<and> (probe_status (socket_connect e tr p host) = ''error''
        \<longleftrightarrow> (\<exists>msg. socket_connect e tr p host = Throws msg))
   \<and> ((\<exists>msg. fst (scanPort e host p tr) = Rejected msg)
        \<longleftrightarrow> (\<exists>msg. socket_connect e tr p host = Throws msg))
   \<and> ((\<exists>r. fst (scanPort e host p tr) = Resolved r \<and> port r = p \<and> status r = ''open'')
        \<longleftrightarrow> socket_connect e tr p host = Connects)
   \<and> fst (scanPort e host p tr) \<noteq> Pending"
proof -
  have "probe_status (socket_connect e tr p host) = ''open''
      \<longleftrightarrow> socket_connect e tr p host = Connects"
    by (cases "socket_connect e tr p host") simp_all
  moreover have "probe_status (socket_connect e tr p host) = ''closed''
      \<longleftrightarrow> socket_connect e tr p host = Idles \<or> (\<exists>msg. socket_connect e tr p host = Fails msg)"
    by (cases "socket_connect e tr p host") simp_all
  moreover have "probe_status (socket_connect e tr p host) = ''error''
      \<longleftrightarrow> (\<exists>msg. socket_connect e tr p host = Throws msg)"
    by (cases "socket_connect e tr p host") simp_all
  moreover have "(\<exists>msg. fst (scanPort e host p tr) = Rejected msg)
      \<longleftrightarrow> (\<exists>msg. socket_connect e tr p host = Throws msg)"
    by (cases "socket_connect e tr p host") (simp_all add: scanPort_eq)
  moreover have "(\<exists>r. fst (scanPort e host p tr) = Resolved r \<and> port r = p \<and> status r = ''open'')
      \<longleftrightarrow> socket_connect e tr p host = Connects"
    by (cases "socket_connect e tr p host") (simp_all add: scanPort_eq)
  moreover have "fst (scanPort e host p tr) \<noteq> Pending"
    by (cases "socket_connect e tr p host") (simp_all add: scanPort_eq)
  ultimately show ?thesis using probe_single [of e host p tr] by blast
qed

theorem scanPort_status_by_fate_witness:
  "scanPorts env_mixed ''10.0.0.1'' [22] [] =
     (Resolved [\<lparr>port = 22, status = ''error''\<rparr>], [SocketConnect 22 ''10.0.0.1''])
   \<and> socket_connect env_mixed [] 22 ''10.0.0.1'' = Throws ''bad port''
   \<and> fst (scanPort env_mixed ''10.0.0.1'' 22 []) = Rejected ''bad port''
   \<and> scanPorts env_mixed ''10.0.0.1'' [80] [] =
       (Resolved [\<lparr>port = 80, status = ''open''\<rparr>], [SocketConnect 80 ''10.0.0.1''])"
proof -
  have f: "socket_connect env_mixed [] 22 ''10.0.0.1'' = Throws ''bad port''"
    "socket_connect env_mixed [] 80 ''10.0.0.1'' = Connects"
    by (simp_all add: env_mixed_def)
  have r: "fst (scanPort env_mixed ''10.0.0.1'' 22 []) = Rejected ''bad port''"
    by (simp add: scanPort_eq f)
  from scanPort_status_by_fate [of env_mixed "''10.0.0.1''" 22 "[]"]
    scanPort_status_by_fate [of env_mixed "''10.0.0.1''" 80 "[]"] f r
  show ?thesis by simp
qed

subsection \<open>Invalid input\<close>

lemma scan_invalid_iff:
  "(\<exists>r. fst (scan e req) = Some r \<and> failure_of r = Some InvalidInput)
     \<longleftrightarrow> \<not> truthy_str (req_target req)"
proof (cases "truthy_str (req_target req)")
  case True
  then obtain tgt where "req_target req = Some tgt" "tgt \<noteq> []"
    by (cases "req_target req") auto
  from scan_valid [OF this, of e] True show ?thesis by auto
next
  case False
  then show ?thesis by (simp add: scan_missing_target)
qed

lemma deepscan_invalid_iff:
  "(\<exists>r. fst (deepscan cfg srv e req) = Some r \<and> failure_of r = Some InvalidInput)
     \<longleftrightarrow> \<not> truthy_str (req_target req) \<or> \<not> truthy_str (req_session_id req)"
proof (cases "truthy_str (req_target req) \<and> truthy_str (req_session_id req)")
  case True
  then obtain tgt sid where r: "req_target req = Some tgt" "tgt \<noteq> []"
    "req_session_id req = Some sid" "sid \<noteq> []"
    by (cases "req_target req"; cases "req_session_id req") auto
  show ?thesis
  proof (cases "sid \<in> paidSessions srv")
    case True
    from deep_valid [OF r this, of cfg e] r show ?thesis by auto
  next
    case False
    with r show ?thesis by (simp add: deepscan_def)
  qed
next
  case False
  then have "\<not> truthy_str (req_target req) \<or> \<not> truthy_str (req_session_id req)" by simp
  from deepscan_missing [OF this, of cfg srv e] this show ?thesis by simp
qed

text \<open>
  Claim C7, as stated, fails: a deep request with a non-empty target and no session id
  is answered with the invalid-input status 400.
\<close>

theorem deep_invalid_input_with_target:
  "truthy_str (req_target (deep_req ''example.com'' None))
   \<and> fst (deepscan cfg_nokey srv_paid env_up (deep_req ''example.com'' None)) =
       Some (json_error 400 ''missing target or session_id'')
   \<and> failure_of (json_error 400 ''missing target or session_id'') = Some InvalidInput"
  by (simp add: deepscan_def deep_req_def)

text \<open>
  Claim C7, amended. The basic scan fails with InvalidInput (status 400) exactly when the
  target is missing or empty; the deep scan fails with InvalidInput exactly when the
  target or the session id is missing or empty. In both handlers that answer is given
  before any collaborator is called.
\<close>

theorem invalid_input_exactly_when_missing:
  "((\<exists>r. fst (scan e req) = Some r \<and> failure_of r = Some InvalidInput)
      \<longleftrightarrow> \<not> truthy_str (req_target req))
   \<and> (\<not> truthy_str (req_target req)
        \<longrightarrow> scan e req = (Some (json_error 400 ''missing target''), []))
   \<and> ((\<exists>r. fst (deepscan cfg srv e req) = Some r \<and> failure_of r = Some InvalidInput)
        \<longleftrightarrow> \<not> truthy_str (req_target req) \<or> \<not> truthy_str (req_session_id req))
   \<and> (\<not> truthy_str (req_target req) \<or> \<not> truthy_str (req_session_id req)
        \<longrightarrow> deepscan cfg srv e req = (Some (json_error 400 ''missing target or session_id''), []))"
  using scan_invalid_iff [of e req] scan_missing_target [of req e]
    deepscan_invalid_iff [of cfg srv e req] deepscan_missing [of req cfg srv e]
  by blast

theorem invalid_input_exactly_when_missing_witness:
  "\<not> truthy_str (req_target (basic_req []))
   \<and> scan env_up (basic_req []) = (Some (json_error 400 ''missing target''), [])
   \<and> deepscan cfg_key srv_paid env_up (basic_req []) =
       (Some (json_error 400 ''missing target or session_id''), [])
   \<and> truthy_str (req_target (basic_req ''example.com''))
   \<and> \<not> (\<exists>r. fst (scan env_up (basic_req ''example.com'')) = Some r
            \<and> failure_of r = Some InvalidInput)"
  using invalid_input_exactly_when_missing [of env_up "basic_req []" cfg_key srv_paid]
    invalid_input_exactly_when_missing [of env_up "basic_req ''example.com''" cfg_key srv_paid]
  by (simp add: basic_req_def)

subsection \<open>Threat enrichment\<close>

lemma deepscan_nokey:
  assumes "SHODAN_KEY cfg = None"
  shows "filter is_shodan (snd (deepscan cfg srv e req)) = []
     \<and> (\<forall>out. fst (deepscan cfg srv e req) = Some (json_ok out)
           \<longrightarrow> (\<exists>d. details out = Some d \<and> details_shodan d = None))"
proof (cases "truthy_str (req_target req) \<and> truthy_str (req_session_id req)")
  case True
  then obtain tgt sid where r: "req_target req = Some tgt" "tgt \<noteq> []"
    "req_session_id req = Some sid" "sid \<noteq> []"
    by (cases "req_target req"; cases "req_session_id req") auto
  show ?thesis
  proof (cases "sid \<in> paidSessions srv")
    case True
    from deepscan_lift [OF r True deep_nokey [OF assms, of e tgt]]
    obtain x tr0 d where "deepscan cfg srv e req =
        (Some (json_ok (x\<lparr>score := Some 50\<rparr>)),
         tr0 @ [DbRun tgt ''deepscan'' (x\<lparr>score := Some 50\<rparr>)])"
      "filter is_shodan tr0 = []" "details x = Some d" "details_shodan d = None"
      by blast
    then show ?thesis by simp
  next
    case False
    with r show ?thesis by (simp add: deepscan_def json_error_def json_ok_def)
  qed
next
  case False
  then have "\<not> truthy_str (req_target req) \<or> \<not> truthy_str (req_session_id req)" by simp
  from deepscan_missing [OF this, of cfg srv e] show ?thesis
    by (simp add: json_error_def json_ok_def)
qed

lemma deepscan_key_ipv4:
  assumes "SHODAN_KEY cfg = Some k" "matches ipv4_rx tgt" "req_target req = Some tgt"
    "req_session_id req = Some sid" "sid \<noteq> []" "sid \<in> paidSessions srv"
  shows "\<exists>out tr d. deepscan cfg srv e req = (Some (json_ok out), tr)
     \<and> details out = Some d
     \<and> details_shodan d =
         Some (shodan_result (fetch e
           (Fetch (rdap_url tgt ''ip'') # Fetch (geo_url tgt)
              # map (\<lambda>p. SocketConnect p tgt) COMMON_PORTS @ [ShodanLookup tgt])
           (shodan_url tgt k)))
     \<and> filter is_shodan tr = [ShodanLookup tgt, Fetch (shodan_url tgt k)]"
proof -
  from assms(2) have ne: "tgt \<noteq> []" using ipv4_last_digit by blast
  have sh: "is_shodan (Fetch (shodan_url tgt k))" by (simp add: shodan_url_def)
  have "resolves_with (deep_probes cfg e tgt (deep_out0 e tgt)) []
     (\<lambda>out' tr'. \<exists>d. details out' = Some d
        \<and> details_shodan d =
            Some (shodan_result (fetch e
              (Fetch (rdap_url tgt ''ip'') # Fetch (geo_url tgt)
                 # map (\<lambda>p. SocketConnect p tgt) COMMON_PORTS @ [ShodanLookup tgt])
              (shodan_url tgt k)))
        \<and> filter is_shodan tr' = [ShodanLookup tgt, Fetch (shodan_url tgt k)])"
  proof -
    from assms(2) have nd: "\<not> matches domain_rx tgt" using ipv4_not_domain by blast
    show ?thesis
      using assms(1,2) nd ne sh SHODAN_KEY_Some [OF assms(1)]
      by (simp add: deep_probes_def deep_ip_probes_def Let_def with_details_def deep_out0_def
            common_ports_20)
  qed
  from deepscan_lift [OF assms(3) ne assms(4,5,6) this]
  obtain x tr0 d where "deepscan cfg srv e req =
      (Some (json_ok (x\<lparr>score := Some 50\<rparr>)),
       tr0 @ [DbRun tgt ''deepscan'' (x\<lparr>score := Some 50\<rparr>)])"
    "details x = Some d"
    "details_shodan d =
       Some (shodan_result (fetch e
         (Fetch (rdap_url tgt ''ip'') # Fetch (geo_url tgt)
            # map (\<lambda>p. SocketConnect p tgt) COMMON_PORTS @ [ShodanLookup tgt])
         (shodan_url tgt k)))"
    "filter is_shodan tr0 = [ShodanLookup tgt, Fetch (shodan_url tgt k)]"
    by blast
  then show ?thesis by simp
qed

lemma shodan_not_null:
  "JObj [(''error'', JStr msg)] \<noteq> JNull"
  by simp

text \<open>
  Claim C8. Without a configured credential the deep scan never enters \<open>shodanLookup\<close>
  and never fetches from the enrichment service, and the record has no \<open>shodan\<close> member.
  With a credential, a lookup that fails resolves with the record \<open>{error: message}\<close>,
  never with null: the message is that of the rejected request, \<open>shodan:\<close> followed by
  the status of a non-success response, or the message of the body that cannot be read.
  A lookup that succeeds resolves with the body. The deep scan of an address stores the
  lookup's result in \<open>details.shodan\<close>, so a failed lookup leaves the error record there
  and a missing credential leaves nothing.
\<close>

theorem shodan_skipped_or_error_record:
  "(SHODAN_KEY cfg = None
      \<longrightarrow> filter is_shodan (snd (deepscan cfg srv e req)) = []
        \<and> (\<forall>out. fst (deepscan cfg srv e req) = Some (json_ok out)
              \<longrightarrow> (\<exists>d. details out = Some d \<and> details_shodan d = None)))
   \<and> (SHODAN_KEY cfg = Some k \<and> fetch_failed (fetch e (tr @ [ShodanLookup ip]) (shodan_url ip k))
      \<longrightarrow> (\<exists>msg. shodanLookup cfg e ip tr =
             (Resolved (JObj [(''error'', JStr msg)]),
              tr @ [ShodanLookup ip, Fetch (shodan_url ip k)])
             \<and> JObj [(''error'', JStr msg)] \<noteq> JNull))
   \<and> (SHODAN_KEY cfg = Some k \<and> fetch e (tr @ [ShodanLookup ip]) (shodan_url ip k) = Failure msg
      \<longrightarrow> shodanLookup cfg e ip tr =
            (Resolved (JObj [(''error'', JStr msg)]),
             tr @ [ShodanLookup ip, Fetch (shodan_url ip k)]))
   \<and> (SHODAN_KEY cfg = Some k \<and> fetch e (tr @ [ShodanLookup ip]) (shodan_url ip k) = Success r
        \<and> \<not> r_ok r
      \<longrightarrow> shodanLookup cfg e ip tr =
            (Resolved (JObj [(''error'', JStr (''shodan:'' @ string_of_nat (r_status r)))]),
             tr @ [ShodanLookup ip, Fetch (shodan_url ip k)]))
   \<and> (SHODAN_KEY cfg = Some k \<and> fetch e (tr @ [ShodanLookup ip]) (shodan_url ip k) = Success r
        \<and> r_ok r \<and> r_json r = Failure msg
      \<longrightarrow> shodanLookup cfg e ip tr =
            (Resolved (JObj [(''error'', JStr msg)]),
             tr @ [ShodanLookup ip, Fetch (shodan_url ip k)]))
   \<and> (SHODAN_KEY cfg = Some k \<and> fetch e (tr @ [ShodanLookup ip]) (shodan_url ip k) = Success r
        \<and> r_ok r \<and> r_json r = Success j
      \<longrightarrow> shodanLookup cfg e ip tr =
            (Resolved j, tr @ [ShodanLookup ip, Fetch (shodan_url ip k)]))
   \<and> (SHODAN_KEY cfg = Some k \<and> matches ipv4_rx tgt \<and> req_target req = Some tgt
        \<and> req_session_id req = Some sid \<and> sid \<noteq> [] \<and> sid \<in> paidSessions srv
      \<longrightarrow> (\<exists>out tr' d. deepscan cfg srv e req = (Some (json_ok out), tr')
             \<and> details out = Some d
             \<and> details_shodan d =
                 Some (shodan_result (fetch e
                   (Fetch (rdap_url tgt ''ip'') # Fetch (geo_url tgt)
                      # map (\<lambda>p. SocketConnect p tgt) COMMON_PORTS @ [ShodanLookup tgt])
                   (shodan_url tgt k)))
             \<and> shodanLookup cfg e tgt
                 (Fetch (rdap_url tgt ''ip'') # Fetch (geo_url tgt)
                    # map (\<lambda>p. SocketConnect p tgt) COMMON_PORTS) =
                 (Resolved (the (details_shodan d)),
                  (Fetch (rdap_url tgt ''ip'') # Fetch (geo_url tgt)
                     # map (\<lambda>p. SocketConnect p tgt) COMMON_PORTS)
                  @ [ShodanLookup tgt, Fetch (shodan_url tgt k)])
             \<and> filter is_shodan tr' = [ShodanLookup tgt, Fetch (shodan_url tgt k)]))
   \<and> (SHODAN_KEY cfg = Some k \<and> matches ipv4_rx tgt \<and> req_target req = Some tgt
        \<and> req_session_id req = Some sid \<and> sid \<noteq> [] \<and> sid \<in> paidSessions srv
        \<and> fetch e (Fetch (rdap_url tgt ''ip'') # Fetch (geo_url tgt)
                      # map (\<lambda>p. SocketConnect p tgt) COMMON_PORTS @ [ShodanLookup tgt])
            (shodan_url tgt k) = Failure msg
      \<longrightarrow> (\<exists>out tr' d. deepscan cfg srv e req = (Some (json_ok out), tr')
             \<and> details out = Some d
             \<and> details_shodan d = Some (JObj [(''error'', JStr msg)])))"
proof -
  have f: "SHODAN_KEY cfg = Some k
        \<and> fetch_failed (fetch e (tr @ [ShodanLookup ip]) (shodan_url ip k))
      \<longrightarrow> (\<exists>msg. shodanLookup cfg e ip tr =
             (Resolved (JObj [(''error'', JStr msg)]),
              tr @ [ShodanLookup ip, Fetch (shodan_url ip k)])
             \<and> JObj [(''error'', JStr msg)] \<noteq> JNull)"
  proof
    assume h: "SHODAN_KEY cfg = Some k
      \<and> fetch_failed (fetch e (tr @ [ShodanLookup ip]) (shodan_url ip k))"
    then obtain msg where
      "shodan_result (fetch e (tr @ [ShodanLookup ip]) (shodan_url ip k)) = error_record msg"
      using shodan_result_failed by blast
    with h show "\<exists>msg. shodanLookup cfg e ip tr =
             (Resolved (JObj [(''error'', JStr msg)]),
              tr @ [ShodanLookup ip, Fetch (shodan_url ip k)])
             \<and> JObj [(''error'', JStr msg)] \<noteq> JNull"
      by (simp add: shodanLookup_eq error_record_def)
  qed
  have c: "SHODAN_KEY cfg = Some k
        \<and> fetch e (tr @ [ShodanLookup ip]) (shodan_url ip k) = Failure msg
      \<longrightarrow> shodanLookup cfg e ip tr =
            (Resolved (JObj [(''error'', JStr msg)]),
             tr @ [ShodanLookup ip, Fetch (shodan_url ip k)])"
    "SHODAN_KEY cfg = Some k \<and> fetch e (tr @ [ShodanLookup ip]) (shodan_url ip k) = Success r
        \<and> \<not> r_ok r
      \<longrightarrow> shodanLookup cfg e ip tr =
            (Resolved (JObj [(''error'', JStr (''shodan:'' @ string_of_nat (r_status r)))]),
             tr @ [ShodanLookup ip, Fetch (shodan_url ip k)])"
    "SHODAN_KEY cfg = Some k \<and> fetch e (tr @ [ShodanLookup ip]) (shodan_url ip k) = Success r
        \<and> r_ok r \<and> r_json r = Failure msg
      \<longrightarrow> shodanLookup cfg e ip tr =
            (Resolved (JObj [(''error'', JStr msg)]),
             tr @ [ShodanLookup ip, Fetch (shodan_url ip k)])"
    "SHODAN_KEY cfg = Some k \<and> fetch e (tr @ [ShodanLookup ip]) (shodan_url ip k) = Success r
        \<and> r_ok r \<and> r_json r = Success j
      \<longrightarrow> shodanLookup cfg e ip tr =
            (Resolved j, tr @ [ShodanLookup ip, Fetch (shodan_url ip k)])"
    using shodanLookup_cases [of cfg k e tr ip] by blast+
  have d: "SHODAN_KEY cfg = Some k \<and> matches ipv4_rx tgt \<and> req_target req = Some tgt
        \<and> req_session_id req = Some sid \<and> sid \<noteq> [] \<and> sid \<in> paidSessions srv
      \<longrightarrow> (\<exists>out tr' d. deepscan cfg srv e req = (Some (json_ok out), tr')
             \<and> details out = Some d
             \<and> details_shodan d =
                 Some (shodan_result (fetch e
                   (Fetch (rdap_url tgt ''ip'') # Fetch (geo_url tgt)
                      # map (\<lambda>p. SocketConnect p tgt) COMMON_PORTS @ [ShodanLookup tgt])
                   (shodan_url tgt k)))
             \<and> shodanLookup cfg e tgt
                 (Fetch (rdap_url tgt ''ip'') # Fetch (geo_url tgt)
                    # map (\<lambda>p. SocketConnect p tgt) COMMON_PORTS) =
                 (Resolved (the (details_shodan d)),
                  (Fetch (rdap_url tgt ''ip'') # Fetch (geo_url tgt)
                     # map (\<lambda>p. SocketConnect p tgt) COMMON_PORTS)
                  @ [ShodanLookup tgt, Fetch (shodan_url tgt k)])
             \<and> filter is_shodan tr' = [ShodanLookup tgt, Fetch (shodan_url tgt k)])"
  proof
    assume h: "SHODAN_KEY cfg = Some k \<and> matches ipv4_rx tgt \<and> req_target req = Some tgt
        \<and> req_session_id req = Some sid \<and> sid \<noteq> [] \<and> sid \<in> paidSessions srv"
    with deepscan_key_ipv4 [of cfg k tgt req sid srv e]
    obtain out tr' d where o: "deepscan cfg srv e req = (Some (json_ok out), tr')"
      "details out = Some d"
      "details_shodan d =
         Some (shodan_result (fetch e
           (Fetch (rdap_url tgt ''ip'') # Fetch (geo_url tgt)
              # map (\<lambda>p. SocketConnect p tgt) COMMON_PORTS @ [ShodanLookup tgt])
           (shodan_url tgt k)))"
      "filter is_shodan tr' = [ShodanLookup tgt, Fetch (shodan_url tgt k)]"
      by blast
    from h have k: "SHODAN_KEY cfg = Some k" by simp
    from o(3) have "shodanLookup cfg e tgt
         (Fetch (rdap_url tgt ''ip'') # Fetch (geo_url tgt)
            # map (\<lambda>p. SocketConnect p tgt) COMMON_PORTS) =
         (Resolved (the (details_shodan d)),
          (Fetch (rdap_url tgt ''ip'') # Fetch (geo_url tgt)
             # map (\<lambda>p. SocketConnect p tgt) COMMON_PORTS)
          @ [ShodanLookup tgt, Fetch (shodan_url tgt k)])"
      by (simp add: shodanLookup_eq [OF k])
    with o show "\<exists>out tr' d. deepscan cfg srv e req = (Some (json_ok out), tr')
             \<and> details out = Some d
             \<and> details_shodan d =
                 Some (shodan_result (fetch e
                   (Fetch (rdap_url tgt ''ip'') # Fetch (geo_url tgt)
                      # map (\<lambda>p. SocketConnect p tgt) COMMON_PORTS @ [ShodanLookup tgt])
                   (shodan_url tgt k)))
             \<and> shodanLookup cfg e tgt
                 (Fetch (rdap_url tgt ''ip'') # Fetch (geo_url tgt)
                    # map (\<lambda>p. SocketConnect p tgt) COMMON_PORTS) =
                 (Resolved (the (details_shodan d)),
                  (Fetch (rdap_url tgt ''ip'') # Fetch (geo_url tgt)
                     # map (\<lambda>p. SocketConnect p tgt) COMMON_PORTS)
                  @ [ShodanLookup tgt, Fetch (shodan_url tgt k)])
             \<and> filter is_shodan tr' = [ShodanLookup tgt, Fetch (shodan_url tgt k)]"
      by blast
  qed
  have g: "SHODAN_KEY cfg = Some k \<and> matches ipv4_rx tgt \<and> req_target req = Some tgt
        \<and> req_session_id req = Some sid \<and> sid \<noteq> [] \<and> sid \<in> paidSessions srv
        \<and> fetch e (Fetch (rdap_url tgt ''ip'') # Fetch (geo_url tgt)
                      # map (\<lambda>p. SocketConnect p tgt) COMMON_PORTS @ [ShodanLookup tgt])
            (shodan_url tgt k) = Failure msg
      \<longrightarrow> (\<exists>out tr' d. deepscan cfg srv e req = (Some (json_ok out), tr')
             \<and> details out = Some d
             \<and> details_shodan d = Some (JObj [(''error'', JStr msg)]))"
  proof
    assume h: "SHODAN_KEY cfg = Some k \<and> matches ipv4_rx tgt \<and> req_target req = Some tgt
        \<and> req_session_id req = Some sid \<and> sid \<noteq> [] \<and> sid \<in> paidSessions srv
        \<and> fetch e (Fetch (rdap_url tgt ''ip'') # Fetch (geo_url tgt)
                      # map (\<lambda>p. SocketConnect p tgt) COMMON_PORTS @ [ShodanLookup tgt])
            (shodan_url tgt k) = Failure msg"
    with deepscan_key_ipv4 [of cfg k tgt req sid srv e]
    obtain out tr' d where "deepscan cfg srv e req = (Some (json_ok out), tr')"
      "details out = Some d"
      "details_shodan d = Some (shodan_result (Failure msg))"
      by auto
    then show "\<exists>out tr' d. deepscan cfg srv e req = (Some (json_ok out), tr')
             \<and> details out = Some d
             \<and> details_shodan d = Some (JObj [(''error'', JStr msg)])"
      by (auto simp: shodan_result_cases)
  qed
  show ?thesis
    using deepscan_nokey [of cfg srv e req]
    by (intro conjI f c d g) blast
qed

theorem shodan_skipped_or_error_record_witness:
  "SHODAN_KEY cfg_nokey = None
   \<and> filter is_shodan (snd (deepscan cfg_nokey srv_paid env_down
        (deep_req ''10.0.0.1'' (Some ''cs_test_1'')))) = []
   \<and> (\<exists>out d. fst (deepscan cfg_nokey srv_paid env_down
          (deep_req ''10.0.0.1'' (Some ''cs_test_1''))) = Some (json_ok out)
         \<and> details out = Some d \<and> details_shodan d = None)
   \<and> SHODAN_KEY cfg_key = Some ''k1''
   \<and> fetch_failed (fetch env_down ([] @ [ShodanLookup ''10.0.0.1'']) (shodan_url ''10.0.0.1'' ''k1''))
   \<and> shodanLookup cfg_key env_down ''10.0.0.1'' [] =
       (Resolved (JObj [(''error'', JStr ''request failed'')]),
        [] @ [ShodanLookup ''10.0.0.1'', Fetch (shodan_url ''10.0.0.1'' ''k1'')])
   \<and> shodanLookup cfg_key env_mixed ''10.0.0.1'' [] =
       (Resolved (JObj [(''error'', JStr ''shodan:503'')]),
        [] @ [ShodanLookup ''10.0.0.1'', Fetch (shodan_url ''10.0.0.1'' ''k1'')])
   \<and> shodanLookup cfg_key env_up ''10.0.0.1'' [] =
       (Resolved (JObj [(''isp'', JStr ''Example Networks'')]),
        [] @ [ShodanLookup ''10.0.0.1'', Fetch (shodan_url ''10.0.0.1'' ''k1'')])
   \<and> matches ipv4_rx ''10.0.0.1''
   \<and> ''cs_test_1'' \<in> paidSessions srv_paid
   \<and> filter is_shodan (snd (deepscan cfg_key srv_paid env_down
        (deep_req ''10.0.0.1'' (Some ''cs_test_1'')))) =
       [ShodanLookup ''10.0.0.1'', Fetch (shodan_url ''10.0.0.1'' ''k1'')]
   \<and> (\<exists>out tr' d. deepscan cfg_key srv_paid env_down
          (deep_req ''10.0.0.1'' (Some ''cs_test_1'')) = (Some (json_ok out), tr')
         \<and> details out = Some d
         \<and> details_shodan d = Some (JObj [(''error'', JStr ''request failed'')]))"
proof -
  have k: "SHODAN_KEY cfg_nokey = None" "SHODAN_KEY cfg_key = Some ''k1''"
    by (simp_all add: SHODAN_KEY_def cfg_nokey_def cfg_key_def)
  have f: "fetch_failed (fetch env_down ([] @ [ShodanLookup ''10.0.0.1''])
      (shodan_url ''10.0.0.1'' ''k1''))"
    by (simp add: env_down_def fetch_failed_def)
  have fd: "fetch env_down tr0 u = Failure ''request failed''" for tr0 u
    by (simp add: env_down_def)
  have fm: "fetch env_mixed ([] @ [ShodanLookup ''10.0.0.1'']) (shodan_url ''10.0.0.1'' ''k1'') =
      Success \<lparr>r_status = 503, r_json = Failure ''invalid json''\<rparr>"
    "\<not> r_ok \<lparr>r_status = 503, r_json = Failure ''invalid json''\<rparr>"
    by (simp_all add: env_mixed_def r_ok_def)
  have fu: "fetch env_up ([] @ [ShodanLookup ''10.0.0.1'']) (shodan_url ''10.0.0.1'' ''k1'') =
      Success \<lparr>r_status = 200, r_json = Success (JObj [(''isp'', JStr ''Example Networks'')])\<rparr>"
    "r_ok \<lparr>r_status = 200, r_json = Success (JObj [(''isp'', JStr ''Example Networks'')])\<rparr>"
    "r_json \<lparr>r_status = 200, r_json = Success (JObj [(''isp'', JStr ''Example Networks'')])\<rparr> =
       Success (JObj [(''isp'', JStr ''Example Networks'')])"
    by (simp_all add: env_up_def r_ok_def)
  have sn: "string_of_nat 503 = ''503''" by code_simp
  have m: "matches ipv4_rx ''10.0.0.1''" by code_simp
  have r: "req_target (deep_req ''10.0.0.1'' (Some ''cs_test_1'')) = Some ''10.0.0.1''"
    "req_session_id (deep_req ''10.0.0.1'' (Some ''cs_test_1'')) = Some ''cs_test_1''"
    "''cs_test_1'' \<noteq> []" "''cs_test_1'' \<in> paidSessions srv_paid"
    by (simp_all add: deep_req_def srv_paid_def)
  note nokey = shodan_skipped_or_error_record
    [where cfg = cfg_nokey and srv = srv_paid and e = env_down
       and req = "deep_req ''10.0.0.1'' (Some ''cs_test_1'')"]
  note down = shodan_skipped_or_error_record
    [where cfg = cfg_key and k = "''k1''" and srv = srv_paid and e = env_down
       and req = "deep_req ''10.0.0.1'' (Some ''cs_test_1'')" and tgt = "''10.0.0.1''"
       and sid = "''cs_test_1''" and tr = "[]" and ip = "''10.0.0.1''"
       and msg = "''request failed''"]
  note mixed = shodan_skipped_or_error_record
    [where cfg = cfg_key and k = "''k1''" and e = env_mixed and tr = "[]"
       and ip = "''10.0.0.1''"
       and r = "\<lparr>r_status = 503, r_json = Failure ''invalid json''\<rparr>"]
  note up = shodan_skipped_or_error_record
    [where cfg = cfg_key and k = "''k1''" and e = env_up and tr = "[]"
       and ip = "''10.0.0.1''"
       and r = "\<lparr>r_status = 200,
                 r_json = Success (JObj [(''isp'', JStr ''Example Networks'')])\<rparr>"
       and j = "JObj [(''isp'', JStr ''Example Networks'')]"]
  note skipped = nokey [THEN conjunct1, THEN mp, OF k(1)]
  have 1: "filter is_shodan (snd (deepscan cfg_nokey srv_paid env_down
        (deep_req ''10.0.0.1'' (Some ''cs_test_1'')))) = []"
    by (rule skipped [THEN conjunct1])
  have "''10.0.0.1'' \<noteq> []" by simp
  from deep_valid [OF r(1) this r(2,3,4), of cfg_nokey env_down]
  obtain out where o: "fst (deepscan cfg_nokey srv_paid env_down
      (deep_req ''10.0.0.1'' (Some ''cs_test_1''))) = Some (json_ok out)"
    by auto
  with skipped [THEN conjunct2] obtain d where "details out = Some d" "details_shodan d = None"
    by blast
  with o have 0: "\<exists>out d. fst (deepscan cfg_nokey srv_paid env_down
          (deep_req ''10.0.0.1'' (Some ''cs_test_1''))) = Some (json_ok out)
         \<and> details out = Some d \<and> details_shodan d = None"
    by blast
  have s: "shodanLookup cfg_key env_down ''10.0.0.1'' [] =
       (Resolved (JObj [(''error'', JStr ''request failed'')]),
        [] @ [ShodanLookup ''10.0.0.1'', Fetch (shodan_url ''10.0.0.1'' ''k1'')])"
    by (rule down [THEN conjunct2, THEN conjunct2, THEN conjunct1, THEN mp])
       (intro conjI k fd)
  have "shodanLookup cfg_key env_mixed ''10.0.0.1'' [] =
       (Resolved (JObj [(''error'', JStr (''shodan:'' @ string_of_nat
            (r_status \<lparr>r_status = 503, r_json = Failure ''invalid json''\<rparr>)))]),
        [] @ [ShodanLookup ''10.0.0.1'', Fetch (shodan_url ''10.0.0.1'' ''k1'')])"
    by (rule mixed [THEN conjunct2, THEN conjunct2, THEN conjunct2, THEN conjunct1, THEN mp])
       (intro conjI k fm)
  then have s2: "shodanLookup cfg_key env_mixed ''10.0.0.1'' [] =
       (Resolved (JObj [(''error'', JStr ''shodan:503'')]),
        [] @ [ShodanLookup ''10.0.0.1'', Fetch (shodan_url ''10.0.0.1'' ''k1'')])"
    by (simp add: sn)
  have s3: "shodanLookup cfg_key env_up ''10.0.0.1'' [] =
       (Resolved (JObj [(''isp'', JStr ''Example Networks'')]),
        [] @ [ShodanLookup ''10.0.0.1'', Fetch (shodan_url ''10.0.0.1'' ''k1'')])"
    by (rule up [THEN conjunct2, THEN conjunct2, THEN conjunct2, THEN conjunct2,
          THEN conjunct2, THEN conjunct1, THEN mp])
       (intro conjI k fu)
  have "\<exists>out tr' d. deepscan cfg_key srv_paid env_down
          (deep_req ''10.0.0.1'' (Some ''cs_test_1'')) = (Some (json_ok out), tr')
         \<and> details out = Some d
         \<and> details_shodan d =
             Some (shodan_result (fetch env_down
               (Fetch (rdap_url ''10.0.0.1'' ''ip'') # Fetch (geo_url ''10.0.0.1'')
                  # map (\<lambda>p. SocketConnect p ''10.0.0.1'') COMMON_PORTS @ [ShodanLookup ''10.0.0.1''])
               (shodan_url ''10.0.0.1'' ''k1'')))
         \<and> shodanLookup cfg_key env_down ''10.0.0.1''
             (Fetch (rdap_url ''10.0.0.1'' ''ip'') # Fetch (geo_url ''10.0.0.1'')
                # map (\<lambda>p. SocketConnect p ''10.0.0.1'') COMMON_PORTS) =
             (Resolved (the (details_shodan d)),
              (Fetch (rdap_url ''10.0.0.1'' ''ip'') # Fetch (geo_url ''10.0.0.1'')
                 # map (\<lambda>p. SocketConnect p ''10.0.0.1'') COMMON_PORTS)
              @ [ShodanLookup ''10.0.0.1'', Fetch (shodan_url ''10.0.0.1'' ''k1'')])
         \<and> filter is_shodan tr' =
             [ShodanLookup ''10.0.0.1'', Fetch (shodan_url ''10.0.0.1'' ''k1'')]"
    by (rule down [THEN conjunct2, THEN conjunct2, THEN conjunct2, THEN conjunct2,
          THEN conjunct2, THEN conjunct2, THEN conjunct1, THEN mp])
       (intro conjI k m r)
  then obtain out tr' where "deepscan cfg_key srv_paid env_down
        (deep_req ''10.0.0.1'' (Some ''cs_test_1'')) = (Some (json_ok out), tr')"
      "filter is_shodan tr' = [ShodanLookup ''10.0.0.1'', Fetch (shodan_url ''10.0.0.1'' ''k1'')]"
    by blast
  then have 2: "filter is_shodan (snd (deepscan cfg_key srv_paid env_down
        (deep_req ''10.0.0.1'' (Some ''cs_test_1'')))) =
       [ShodanLookup ''10.0.0.1'', Fetch (shodan_url ''10.0.0.1'' ''k1'')]"
    by simp
  have 3: "\<exists>out tr' d. deepscan cfg_key srv_paid env_down
          (deep_req ''10.0.0.1'' (Some ''cs_test_1'')) = (Some (json_ok out), tr')
         \<and> details out = Some d
         \<and> details_shodan d = Some (JObj [(''error'', JStr ''request failed'')])"
    by (rule down [THEN conjunct2, THEN conjunct2, THEN conjunct2, THEN conjunct2,
          THEN conjunct2, THEN conjunct2, THEN conjunct2, THEN mp])
       (intro conjI k m r fd)
  show ?thesis
    by (intro conjI k 1 0 f s s2 s3 m r(4) 2 3)
qed

subsection \<open>Port scan by profile\<close>

lemma scan_no_ports:
  "filter is_connect (snd (scan e req)) = []
   \<and> (\<forall>out. fst (scan e req) = Some (json_ok out) \<longrightarrow> details out = None)"
proof (cases "truthy_str (req_target req)")
  case True
  then obtain tgt where "req_target req = Some tgt" "tgt \<noteq> []"
    by (cases "req_target req") auto
  from scan_valid [OF this, of e] show ?thesis
    by (auto simp: json_error_def json_ok_def)
next
  case False
  then show ?thesis by (simp add: scan_missing_target json_error_def json_ok_def)
qed

lemma deepscan_ipv4_ports:
  assumes "matches ipv4_rx tgt" "req_target req = Some tgt"
    "req_session_id req = Some sid" "sid \<noteq> []" "sid \<in> paidSessions srv"
  shows "\<exists>out tr d ps. deepscan cfg srv e req = (Some (json_ok out), tr)
     \<and> details out = Some d \<and> details_ports d = Some ps \<and> map port ps = COMMON_PORTS
     \<and> filter is_connect tr = map (\<lambda>p. SocketConnect p tgt) COMMON_PORTS"
proof -
  from assms(1) have ne: "tgt \<noteq> []" using ipv4_last_digit by blast
  from deepscan_lift [OF assms(2) ne assms(3,4,5) deep_ipv4_ports [OF assms(1), of cfg e]]
  obtain x tr0 d ps where "deepscan cfg srv e req =
      (Some (json_ok (x\<lparr>score := Some 50\<rparr>)),
       tr0 @ [DbRun tgt ''deepscan'' (x\<lparr>score := Some 50\<rparr>)])"
    "details x = Some d" "details_ports d = Some ps" "map port ps = COMMON_PORTS"
    "filter is_connect tr0 = map (\<lambda>p. SocketConnect p tgt) COMMON_PORTS"
    by blast
  then show ?thesis by simp
qed

text \<open>
  Claim C9. A basic-profile answer never carries a port list (the record has no
  \<open>details\<close>, the only place where \<open>ports\<close> is kept) and the basic scan opens no socket.
  A deep-profile scan of a target in dotted-quad form, once authorised, always runs the
  port scan: one connect and one result per port, in order, over the first 20 entries of
  the fixed list 80, 443, 21, 22, 25, 53, 110, 143, 161, 3306, 3389, 5900, 8080, 8443,
  587, 993, 995, 2082, 2083, 8444, which is the whole list.
\<close>

theorem ports_only_in_deep_profile:
  "filter is_connect (snd (scan e req)) = []
   \<and> (\<forall>out. fst (scan e req) = Some (json_ok out) \<longrightarrow> details out = None)
   \<and> (matches ipv4_rx tgt \<and> req_target req = Some tgt \<and> req_session_id req = Some sid
        \<and> sid \<noteq> [] \<and> sid \<in> paidSessions srv
      \<longrightarrow> (\<exists>out tr d ps. deepscan cfg srv e req = (Some (json_ok out), tr)
             \<and> details out = Some d \<and> details_ports d = Some ps
             \<and> map port ps = take 20 COMMON_PORTS
             \<and> filter is_connect tr = map (\<lambda>p. SocketConnect p tgt) (take 20 COMMON_PORTS)))
   \<and> take 20 COMMON_PORTS = COMMON_PORTS
   \<and> COMMON_PORTS = [80, 443, 21, 22, 25, 53, 110, 143, 161, 3306, 3389, 5900, 8080, 8443,
                      587, 993, 995, 2082, 2083, 8444]"
proof -
  have "COMMON_PORTS = [80, 443, 21, 22, 25, 53, 110, 143, 161, 3306, 3389, 5900, 8080, 8443,
                        587, 993, 995, 2082, 2083, 8444]"
    by (simp add: COMMON_PORTS_def)
  then show ?thesis
    using scan_no_ports [of e req] deepscan_ipv4_ports [of tgt req sid srv cfg e]
    unfolding common_ports_20 by blast
qed

theorem ports_only_in_deep_profile_witness:
  "matches ipv4_rx ''93.184.216.34''
   \<and> req_target (deep_req ''93.184.216.34'' (Some ''cs_test_1'')) = Some ''93.184.216.34''
   \<and> ''cs_test_1'' \<in> paidSessions srv_paid
   \<and> filter is_connect (snd (deepscan cfg_nokey srv_paid env_mixed
         (deep_req ''93.184.216.34'' (Some ''cs_test_1'')))) =
       map (\<lambda>p. SocketConnect p ''93.184.216.34'') (take 20 COMMON_PORTS)
   \<and> length (take 20 COMMON_PORTS) = 20
   \<and> filter is_connect (snd (scan env_mixed (basic_req ''93.184.216.34''))) = []
   \<and> (\<exists>out. fst (scan env_mixed (basic_req ''93.184.216.34'')) = Some (json_ok out)
         \<and> details out = None)"
proof -
  have m: "matches ipv4_rx ''93.184.216.34''" by code_simp
  have r: "req_target (deep_req ''93.184.216.34'' (Some ''cs_test_1'')) = Some ''93.184.216.34''"
    "req_session_id (deep_req ''93.184.216.34'' (Some ''cs_test_1'')) = Some ''cs_test_1''"
    "''cs_test_1'' \<noteq> []" "''cs_test_1'' \<in> paidSessions srv_paid"
    by (simp_all add: deep_req_def srv_paid_def)
  have l: "length (take 20 COMMON_PORTS) = 20" by (simp add: COMMON_PORTS_def)
  from ports_only_in_deep_profile
    [where tgt = "''93.184.216.34''" and sid = "''cs_test_1''" and srv = srv_paid
       and req = "deep_req ''93.184.216.34'' (Some ''cs_test_1'')" and cfg = cfg_nokey
       and e = env_mixed]
    m r
  obtain out tr where "deepscan cfg_nokey srv_paid env_mixed
      (deep_req ''93.184.216.34'' (Some ''cs_test_1'')) = (Some (json_ok out), tr)"
    "filter is_connect tr = map (\<lambda>p. SocketConnect p ''93.184.216.34'') (take 20 COMMON_PORTS)"
    by blast
  then have 1: "filter is_connect (snd (deepscan cfg_nokey srv_paid env_mixed
         (deep_req ''93.184.216.34'' (Some ''cs_test_1'')))) =
       map (\<lambda>p. SocketConnect p ''93.184.216.34'') (take 20 COMMON_PORTS)"
    by simp
  note basic = ports_only_in_deep_profile
    [where e = env_mixed and req = "basic_req ''93.184.216.34''"]
  from basic
  have 2: "filter is_connect (snd (scan env_mixed (basic_req ''93.184.216.34''))) = []"
    by blast
  have "req_target (basic_req ''93.184.216.34'') = Some ''93.184.216.34''"
    "''93.184.216.34'' \<noteq> []"
    by (simp_all add: basic_req_def)
  from scan_valid [OF this, of env_mixed]
  have "(\<exists>out. fst (scan env_mixed (basic_req ''93.184.216.34'')) = Some (json_ok out))
      \<or> fst (scan env_mixed (basic_req ''93.184.216.34'')) =
          Some \<lparr>code = 500, body = ErrorBody ''Cannot convert object to primitive value''\<rparr>"
    by (auto simp: json_error_def cannot_convert_def)
  moreover have "fst (scan env_mixed (basic_req ''93.184.216.34'')) \<noteq>
      Some \<lparr>code = 500, body = ErrorBody ''Cannot convert object to primitive value''\<rparr>"
    by code_simp
  ultimately
  obtain out where o: "fst (scan env_mixed (basic_req ''93.184.216.34'')) = Some (json_ok out)"
    by blast
  with basic have "details out = None" by blast
  with o have 3: "\<exists>out. fst (scan env_mixed (basic_req ''93.184.216.34'')) = Some (json_ok out)
         \<and> details out = None"
    by blast
  show ?thesis
    by (intro conjI m r(1) r(4) 1 l 2 3)
qed

subsection \<open>Score of a deep scan\<close>

text \<open>
  Claim C10. Every deep-profile scan that passes the checks on its input and its session
  answers with score exactly 50, whatever the collaborators return: the deep record keeps
  its results under \<open>details\<close> and has neither \<open>checks\<close> nor a top-level \<open>geo\<close>, the
  only members the score reads.
\<close>

theorem deep_score_is_50:
  assumes "req_target req = Some tgt" "tgt \<noteq> []" "req_session_id req = Some sid" "sid \<noteq> []"
    "sid \<in> paidSessions srv"
  shows "\<exists>out tr. deepscan cfg srv e req = (Some (json_ok out), tr) \<and> score out = Some 50
           \<and> checks out = None \<and> geo out = None \<and> heuristicScore out = Success 50"
  by (rule deep_valid [OF assms])

theorem deep_score_is_50_witness:
  "req_target (deep_req ''example.com'' (Some ''cs_test_1'')) = Some ''example.com''
   \<and> ''cs_test_1'' \<in> paidSessions srv_paid
   \<and> (\<exists>out tr. deepscan cfg_key srv_paid env_down (deep_req ''example.com'' (Some ''cs_test_1''))
          = (Some (json_ok out), tr) \<and> score out = Some 50)
   \<and> (\<exists>out tr. deepscan cfg_key srv_paid env_up (deep_req ''example.com'' (Some ''cs_test_1''))
          = (Some (json_ok out), tr) \<and> score out = Some 50)
   \<and> (\<exists>out tr. deepscan cfg_key srv_paid env_bad_isp
          (deep_req ''example.com'' (Some ''cs_test_1''))
          = (Some (json_ok out), tr) \<and> score out = Some 50)"
proof -
  have r: "req_target (deep_req ''example.com'' (Some ''cs_test_1'')) = Some ''example.com''"
    "''example.com'' \<noteq> []"
    "req_session_id (deep_req ''example.com'' (Some ''cs_test_1'')) = Some ''cs_test_1''"
    "''cs_test_1'' \<noteq> []" "''cs_test_1'' \<in> paidSessions srv_paid"
    by (simp_all add: deep_req_def srv_paid_def)
  from deep_score_is_50 [OF r, of cfg_key env_down] deep_score_is_50 [OF r, of cfg_key env_up]
    deep_score_is_50 [OF r, of cfg_key env_bad_isp] r
  show ?thesis by blast
qed

end
